theory Spec2Isabelle
  imports Main "HOL-Library.Word" "HOL-Library.Sublist"
begin

unbundle bit_operations_syntax

section \<open>Docker log de-multiplexing (routes/api/self-update/progress/+server.ts)\<close>

text \<open>
  \<^verbatim>\<open>stripDockerLogHeaders(raw: Uint8Array): string\<close>.  A \<^verbatim>\<open>Uint8Array\<close> is a list of
  bytes.  A JavaScript string is a list of UTF-16 code units, modelled as natural numbers.
  \<^verbatim>\<open>TextDecoder().decode\<close> belongs to the platform, not to the repository: it is the
  parameter \<open>dec\<close> of the model.
\<close>

type_synonym byte = "8 word"
type_synonym jsstring = "nat list"

text \<open>An indexed read of a typed array is \<^verbatim>\<open>undefined\<close> (here \<open>None\<close>) out of range.\<close>

definition js_index :: "byte list \<Rightarrow> nat \<Rightarrow> byte option" where
  "js_index raw i = (if i < length raw then Some (raw ! i) else None)"

text \<open>\<^verbatim>\<open>streamType <= 2\<close>: a comparison with \<^verbatim>\<open>undefined\<close> is false.\<close>

fun le_two :: "byte option \<Rightarrow> bool" where
  "le_two None = False"
| "le_two (Some b) = (b \<le> 2)"

text \<open>The operands of \<^verbatim>\<open><<\<close> and \<^verbatim>\<open>|\<close> are converted to 32-bit integers;
  \<^verbatim>\<open>undefined\<close> converts to 0.\<close>

fun toInt32 :: "byte option \<Rightarrow> 32 word" where
  "toInt32 None = 0"
| "toInt32 (Some b) = ucast b"

text \<open>
  \<^verbatim>\<open>(raw[offset + 4] << 24) | (raw[offset + 5] << 16) | (raw[offset + 6] << 8) | raw[offset + 7]\<close>:
  the result of the bitwise operators is a signed 32-bit integer.
\<close>

definition frameSize :: "byte list \<Rightarrow> nat \<Rightarrow> int" where
  "frameSize raw offset =
     sint (push_bit 24 (toInt32 (js_index raw (offset + 4)))
           OR push_bit 16 (toInt32 (js_index raw (offset + 5)))
           OR push_bit 8 (toInt32 (js_index raw (offset + 6)))
           OR toInt32 (js_index raw (offset + 7)))"

text \<open>\<^verbatim>\<open>raw.slice(a, b)\<close> clamps both ends to the array.\<close>

definition slice :: "byte list \<Rightarrow> nat \<Rightarrow> nat \<Rightarrow> byte list" where
  "slice raw a b = take (b - a) (drop a raw)"

text \<open>\<^verbatim>\<open>s.split('\n')\<close>: the pieces between line feeds; the empty string gives one empty piece.\<close>

fun split_nl :: "jsstring \<Rightarrow> jsstring list" where
  "split_nl [] = [[]]"
| "split_nl (c # cs) =
     (if c = 10 then [] # split_nl cs
      else (case split_nl cs of [] \<Rightarrow> [[c]] | l # ls \<Rightarrow> (c # l) # ls))"

text \<open>The code units that \<^verbatim>\<open>trim()\<close> strips: ECMAScript WhiteSpace and LineTerminator.\<close>

definition isWhite :: "nat \<Rightarrow> bool" where
  "isWhite c \<longleftrightarrow> c \<in> {9, 10, 11, 12, 13, 32, 160, 5760, 8232, 8233, 8239, 8287, 12288, 65279}
                 \<or> (8192 \<le> c \<and> c \<le> 8202)"

text \<open>\<^verbatim>\<open>if (line.trim())\<close>: the trimmed line is not the empty string.\<close>

definition nonBlank :: "jsstring \<Rightarrow> bool" where
  "nonBlank line = (\<exists>c \<in> set line. \<not> isWhite c)"

text \<open>The two identical \<^verbatim>\<open>for (const line of ...) if (line.trim()) lines.push(line)\<close> loops.\<close>

definition pushLines :: "jsstring list \<Rightarrow> jsstring \<Rightarrow> jsstring list" where
  "pushLines lines txt = lines @ filter nonBlank (split_nl txt)"

text \<open>\<^verbatim>\<open>lines.join('\n')\<close>.\<close>

fun join_nl :: "jsstring list \<Rightarrow> jsstring" where
  "join_nl [] = []"
| "join_nl [l] = l"
| "join_nl (l # ls) = l @ 10 # join_nl ls"

text \<open>
  The header test of one iteration, with the short-circuit order of the source: the
  length test, then \<^verbatim>\<open>raw[offset]\<close>, then the four size bytes, then the size test.
\<close>

definition isFrame :: "byte list \<Rightarrow> nat \<Rightarrow> bool" where
  "isFrame raw offset \<longleftrightarrow>
     offset + 8 \<le> length raw \<and> le_two (js_index raw offset) \<and>
     0 < frameSize raw offset \<and> int offset + 8 + frameSize raw offset \<le> int (length raw)"

text \<open>The indices the iteration at \<open>offset\<close> reads with \<^verbatim>\<open>raw[...]\<close>.\<close>

definition readsAt :: "byte list \<Rightarrow> nat \<Rightarrow> nat list" where
  "readsAt raw offset =
     (if offset + 8 \<le> length raw
      then offset # (if le_two (js_index raw offset)
                     then [offset + 4, offset + 5, offset + 6, offset + 7] else [])
      else [])"

text \<open>
  The \<^verbatim>\<open>while (offset < raw.length)\<close> loop.  The state is \<open>offset\<close> and \<open>lines\<close>; the
  second component of the result collects every index read, in order.
\<close>

function stripLoop ::
  "(byte list \<Rightarrow> jsstring) \<Rightarrow> byte list \<Rightarrow> nat \<Rightarrow> jsstring list \<Rightarrow> nat list
     \<Rightarrow> jsstring list \<times> nat list" where
  "stripLoop dec raw offset lines rd =
     (if offset < length raw then
        (if isFrame raw offset then
           stripLoop dec raw (offset + 8 + nat (frameSize raw offset))
             (pushLines lines
                (dec (slice raw (offset + 8) (offset + 8 + nat (frameSize raw offset)))))
             (rd @ readsAt raw offset)
         else (pushLines lines (dec (slice raw offset (length raw))), rd @ readsAt raw offset))
      else (lines, rd))"
  by pat_completeness auto
termination
  by (relation "measure (\<lambda>(dec, raw, offset, lines, rd). length raw - offset)")
     (auto simp: isFrame_def)

declare stripLoop.simps [simp del]

definition stripDockerLogHeaders :: "(byte list \<Rightarrow> jsstring) \<Rightarrow> byte list \<Rightarrow> jsstring" where
  "stripDockerLogHeaders dec raw = join_nl (fst (stripLoop dec raw 0 [] []))"

text \<open>The chunks of bytes handed to the decoder, in order: the frames' payloads, then
  possibly the undecodable rest.  Stated on its own, to compare the loop with.\<close>

function chunks :: "byte list \<Rightarrow> nat \<Rightarrow> byte list list" where
  "chunks raw offset =
     (if offset < length raw then
        (if isFrame raw offset
         then take (nat (frameSize raw offset)) (drop (offset + 8) raw)
              # chunks raw (offset + 8 + nat (frameSize raw offset))
         else [drop offset raw])
      else [])"
  by pat_completeness auto
termination
  by (relation "measure (\<lambda>(raw, offset). length raw - offset)") (auto simp: isFrame_def)

declare chunks.simps [simp del]

text \<open>A decoder for examples: every byte is taken as the code unit of the same number
  (what \<^verbatim>\<open>TextDecoder\<close> does on ASCII bytes).\<close>

definition ascii :: "byte list \<Rightarrow> jsstring" where
  "ascii bs = map unat bs"

section \<open>Container auto-update (lib/server/scheduler/tasks/container-update.ts)\<close>

subsection \<open>Values\<close>

text \<open>
  \<^verbatim>\<open>VulnerabilityCriteria\<close> is declared in \<^verbatim>\<open>db\<close>, which is not among the sources.  The
  source names \<^verbatim>\<open>'never'\<close> and \<^verbatim>\<open>'more_than_current'\<close>; the design document names the
  others: any known vulnerability, and the severity thresholds.
\<close>

datatype severity = Critical | High | Medium | Low

datatype VulnerabilityCriteria = Never | AnyKnown | MoreThanCurrent | AtOrAbove severity

text \<open>\<^verbatim>\<open>VulnerabilitySeverity\<close>: the counts of one scan summary.\<close>

record VulnerabilitySeverity =
  critical :: nat
  high :: nat
  medium :: nat
  low :: nat
  negligible :: nat
  unknown :: nat

text \<open>\<^verbatim>\<open>ScanResult\<close>; the list of single vulnerabilities is carried along unread and is left out.\<close>

record ScanResult =
  sr_imageName :: string
  sr_scanner :: string
  sr_scannedAt :: string
  sr_summary :: VulnerabilitySeverity
  sr_error :: "string option"

text \<open>The progress events of \<^verbatim>\<open>scanImage\<close>.\<close>

record ScanProgress =
  sp_scanner :: "string option"
  sp_message :: "string option"
  sp_output :: "string option"

datatype ExecStatus = running | success | failed | skipped

text \<open>The per-scanner rows \<^verbatim>\<open>scannerResults\<close> of the details.\<close>

record ScannerRow =
  row_scanner :: string
  row_critical :: nat
  row_high :: nat
  row_medium :: nat
  row_low :: nat
  row_negligible :: nat
  row_unknown :: nat

text \<open>\<^verbatim>\<open>details.scanResult\<close>.\<close>

record ScanDetails =
  sd_summary :: VulnerabilitySeverity
  sd_scanners :: "string list"
  sd_scannedAt :: "string option"
  sd_scannerResults :: "ScannerRow list"

text \<open>
  The \<^verbatim>\<open>details\<close> object of an execution.  A field the source leaves out is \<open>None\<close>.
  \<open>d_summary\<close> is \<^verbatim>\<open>{ checked, updated, blocked, failed }\<close>; \<open>d_containerStatus\<close>,
  \<open>d_containerBlockReason\<close> and \<open>d_containerRows\<close> are the fields of the one entry of
  \<^verbatim>\<open>containers\<close> (its \<^verbatim>\<open>name\<close> is the container name of the run).
\<close>

record Details =
  d_reason :: "string option"
  d_mode :: "string option"
  d_blockReason :: "string option"
  d_newDigest :: "string option"
  d_vulnerabilityCriteria :: "VulnerabilityCriteria option"
  d_summary :: "(nat \<times> nat \<times> nat \<times> nat) option"
  d_containerStatus :: "string option"
  d_containerBlockReason :: "string option"
  d_containerRows :: "ScannerRow list option"
  d_scanResult :: "ScanDetails option"

text \<open>
  The argument of \<^verbatim>\<open>updateScheduleExecution\<close>.  The clock is not modelled:
  \<open>u_startedAt\<close> and \<open>u_completedAt\<close> say whether the time stamp (and, for completion,
  the duration) is part of the write.
\<close>

record ExecUpdate =
  u_status :: "ExecStatus option"
  u_startedAt :: bool
  u_completedAt :: bool
  u_errorMessage :: "string option"
  u_details :: "Details option"

text \<open>An entry of \<^verbatim>\<open>listContainers\<close>.\<close>

record ContainerInfo =
  ci_id :: string
  ci_name :: string

text \<open>One entry of \<^verbatim>\<open>NetworkSettings.Networks\<close>.\<close>

record NetConf =
  nc_Aliases :: "string list option"
  nc_DNSNames :: "string list option"
  nc_IPv4Address :: "string option"
  nc_IPv6Address :: "string option"
  nc_GwPriority :: "int option"

text \<open>The fields of \<^verbatim>\<open>inspectContainer\<close>'s answer that the task reads.\<close>

record InspectData =
  i_ConfigImage :: "string option"
  i_Image :: string
  i_Labels :: "(string \<times> string) list"
  i_Running :: bool
  i_NetworkMode :: "string option"
  i_Networks :: "(string \<times> NetConf) list"

record DeviceRequest =
  dr_driver :: "string option"
  dr_count :: int
  dr_capabilities :: "string list list option"

text \<open>The fields of \<^verbatim>\<open>extractContainerOptions\<close>' result that the task reads.\<close>

record ContainerOptions =
  co_networkAliases :: "string list option"
  co_networkIpv4Address :: "string option"
  co_macAddress :: "string option"
  co_networkGwPriority :: "int option"
  co_extraHosts :: "string list option"
  co_deviceRequests :: "DeviceRequest list option"

text \<open>The local \<^verbatim>\<open>interface NetworkInfo\<close> of \<^verbatim>\<open>recreateContainer\<close>.\<close>

record NetworkInfo =
  ni_name :: string
  ni_aliases :: "string list"
  ni_ipv4Address :: "string option"
  ni_ipv6Address :: "string option"
  ni_gwPriority :: "int option"

text \<open>The answer of \<^verbatim>\<open>checkImageUpdateAvailable\<close>.\<close>

record RegistryCheck =
  rc_isLocalImage :: bool
  rc_error :: "string option"
  rc_hasUpdate :: bool
  rc_registryDigest :: "string option"

text \<open>The answers of \<^verbatim>\<open>getStackComposeFile\<close> and \<^verbatim>\<open>startStack\<close>.\<close>

record ComposeFile =
  cf_success :: bool
  cf_content :: "string option"

record StackResult =
  st_success :: bool
  st_output :: "string option"
  st_error :: "string option"

datatype SystemContainer = dockhand | hawser

subsection \<open>The engine, the ledger and the collaborators\<close>

text \<open>
  A container of the engine: its id, the options it was created from (\<open>None\<close> for a
  container that existed before the run), whether it runs, and the networks connected
  after creation.
\<close>

record Container =
  k_id :: string
  k_options :: "ContainerOptions option"
  k_running :: bool
  k_connected :: "NetworkInfo list"

text \<open>Every call of a collaborator, in the order the task makes them.\<close>

datatype Call =
    CLastChecked string
  | CListContainers
  | CInspect string
  | CSettings
  | CRegistryCheck string string
  | CPull string
  | CImageIdByTag string
  | CTag string string string
  | CScan string
  | CSaveScan string string
  | CCachedScan string
  | CRemoveTempImage string
  | CNotify string
  | CLastUpdated string
  | CComposeFile string
  | CStartStack string
  | CStop string
  | CRemoveContainer string
  | CCreate
  | CConnect string string
  | CStart string

text \<open>
  The state a run works on: the engine's tags (a reference \<open>(repository, tag)\<close> to an image
  id), images and containers; the writes to the execution record the run creates, oldest
  first; the log lines; and the calls made.
\<close>

record World =
  tags :: "string \<times> string \<rightharpoonup> string"
  images :: "string set"
  conts :: "Container list"
  ledger :: "ExecUpdate list"
  logs :: "string list"
  calls :: "Call list"

text \<open>
  The collaborators that are not among the sources (\<^verbatim>\<open>db\<close>, \<^verbatim>\<open>docker\<close>, \<^verbatim>\<open>scanner\<close>,
  \<^verbatim>\<open>notifications\<close>, \<^verbatim>\<open>stacks\<close>, \<^verbatim>\<open>update-utils\<close>) are parameters of the model.  An
  awaited call either resolves or rejects with an \<^verbatim>\<open>Error\<close>: \<open>Inl message\<close>, or
  \<open>Some message\<close> where the call returns nothing.  The pure helpers are functions.
  The task may ask the engine twice to remove the same image (the blocked update and the
  \<^verbatim>\<open>catch\<close> of the scan): the answer to a removal depends on the reference and on the
  number of earlier removals of that reference in the run.
\<close>

record Env =
  e_updateAutoUpdateLastChecked :: "string \<Rightarrow> string option"
  e_listContainers :: "string + ContainerInfo list"
  e_inspectContainer :: "string \<Rightarrow> string + InspectData"
  e_isSystemContainer :: "string \<Rightarrow> SystemContainer option"
  e_isDigestBasedImage :: "string \<Rightarrow> bool"
  e_settings :: "string + string \<times> VulnerabilityCriteria option"
  e_checkImageUpdateAvailable :: "string \<Rightarrow> string \<Rightarrow> string + RegistryCheck"
  e_getTempImageTag :: "string \<Rightarrow> string"
  e_parseImageNameAndTag :: "string \<Rightarrow> string \<times> string"
  e_pullImage :: "string \<Rightarrow> string + string"
  e_getImageIdByTag :: "string \<Rightarrow> bool"
  e_tagImage :: "string \<Rightarrow> string \<Rightarrow> string \<Rightarrow> string option"
  e_scanImage :: "string \<Rightarrow> ScanProgress list \<times> (string + ScanResult list)"
  e_combineScanSummaries :: "ScanResult list \<Rightarrow> VulnerabilitySeverity"
  e_saveVulnerabilityScan :: "string \<Rightarrow> ScanResult \<Rightarrow> string option"
  e_getCombinedScanForImage :: "string \<Rightarrow> string + VulnerabilitySeverity option"
  e_shouldBlockUpdate ::
    "VulnerabilityCriteria \<Rightarrow> VulnerabilitySeverity \<Rightarrow> VulnerabilitySeverity option
       \<Rightarrow> bool \<times> string"
  e_removeTempImage :: "string \<Rightarrow> nat \<Rightarrow> string option"
  e_sendEventNotification :: "string \<Rightarrow> string option"
  e_updateAutoUpdateLastUpdated :: "string \<Rightarrow> string option"
  e_getStackComposeFile :: "string \<Rightarrow> string + ComposeFile"
  e_startStack :: "string \<Rightarrow> string + StackResult"
  e_stopContainer :: "string \<Rightarrow> string option"
  e_removeContainer :: "string \<Rightarrow> string option"
  e_extractContainerOptions :: "InspectData \<Rightarrow> ContainerOptions"
  e_createContainer :: "ContainerOptions \<Rightarrow> string + string"
  e_connectContainerToNetwork :: "string \<Rightarrow> string \<Rightarrow> string option"
  e_start :: "string \<Rightarrow> string option"

subsection \<open>Control flow\<close>

text \<open>
  How a piece of the \<^verbatim>\<open>async\<close> function ends: it completes with a value, it throws an
  \<^verbatim>\<open>Error\<close> with a message, or it executes \<^verbatim>\<open>return\<close>, which leaves the whole function
  through every enclosing \<^verbatim>\<open>try\<close>.
\<close>

datatype 'a Completion = Val 'a | Throw string | Return

type_synonym 'a Prog = "World \<Rightarrow> 'a Completion \<times> World"

definition yield :: "'a \<Rightarrow> 'a Prog" where
  "yield x w = (Val x, w)"

definition throw :: "string \<Rightarrow> 'a Prog" where
  "throw msg w = (Throw msg, w)"

definition returnNow :: "'a Prog" where
  "returnNow w = (Return, w)"

definition andThen :: "'a Prog \<Rightarrow> ('a \<Rightarrow> 'b Prog) \<Rightarrow> 'b Prog" where
  "andThen m f w =
     (case m w of
        (Val x, w') \<Rightarrow> f x w'
      | (Throw msg, w') \<Rightarrow> (Throw msg, w')
      | (Return, w') \<Rightarrow> (Return, w'))"

text \<open>\<^verbatim>\<open>try { m } catch (error) { h error.message }\<close>.\<close>

definition tryCatch :: "'a Prog \<Rightarrow> (string \<Rightarrow> 'a Prog) \<Rightarrow> 'a Prog" where
  "tryCatch m h w =
     (case m w of
        (Throw msg, w') \<Rightarrow> h msg w'
      | r \<Rightarrow> r)"

text \<open>A sequence of statements.\<close>

fun doAll :: "unit Prog list \<Rightarrow> unit Prog" where
  "doAll [] = yield ()"
| "doAll (m # ms) = andThen m (\<lambda>_. doAll ms)"

text \<open>\<^verbatim>\<open>if (c) { m }\<close> without \<^verbatim>\<open>else\<close>.\<close>

definition whenDo :: "bool \<Rightarrow> unit Prog \<Rightarrow> unit Prog" where
  "whenDo c m = (if c then m else yield ())"

text \<open>A call is recorded, then it rejects or resolves.\<close>

definition record_call :: "Call \<Rightarrow> unit Prog" where
  "record_call c w = (Val (), w\<lparr>calls := calls w @ [c]\<rparr>)"

definition outcome :: "string option \<Rightarrow> unit Prog" where
  "outcome r = (case r of None \<Rightarrow> yield () | Some msg \<Rightarrow> throw msg)"

definition answer :: "string + 'a \<Rightarrow> 'a Prog" where
  "answer r = (case r of Inl msg \<Rightarrow> throw msg | Inr x \<Rightarrow> yield x)"

definition modify :: "(World \<Rightarrow> World) \<Rightarrow> unit Prog" where
  "modify f w = (Val (), f w)"

subsection \<open>JavaScript helpers\<close>

text \<open>A string in a condition: \<^verbatim>\<open>undefined\<close> and the empty string are false.\<close>

fun truthy :: "string option \<Rightarrow> bool" where
  "truthy None = False"
| "truthy (Some s) = (s \<noteq> [])"

text \<open>\<^verbatim>\<open>x || undefined\<close> on a string.\<close>

definition orUndefined :: "string option \<Rightarrow> string option" where
  "orUndefined x = (if truthy x then x else None)"

text \<open>\<^verbatim>\<open>x || d\<close> on a string.\<close>

definition orElse :: "string option \<Rightarrow> string \<Rightarrow> string" where
  "orElse x d = (case x of None \<Rightarrow> d | Some s \<Rightarrow> if s = [] then d else s)"

definition digitChar :: "nat \<Rightarrow> char" where
  "digitChar d =
     (if d = 0 then CHR ''0'' else if d = 1 then CHR ''1'' else if d = 2 then CHR ''2''
      else if d = 3 then CHR ''3'' else if d = 4 then CHR ''4'' else if d = 5 then CHR ''5''
      else if d = 6 then CHR ''6'' else if d = 7 then CHR ''7'' else if d = 8 then CHR ''8''
      else CHR ''9'')"

fun showNat :: "nat \<Rightarrow> string" where
  "showNat n = (if n < 10 then [digitChar n] else showNat (n div 10) @ [digitChar (n mod 10)])"

declare showNat.simps [simp del]

definition showInt :: "int \<Rightarrow> string" where
  "showInt i = (if i < 0 then CHR ''-'' # showNat (nat (- i)) else showNat (nat i))"

text \<open>\<^verbatim>\<open>xs.join(sep)\<close>.\<close>

fun joinWith :: "string \<Rightarrow> string list \<Rightarrow> string" where
  "joinWith sep [] = []"
| "joinWith sep [x] = x"
| "joinWith sep (x # xs) = x @ sep @ joinWith sep xs"

text \<open>\<^verbatim>\<open>s.includes(p)\<close>.\<close>

fun str_includes :: "string \<Rightarrow> string \<Rightarrow> bool" where
  "str_includes [] p = (p = [])"
| "str_includes (c # cs) p = (prefix p (c # cs) \<or> str_includes cs p)"

text \<open>\<^verbatim>\<open>s.split('\n')\<close> and \<^verbatim>\<open>l.trim()\<close> on the byte strings of the model; of the white space
  only the ASCII characters are recognised.\<close>

fun splitLines :: "string \<Rightarrow> string list" where
  "splitLines [] = [[]]"
| "splitLines (c # cs) =
     (if c = CHR 0x0A then [] # splitLines cs
      else (case splitLines cs of [] \<Rightarrow> [[c]] | l # ls \<Rightarrow> (c # l) # ls))"

definition isSpaceChar :: "char \<Rightarrow> bool" where
  "isSpaceChar c \<longleftrightarrow> c \<in> {CHR 0x09, CHR 0x0A, CHR 0x0B, CHR 0x0C, CHR 0x0D, CHR 0x20}"

definition trimmedNonEmpty :: "string \<Rightarrow> bool" where
  "trimmedNonEmpty l = (\<exists>c \<in> set l. \<not> isSpaceChar c)"

text \<open>A value in a template string: \<^verbatim>\<open>undefined\<close> prints as the word.\<close>

definition showOpt :: "string option \<Rightarrow> string" where
  "showOpt x = (case x of None \<Rightarrow> ''undefined'' | Some s \<Rightarrow> s)"

subsection \<open>The execution record (\<^verbatim>\<open>db\<close>)\<close>

text \<open>
  Modelled from the spec: the ledger interface \<^verbatim>\<open>begin\<close>, \<^verbatim>\<open>appendLog\<close>, \<^verbatim>\<open>complete\<close> of the
  execution record (\<^verbatim>\<open>createScheduleExecution\<close>, \<^verbatim>\<open>appendScheduleExecutionLog\<close>,
  \<^verbatim>\<open>updateScheduleExecution\<close> of \<^verbatim>\<open>db\<close>, not among the sources).  The record is the state the
  run reports into: a write is appended to the ledger.
\<close>

definition createScheduleExecution :: "unit Prog" where
  "createScheduleExecution =
     modify (\<lambda>w. w\<lparr>ledger := ledger w @
       [\<lparr>u_status = Some running, u_startedAt = False, u_completedAt = False,
         u_errorMessage = None, u_details = None\<rparr>]\<rparr>)"

definition updateScheduleExecution :: "ExecUpdate \<Rightarrow> unit Prog" where
  "updateScheduleExecution u = modify (\<lambda>w. w\<lparr>ledger := ledger w @ [u]\<rparr>)"

text \<open>The local function \<^verbatim>\<open>log\<close>: the line goes to the console and to the execution's log
  (the time stamp in front of it is left out).\<close>

definition log :: "string \<Rightarrow> unit Prog" where
  "log message = modify (\<lambda>w. w\<lparr>logs := logs w @ [message]\<rparr>)"

text \<open>
  \<^verbatim>\<open>log?.(message)\<close> in the exported helpers, whose \<^verbatim>\<open>log\<close> parameter is optional.  The one
  function that this file passes for it is the local \<^verbatim>\<open>log\<close> of the task: a logger is
  absent, or it is that function.
\<close>

datatype Logger = TaskLog

definition optLog :: "Logger option \<Rightarrow> string \<Rightarrow> unit Prog" where
  "optLog lg message = (case lg of None \<Rightarrow> yield () | Some TaskLog \<Rightarrow> log message)"

text \<open>Several lines logged one after the other.\<close>

definition logAll :: "Logger option \<Rightarrow> string list \<Rightarrow> unit Prog" where
  "logAll lg messages = doAll (map (optLog lg) messages)"

text \<open>A write with \<^verbatim>\<open>completedAt\<close> and \<^verbatim>\<open>duration\<close>.\<close>

definition completed :: "ExecStatus \<Rightarrow> string option \<Rightarrow> Details option \<Rightarrow> ExecUpdate" where
  "completed st err det =
     \<lparr>u_status = Some st, u_startedAt = False, u_completedAt = True,
      u_errorMessage = err, u_details = det\<rparr>"

definition noDetails :: Details where
  "noDetails =
     \<lparr>d_reason = None, d_mode = None, d_blockReason = None, d_newDigest = None,
      d_vulnerabilityCriteria = None, d_summary = None, d_containerStatus = None,
      d_containerBlockReason = None, d_containerRows = None, d_scanResult = None\<rparr>"

text \<open>\<^verbatim>\<open>details: { reason }\<close>.\<close>

definition reasonDetails :: "string \<Rightarrow> Details" where
  "reasonDetails r = noDetails\<lparr>d_reason := Some r\<rparr>"

subsection \<open>The engine (\<^verbatim>\<open>docker\<close>)\<close>

definition resolveTag :: "World \<Rightarrow> string \<times> string \<Rightarrow> string option" where
  "resolveTag w ref = tags w ref"

definition setTag :: "string \<times> string \<Rightarrow> string \<Rightarrow> World \<Rightarrow> World" where
  "setTag ref imageId w = w\<lparr>tags := (tags w)(ref \<mapsto> imageId)\<rparr>"

text \<open>
  Modelled from the spec: removing an image of the engine (\<^verbatim>\<open>removeTempImage\<close> of \<^verbatim>\<open>docker\<close>,
  not among the sources).  Given the id of a present image, the image goes and with it
  every tag that resolves to it; given a reference, that tag goes.
\<close>

definition removeImage :: "Env \<Rightarrow> string \<Rightarrow> World \<Rightarrow> World" where
  "removeImage e x w =
     (if x \<in> images w
      then w\<lparr>images := images w - {x},
             tags := (\<lambda>r. if tags w r = Some x then None else tags w r)\<rparr>
      else w\<lparr>tags := (tags w)(e_parseImageNameAndTag e x := None)\<rparr>)"

definition updateAutoUpdateLastChecked :: "Env \<Rightarrow> string \<Rightarrow> unit Prog" where
  "updateAutoUpdateLastChecked e name =
     andThen (record_call (CLastChecked name)) (\<lambda>_.
     outcome (e_updateAutoUpdateLastChecked e name))"

definition updateAutoUpdateLastUpdated :: "Env \<Rightarrow> string \<Rightarrow> unit Prog" where
  "updateAutoUpdateLastUpdated e name =
     andThen (record_call (CLastUpdated name)) (\<lambda>_.
     outcome (e_updateAutoUpdateLastUpdated e name))"

definition listContainers :: "Env \<Rightarrow> ContainerInfo list Prog" where
  "listContainers e = andThen (record_call CListContainers) (\<lambda>_. answer (e_listContainers e))"

definition inspectContainer :: "Env \<Rightarrow> string \<Rightarrow> InspectData Prog" where
  "inspectContainer e cid =
     andThen (record_call (CInspect cid)) (\<lambda>_. answer (e_inspectContainer e cid))"

text \<open>\<^verbatim>\<open>Promise.all([getScannerSettings(envId), getAutoUpdateSettingById(settingId)])\<close>: the
  scanner's name and the setting's criteria, or the rejection.\<close>

definition getSettings :: "Env \<Rightarrow> (string \<times> VulnerabilityCriteria option) Prog" where
  "getSettings e = andThen (record_call CSettings) (\<lambda>_. answer (e_settings e))"

definition checkImageUpdateAvailable :: "Env \<Rightarrow> string \<Rightarrow> string \<Rightarrow> RegistryCheck Prog" where
  "checkImageUpdateAvailable e imageName currentImageId =
     andThen (record_call (CRegistryCheck imageName currentImageId)) (\<lambda>_.
     answer (e_checkImageUpdateAvailable e imageName currentImageId))"

text \<open>
  Modelled from the spec: \<^verbatim>\<open>pullImage\<close> of \<^verbatim>\<open>docker\<close>, not among the sources.  A pull that
  succeeds stores the pulled image and points the pulled reference at it (step 1 of the
  Safe-Pull Tag Guard: it "necessarily overwrites the tag pointer"); a pull that fails
  changes nothing.
\<close>

definition pullImage :: "Env \<Rightarrow> string \<Rightarrow> unit Prog" where
  "pullImage e imageName =
     andThen (record_call (CPull imageName)) (\<lambda>_.
     andThen (answer (e_pullImage e imageName)) (\<lambda>pulledId.
     modify (\<lambda>w. (setTag (e_parseImageNameAndTag e imageName) pulledId w)
                   \<lparr>images := insert pulledId (images w)\<rparr>)))"

text \<open>
  Modelled from the spec: \<^verbatim>\<open>getImageIdByTag\<close> of \<^verbatim>\<open>docker\<close>, not among the sources: the image
  id the reference resolves to, or \<^verbatim>\<open>null\<close> (also when the lookup itself fails).
\<close>

definition getImageIdByTag :: "Env \<Rightarrow> string \<Rightarrow> string option Prog" where
  "getImageIdByTag e imageName =
     andThen (record_call (CImageIdByTag imageName)) (\<lambda>_.
     (\<lambda>w. (Val (if e_getImageIdByTag e imageName
                then resolveTag w (e_parseImageNameAndTag e imageName) else None), w)))"

text \<open>
  Modelled from the spec: \<^verbatim>\<open>tagImage\<close> of \<^verbatim>\<open>docker\<close>, not among the sources: it re-points the
  tag \<^verbatim>\<open>repo:tag\<close> to the image id, or fails and changes nothing.
\<close>

definition tagImage :: "Env \<Rightarrow> string \<Rightarrow> string \<Rightarrow> string \<Rightarrow> unit Prog" where
  "tagImage e imageId repo tag =
     andThen (record_call (CTag imageId repo tag)) (\<lambda>_.
     andThen (outcome (e_tagImage e imageId repo tag)) (\<lambda>_.
     modify (setTag (repo, tag) imageId)))"

text \<open>\<^verbatim>\<open>removeTempImage(imageIdOrTag, envId)\<close>: the call is recorded, the engine answers
  this attempt, and on success the image or the tag goes.\<close>

definition removeTempImage :: "Env \<Rightarrow> string \<Rightarrow> unit Prog" where
  "removeTempImage e x w =
     andThen (record_call (CRemoveTempImage x)) (\<lambda>_.
     andThen (outcome (e_removeTempImage e x (count_list (calls w) (CRemoveTempImage x)))) (\<lambda>_.
     modify (removeImage e x))) w"

text \<open>\<^verbatim>\<open>scanImage(ref, envId, onProgress)\<close>: the progress events go to the callback, then the
  results come, or the scan fails.  The callbacks of the task only log: a callback is
  given by the lines it logs for an event.\<close>

definition scanImage :: "Env \<Rightarrow> string \<Rightarrow> (ScanProgress \<Rightarrow> string list) \<Rightarrow> ScanResult list Prog" where
  "scanImage e ref onProgress =
     andThen (record_call (CScan ref)) (\<lambda>_.
     andThen (logAll (Some TaskLog) (concat (map onProgress (fst (e_scanImage e ref))))) (\<lambda>_.
     answer (snd (e_scanImage e ref))))"

definition saveVulnerabilityScan :: "Env \<Rightarrow> string \<Rightarrow> ScanResult \<Rightarrow> unit Prog" where
  "saveVulnerabilityScan e imageId result =
     andThen (record_call (CSaveScan imageId (sr_scanner result))) (\<lambda>_.
     outcome (e_saveVulnerabilityScan e imageId result))"

definition getCombinedScanForImage :: "Env \<Rightarrow> string \<Rightarrow> VulnerabilitySeverity option Prog" where
  "getCombinedScanForImage e imageId =
     andThen (record_call (CCachedScan imageId)) (\<lambda>_.
     answer (e_getCombinedScanForImage e imageId))"

text \<open>\<^verbatim>\<open>sendEventNotification(eventType, { title, message, type }, envId)\<close>; the texts of the
  notification are left out.\<close>

definition sendEventNotification :: "Env \<Rightarrow> string \<Rightarrow> unit Prog" where
  "sendEventNotification e eventType =
     andThen (record_call (CNotify eventType)) (\<lambda>_.
     outcome (e_sendEventNotification e eventType))"

definition getStackComposeFile :: "Env \<Rightarrow> string \<Rightarrow> ComposeFile Prog" where
  "getStackComposeFile e stackName =
     andThen (record_call (CComposeFile stackName)) (\<lambda>_.
     answer (e_getStackComposeFile e stackName))"

text \<open>\<^verbatim>\<open>startStack\<close> runs \<^verbatim>\<open>docker compose up -d\<close>; what that does to the containers of the
  stack is the engine's own convergence and is not modelled.\<close>

definition startStack :: "Env \<Rightarrow> string \<Rightarrow> StackResult Prog" where
  "startStack e stackName =
     andThen (record_call (CStartStack stackName)) (\<lambda>_. answer (e_startStack e stackName))"

text \<open>
  Modelled from the spec: the container operations of the engine (\<^verbatim>\<open>stopContainer\<close>,
  \<^verbatim>\<open>removeContainer\<close>, \<^verbatim>\<open>createContainer\<close>, \<^verbatim>\<open>connectContainerToNetwork\<close> and the new container's
  \<^verbatim>\<open>start\<close> of \<^verbatim>\<open>docker\<close>, not among the sources).  A created container is not running until
  it is started.
\<close>

definition stopContainer :: "Env \<Rightarrow> string \<Rightarrow> unit Prog" where
  "stopContainer e cid =
     andThen (record_call (CStop cid)) (\<lambda>_.
     andThen (outcome (e_stopContainer e cid)) (\<lambda>_.
     modify (\<lambda>w. w\<lparr>conts := map (\<lambda>c. if k_id c = cid then c\<lparr>k_running := False\<rparr> else c)
                              (conts w)\<rparr>)))"

definition removeContainer :: "Env \<Rightarrow> string \<Rightarrow> unit Prog" where
  "removeContainer e cid =
     andThen (record_call (CRemoveContainer cid)) (\<lambda>_.
     andThen (outcome (e_removeContainer e cid)) (\<lambda>_.
     modify (\<lambda>w. w\<lparr>conts := filter (\<lambda>c. k_id c \<noteq> cid) (conts w)\<rparr>)))"

definition createContainer :: "Env \<Rightarrow> ContainerOptions \<Rightarrow> string Prog" where
  "createContainer e options =
     andThen (record_call CCreate) (\<lambda>_.
     andThen (answer (e_createContainer e options)) (\<lambda>newId.
     andThen (modify (\<lambda>w. w\<lparr>conts := conts w @
                [\<lparr>k_id = newId, k_options = Some options, k_running = False,
                  k_connected = []\<rparr>]\<rparr>)) (\<lambda>_.
     yield newId)))"

definition connectContainerToNetwork :: "Env \<Rightarrow> string \<Rightarrow> string \<Rightarrow> NetworkInfo \<Rightarrow> unit Prog" where
  "connectContainerToNetwork e networkName cid options =
     andThen (record_call (CConnect networkName cid)) (\<lambda>_.
     andThen (outcome (e_connectContainerToNetwork e networkName cid)) (\<lambda>_.
     modify (\<lambda>w. w\<lparr>conts := map (\<lambda>c. if k_id c = cid
                                      then c\<lparr>k_connected := k_connected c @ [options]\<rparr> else c)
                              (conts w)\<rparr>)))"

definition startContainer :: "Env \<Rightarrow> string \<Rightarrow> unit Prog" where
  "startContainer e cid =
     andThen (record_call (CStart cid)) (\<lambda>_.
     andThen (outcome (e_start e cid)) (\<lambda>_.
     modify (\<lambda>w. w\<lparr>conts := map (\<lambda>c. if k_id c = cid then c\<lparr>k_running := True\<rparr> else c)
                              (conts w)\<rparr>)))"

text \<open>The criteria and the kind of system container as they print in a log line.  The
  words of the severity thresholds are not in the sources: they are written as in the
  design document.\<close>

definition criteriaName :: "VulnerabilityCriteria \<Rightarrow> string" where
  "criteriaName c =
     (case c of
        Never \<Rightarrow> ''never''
      | AnyKnown \<Rightarrow> ''anyKnown''
      | MoreThanCurrent \<Rightarrow> ''more_than_current''
      | AtOrAbove Critical \<Rightarrow> ''critical''
      | AtOrAbove High \<Rightarrow> ''high''
      | AtOrAbove Medium \<Rightarrow> ''medium''
      | AtOrAbove Low \<Rightarrow> ''low'')"

definition systemName :: "SystemContainer \<Rightarrow> string" where
  "systemName s = (case s of dockhand \<Rightarrow> ''dockhand'' | hawser \<Rightarrow> ''hawser'')"

subsection \<open>recreateContainer\<close>

text \<open>\<^verbatim>\<open>containers.find(c => c.name === containerName)\<close>.\<close>

definition findContainer :: "ContainerInfo list \<Rightarrow> string \<Rightarrow> ContainerInfo option" where
  "findContainer containers containerName = find (\<lambda>c. ci_name c = containerName) containers"

definition isPrimary :: "string \<Rightarrow> string \<Rightarrow> bool" where
  "isPrimary primaryNetwork netName \<longleftrightarrow>
     netName = primaryNetwork \<or>
     (primaryNetwork = ''bridge'' \<and> (netName = ''bridge'' \<or> netName = ''default''))"

text \<open>The aliases of a secondary network: \<^verbatim>\<open>Aliases\<close> when it has entries, else
  \<^verbatim>\<open>DNSNames\<close>, without the container's ids; for a compose container the service name and
  \<^verbatim>\<open>project-service\<close> are added when missing.\<close>

definition secondaryAliases ::
  "string \<Rightarrow> string option \<Rightarrow> string option \<Rightarrow> NetConf \<Rightarrow> string list" where
  "secondaryAliases containerId composeProject composeService netConf =
     (let shortContainerId = take 12 containerId;
          named = (case nc_Aliases netConf of
                     Some (a # as) \<Rightarrow> a # as
                   | _ \<Rightarrow> (case nc_DNSNames netConf of Some ds \<Rightarrow> ds | None \<Rightarrow> []));
          kept = filter (\<lambda>a. a \<noteq> containerId \<and> a \<noteq> shortContainerId) named
      in if truthy composeProject \<and> truthy composeService then
           (let service = showOpt composeService;
                withService = (if service \<in> set kept then kept else kept @ [service]);
                projectService = showOpt composeProject @ ''-'' @ service
            in if projectService \<in> set withService then withService
               else withService @ [projectService])
         else kept)"

definition networkInfo :: "string \<Rightarrow> string option \<Rightarrow> string option \<Rightarrow> string \<Rightarrow> NetConf \<Rightarrow> NetworkInfo" where
  "networkInfo containerId composeProject composeService netName netConf =
     \<lparr>ni_name = netName,
      ni_aliases = secondaryAliases containerId composeProject composeService netConf,
      ni_ipv4Address = orUndefined (nc_IPv4Address netConf),
      ni_ipv6Address = orUndefined (nc_IPv6Address netConf),
      ni_gwPriority = (case nc_GwPriority netConf of
                         None \<Rightarrow> None
                       | Some g \<Rightarrow> if g \<noteq> 0 then Some g else None)\<rparr>"

text \<open>The log lines of the primary network.\<close>

definition primaryLines :: "ContainerOptions \<Rightarrow> string list" where
  "primaryLines containerOptions =
     (case co_networkAliases containerOptions of
        Some (a # as) \<Rightarrow> [''Primary network aliases: '' @ joinWith '', '' (a # as)]
      | _ \<Rightarrow> [])
     @ (if truthy (co_networkIpv4Address containerOptions)
        then [''Primary network static IPv4: ''
                @ showOpt (co_networkIpv4Address containerOptions)] else [])
     @ (if truthy (co_macAddress containerOptions)
        then [''Primary network MAC address: '' @ showOpt (co_macAddress containerOptions)]
        else [])
     @ (case co_networkGwPriority containerOptions of
          Some g \<Rightarrow> [''Primary network gateway priority: '' @ showInt g]
        | None \<Rightarrow> [])"

definition logPrimary :: "Logger option \<Rightarrow> ContainerOptions \<Rightarrow> unit Prog" where
  "logPrimary lg containerOptions = logAll lg (primaryLines containerOptions)"

text \<open>The loop over \<^verbatim>\<open>Object.entries(networkSettings)\<close>: it logs the primary network and
  collects the others in \<^verbatim>\<open>additionalNetworks\<close>.\<close>

fun collectNetworks ::
  "Logger option \<Rightarrow> ContainerOptions \<Rightarrow> string \<Rightarrow> string \<Rightarrow> string option
     \<Rightarrow> string option \<Rightarrow> (string \<times> NetConf) list \<Rightarrow> NetworkInfo list \<Rightarrow> NetworkInfo list Prog" where
  "collectNetworks lg containerOptions primaryNetwork containerId composeProject composeService
     [] additionalNetworks = yield additionalNetworks"
| "collectNetworks lg containerOptions primaryNetwork containerId composeProject composeService
     ((netName, netConf) # entries) additionalNetworks =
     (if isPrimary primaryNetwork netName then
        andThen (logPrimary lg containerOptions) (\<lambda>_.
        collectNetworks lg containerOptions primaryNetwork containerId composeProject
          composeService entries additionalNetworks)
      else
        collectNetworks lg containerOptions primaryNetwork containerId composeProject
          composeService entries
          (additionalNetworks
             @ [networkInfo containerId composeProject composeService netName netConf]))"

text \<open>One device request's log line.\<close>

definition deviceRequestLine :: "DeviceRequest \<Rightarrow> string" where
  "deviceRequestLine dr =
     (let caps = orElse (map_option (\<lambda>cs. joinWith '','' (concat cs)) (dr_capabilities dr))
                   ''none''
      in ''Device request: driver='' @ orElse (dr_driver dr) ''default''
           @ '', count='' @ showInt (dr_count dr)
           @ '', capabilities=['' @ caps @ '']'')"

text \<open>The lines logged between the loop over the networks and the creation: the
  networks to reconnect, the extra hosts and the device requests, each if present.\<close>

definition settingsLines :: "ContainerOptions \<Rightarrow> NetworkInfo list \<Rightarrow> string list" where
  "settingsLines containerOptions additionalNetworks =
     (if additionalNetworks \<noteq> []
      then [''Will reconnect to '' @ showNat (length additionalNetworks)
              @ '' additional network(s): ''
              @ joinWith '', '' (map ni_name additionalNetworks)]
      else [])
     @ (case co_extraHosts containerOptions of
          Some (h # hs) \<Rightarrow> [''Extra hosts: '' @ joinWith '', '' (h # hs)]
        | _ \<Rightarrow> [])
     @ (case co_deviceRequests containerOptions of
          Some drs \<Rightarrow> map deviceRequestLine drs
        | None \<Rightarrow> [])"

text \<open>The body of \<^verbatim>\<open>for (const netInfo of additionalNetworks)\<close>: the connection and its log
  lines are inside a \<^verbatim>\<open>try\<close> of their own, whose \<^verbatim>\<open>catch\<close> only logs.\<close>

definition connectedLines :: "NetworkInfo \<Rightarrow> string list" where
  "connectedLines netInfo =
     [''  Connected to: '' @ ni_name netInfo]
     @ (if ni_aliases netInfo \<noteq> []
        then [''    Aliases: '' @ joinWith '', '' (ni_aliases netInfo)] else [])
     @ (if truthy (ni_ipv4Address netInfo)
        then [''    Static IPv4: '' @ showOpt (ni_ipv4Address netInfo)] else [])
     @ (case ni_gwPriority netInfo of
          Some g \<Rightarrow> [''    Gateway priority: '' @ showInt g]
        | None \<Rightarrow> [])"

definition connectWarning :: "NetworkInfo \<Rightarrow> string \<Rightarrow> string" where
  "connectWarning netInfo message =
     ''  Warning: Failed to connect to network '' @ [CHR 0x22] @ ni_name netInfo
       @ [CHR 0x22] @ '': '' @ message"

definition reconnectOne ::
  "Env \<Rightarrow> Logger option \<Rightarrow> string \<Rightarrow> NetworkInfo \<Rightarrow> unit Prog" where
  "reconnectOne e lg newId netInfo =
     tryCatch
       (andThen (connectContainerToNetwork e (ni_name netInfo) newId netInfo) (\<lambda>_.
        logAll lg (connectedLines netInfo)))
       (\<lambda>message. optLog lg (connectWarning netInfo message))"

fun reconnectAll ::
  "Env \<Rightarrow> Logger option \<Rightarrow> string \<Rightarrow> NetworkInfo list \<Rightarrow> unit Prog" where
  "reconnectAll e lg newId [] = yield ()"
| "reconnectAll e lg newId (netInfo # rest) =
     andThen (reconnectOne e lg newId netInfo) (\<lambda>_. reconnectAll e lg newId rest)"

text \<open>The steps of \<^verbatim>\<open>recreateContainer\<close> once the container is found (inside its \<^verbatim>\<open>try\<close>).\<close>

definition recreateFound ::
  "Env \<Rightarrow> string \<Rightarrow> Logger option \<Rightarrow> ContainerInfo \<Rightarrow> bool Prog" where
  "recreateFound e containerName lg container =
     andThen (inspectContainer e (ci_id container)) (\<lambda>inspectData.
     let wasRunning = i_Running inspectData in
     andThen (optLog lg (''Recreating container: '' @ containerName @ '' (was running: ''
                           @ (if wasRunning then ''true'' else ''false'') @ '')'')) (\<lambda>_.
     andThen (optLog lg ''Preserving all container settings...'') (\<lambda>_.
     andThen (whenDo wasRunning
                (andThen (optLog lg ''Stopping container...'') (\<lambda>_.
                 stopContainer e (ci_id container)))) (\<lambda>_.
     andThen (optLog lg ''Removing old container...'') (\<lambda>_.
     andThen (removeContainer e (ci_id container)) (\<lambda>_.
     let containerOptions = e_extractContainerOptions e inspectData;
         primaryNetwork = orElse (i_NetworkMode inspectData) ''bridge'';
         composeProject = map_of (i_Labels inspectData) ''com.docker.compose.project'';
         composeService = map_of (i_Labels inspectData) ''com.docker.compose.service'' in
     andThen (collectNetworks lg containerOptions primaryNetwork (ci_id container)
                composeProject composeService (i_Networks inspectData) []) (\<lambda>additionalNetworks.
     andThen (logAll lg (settingsLines containerOptions additionalNetworks)) (\<lambda>_.
     andThen (optLog lg ''Creating new container with preserved settings...'') (\<lambda>_.
     andThen (createContainer e containerOptions) (\<lambda>newId.
     andThen (whenDo (additionalNetworks \<noteq> [])
                (andThen (optLog lg (''Reconnecting to '' @ showNat (length additionalNetworks)
                            @ '' additional network(s)...'')) (\<lambda>_.
                 reconnectAll e lg newId additionalNetworks))) (\<lambda>_.
     andThen (whenDo wasRunning
                (andThen (optLog lg ''Starting new container...'') (\<lambda>_.
                 startContainer e newId))) (\<lambda>_.
     andThen (optLog lg ''Container recreated successfully with all settings preserved'') (\<lambda>_.
     yield True)))))))))))))"

definition recreateContainer :: "Env \<Rightarrow> string \<Rightarrow> Logger option \<Rightarrow> bool Prog" where
  "recreateContainer e containerName lg =
     tryCatch
       (andThen (listContainers e) (\<lambda>containers.
        case findContainer containers containerName of
          None \<Rightarrow> andThen (optLog lg (''Container not found: '' @ containerName)) (\<lambda>_.
                  yield False)
        | Some container \<Rightarrow> recreateFound e containerName lg container))
       (\<lambda>message.
          andThen (optLog lg (''Failed to recreate container: '' @ message)) (\<lambda>_.
          yield False))"

subsection \<open>updateStackContainer\<close>

text \<open>The service name is \<^verbatim>\<open>composeService!\<close> of the caller, which may be \<^verbatim>\<open>undefined\<close>.\<close>

definition updateStackContainer ::
  "Env \<Rightarrow> string \<Rightarrow> string option \<Rightarrow> Logger option \<Rightarrow> bool Prog" where
  "updateStackContainer e stackName serviceName lg =
     tryCatch
       (andThen (optLog lg (''Looking up stack configuration for: '' @ stackName)) (\<lambda>_.
        andThen (getStackComposeFile e stackName) (\<lambda>composeResult.
        if \<not> cf_success composeResult \<or> \<not> truthy (cf_content composeResult) then
          andThen (doAll
            [optLog lg (''WARNING: No compose file found for stack '' @ [CHR 0x22] @ stackName
                          @ [CHR 0x22]),
             optLog lg ''This stack may have been created outside Dockhand'',
             optLog lg ''Falling back to container recreation (some settings may be lost)'',
             optLog lg
               ''TIP: Import the stack in Dockhand to preserve all settings on future updates''])
            (\<lambda>_. yield False)
        else
          andThen (optLog lg (''Found compose file for stack: '' @ stackName)) (\<lambda>_.
          andThen (optLog lg (''Running: docker compose up -d (service: ''
                                @ showOpt serviceName @ '')'')) (\<lambda>_.
          andThen (startStack e stackName) (\<lambda>result.
          if st_success result then
            andThen (optLog lg ''Stack updated successfully via docker compose'') (\<lambda>_.
            andThen (whenDo (truthy (st_output result))
                       (logAll lg (map (\<lambda>line. ''[compose] '' @ line)
                                    (filter trimmedNonEmpty
                                       (splitLines (showOpt (st_output result))))))) (\<lambda>_.
            yield True))
          else
            andThen (optLog lg (''docker compose up failed: ''
                                  @ orElse (st_error result) ''Unknown error'')) (\<lambda>_.
            andThen (whenDo (truthy (st_output result))
                       (optLog lg (''Output: '' @ showOpt (st_output result)))) (\<lambda>_.
            yield False))))))))
       (\<lambda>message.
          andThen (optLog lg (''Stack update error: '' @ message)) (\<lambda>_.
          yield False))"

text \<open>The list \<^verbatim>\<open>additionalNetworks\<close> that \<^verbatim>\<open>recreateContainer\<close> collects from an inspection:
  the networks that are not the primary one, in the order of the inspection.\<close>

definition additionalNetworksOf :: "string \<Rightarrow> InspectData \<Rightarrow> NetworkInfo list" where
  "additionalNetworksOf containerId inspectData =
     map (\<lambda>(netName, netConf).
            networkInfo containerId
              (map_of (i_Labels inspectData) ''com.docker.compose.project'')
              (map_of (i_Labels inspectData) ''com.docker.compose.service'') netName netConf)
       (filter (\<lambda>(netName, netConf).
                  \<not> isPrimary (orElse (i_NetworkMode inspectData) ''bridge'') netName)
          (i_Networks inspectData))"

text \<open>The calls a piece of the task adds to those made before.\<close>

definition newCalls :: "World \<Rightarrow> World \<Rightarrow> Call list" where
  "newCalls w w' = drop (length (calls w)) (calls w')"

subsection \<open>runContainerUpdate\<close>

text \<open>\<^verbatim>\<open>r => ({ scanner: r.scanner, critical: r.summary.critical, ... })\<close>.\<close>

definition scannerRow :: "ScanResult \<Rightarrow> ScannerRow" where
  "scannerRow r =
     \<lparr>row_scanner = sr_scanner r, row_critical = critical (sr_summary r),
      row_high = high (sr_summary r), row_medium = medium (sr_summary r),
      row_low = low (sr_summary r), row_negligible = negligible (sr_summary r),
      row_unknown = unknown (sr_summary r)\<rparr>"

text \<open>\<^verbatim>\<open>scanResults[0]?.scannedAt\<close>.\<close>

definition firstScannedAt :: "ScanResult list \<Rightarrow> string option" where
  "firstScannedAt rs = (case rs of [] \<Rightarrow> None | r # _ \<Rightarrow> Some (sr_scannedAt r))"

text \<open>The details of the blocked update.\<close>

definition blockedDetails ::
  "string \<Rightarrow> VulnerabilityCriteria \<Rightarrow> ScanResult list \<Rightarrow> VulnerabilitySeverity \<Rightarrow> Details" where
  "blockedDetails reason vulnerabilityCriteria scanResults scanSummary =
     \<lparr>d_reason = Some ''vulnerabilities_found'', d_mode = Some ''auto_update'',
      d_blockReason = Some reason, d_newDigest = None,
      d_vulnerabilityCriteria = Some vulnerabilityCriteria,
      d_summary = Some (1, 0, 1, 0),
      d_containerStatus = Some ''blocked'', d_containerBlockReason = Some reason,
      d_containerRows = Some (map scannerRow scanResults),
      d_scanResult = Some \<lparr>sd_summary = scanSummary, sd_scanners = map sr_scanner scanResults,
                          sd_scannedAt = firstScannedAt scanResults,
                          sd_scannerResults = map scannerRow scanResults\<rparr>\<rparr>"

text \<open>The details of the successful update; \<^verbatim>\<open>scanResults\<close> and \<^verbatim>\<open>scanSummary\<close> may be
  \<^verbatim>\<open>undefined\<close>.\<close>

definition successDetails ::
  "string option \<Rightarrow> VulnerabilityCriteria \<Rightarrow> ScanResult list option
     \<Rightarrow> VulnerabilitySeverity option \<Rightarrow> Details" where
  "successDetails newDigest vulnerabilityCriteria scanResults scanSummary =
     \<lparr>d_reason = None, d_mode = Some ''auto_update'', d_blockReason = None,
      d_newDigest = newDigest, d_vulnerabilityCriteria = Some vulnerabilityCriteria,
      d_summary = Some (1, 1, 0, 0),
      d_containerStatus = Some ''updated'', d_containerBlockReason = None,
      d_containerRows = map_option (map scannerRow) scanResults,
      d_scanResult =
        (case scanSummary of
           None \<Rightarrow> None
         | Some s \<Rightarrow>
             Some \<lparr>sd_summary = s,
                   sd_scanners = (case scanResults of None \<Rightarrow> [] | Some rs \<Rightarrow> map sr_scanner rs),
                   sd_scannedAt = (case scanResults of None \<Rightarrow> None | Some rs \<Rightarrow> firstScannedAt rs),
                   sd_scannerResults =
                     (case scanResults of None \<Rightarrow> [] | Some rs \<Rightarrow> map scannerRow rs)\<rparr>)\<rparr>"

text \<open>The progress callback of the scan of the new image, and that of the current image
  (which logs the message only).\<close>

definition scannerTag :: "ScanProgress \<Rightarrow> string" where
  "scannerTag progress =
     (if truthy (sp_scanner progress) then ''['' @ showOpt (sp_scanner progress) @ '']''
      else ''[scan]'')"

definition onProgressNew :: "ScanProgress \<Rightarrow> string list" where
  "onProgressNew progress =
     (if truthy (sp_message progress)
      then [scannerTag progress @ '' '' @ showOpt (sp_message progress)] else [])
     @ (if truthy (sp_output progress)
        then [scannerTag progress @ '' '' @ showOpt (sp_output progress)] else [])"

definition onProgressCurrent :: "ScanProgress \<Rightarrow> string list" where
  "onProgressCurrent progress =
     (if truthy (sp_message progress)
      then [scannerTag progress @ '' '' @ showOpt (sp_message progress)] else [])"

text \<open>\<^verbatim>\<open>for (const result of scanResults) { try { await saveVulnerabilityScan(...) } catch ... }\<close>:
  for the new image a failure is logged, for the current image it is ignored.\<close>

fun saveScans :: "Env \<Rightarrow> string \<Rightarrow> ScanResult list \<Rightarrow> unit Prog" where
  "saveScans e imageId [] = yield ()"
| "saveScans e imageId (result # rest) =
     andThen (tryCatch (saveVulnerabilityScan e imageId result)
                (\<lambda>message. log (''Warning: Could not save scan results: '' @ message))) (\<lambda>_.
     saveScans e imageId rest)"

fun saveScansQuietly :: "Env \<Rightarrow> string \<Rightarrow> ScanResult list \<Rightarrow> unit Prog" where
  "saveScansQuietly e imageId [] = yield ()"
| "saveScansQuietly e imageId (result # rest) =
     andThen (tryCatch (saveVulnerabilityScan e imageId result) (\<lambda>message. yield ())) (\<lambda>_.
     saveScansQuietly e imageId rest)"

text \<open>The summary of the current image for \<^verbatim>\<open>'more_than_current'\<close>: from the cache, else from
  a scan of the current image; \<^verbatim>\<open>undefined\<close> when neither gives one or anything fails.\<close>

definition currentScan :: "Env \<Rightarrow> string \<Rightarrow> VulnerabilitySeverity option Prog" where
  "currentScan e currentImageId =
     andThen (log ''Looking up cached scan for current image...'') (\<lambda>_.
     tryCatch
       (andThen (getCombinedScanForImage e currentImageId) (\<lambda>cachedScan.
        case cachedScan of
          Some s \<Rightarrow>
            andThen (log (''Cached scan: '' @ showNat (critical s) @ '' critical, ''
                            @ showNat (high s) @ '' high'')) (\<lambda>_.
            yield (Some s))
        | None \<Rightarrow>
            andThen (log ''No cached scan found, scanning current image...'') (\<lambda>_.
            andThen (scanImage e currentImageId onProgressCurrent) (\<lambda>currentScanResults.
            if currentScanResults \<noteq> [] then
              (let s = e_combineScanSummaries e currentScanResults in
               andThen (log (''Current image: '' @ showNat (critical s) @ '' critical, ''
                               @ showNat (high s) @ '' high'')) (\<lambda>_.
               andThen (saveScansQuietly e currentImageId currentScanResults) (\<lambda>_.
               yield (Some s))))
            else yield None))))
       (\<lambda>message.
          andThen (log (''Warning: Could not get current scan: '' @ message)) (\<lambda>_.
          yield None)))"

text \<open>Step 2f, the blocked update (inside the \<^verbatim>\<open>try\<close> of the scan).\<close>

definition blockUpdate ::
  "Env \<Rightarrow> string \<Rightarrow> string \<Rightarrow> string \<Rightarrow> VulnerabilityCriteria \<Rightarrow> string \<Rightarrow> ScanResult list
     \<Rightarrow> VulnerabilitySeverity \<Rightarrow> unit Prog" where
  "blockUpdate e containerName tempTag newImageId vulnerabilityCriteria reason scanResults
     scanSummary =
     doAll
       [log (''UPDATE BLOCKED: '' @ reason),
        log (''Removing blocked image: '' @ tempTag),
        removeTempImage e newImageId,
        log ''Blocked image removed - container will continue using safe image'',
        updateScheduleExecution
          (completed skipped None
             (Some (blockedDetails reason vulnerabilityCriteria scanResults scanSummary))),
        sendEventNotification e ''auto_update_blocked'',
        returnNow]"

text \<open>Step 2e, the scan of the temp image with its \<^verbatim>\<open>catch\<close>.  The value is the pair of the
  variables \<^verbatim>\<open>scanResults\<close> and \<^verbatim>\<open>scanSummary\<close>.\<close>

definition scanStep ::
  "Env \<Rightarrow> string \<Rightarrow> string \<Rightarrow> string \<Rightarrow> string \<Rightarrow> VulnerabilityCriteria
     \<Rightarrow> (ScanResult list option \<times> VulnerabilitySeverity option) Prog" where
  "scanStep e containerName tempTag newImageId currentImageId vulnerabilityCriteria =
     tryCatch
       (andThen (scanImage e tempTag onProgressNew) (\<lambda>scanResults.
        if scanResults \<noteq> [] then
          (let scanSummary = e_combineScanSummaries e scanResults in
           andThen (log (''Scan result: '' @ showNat (critical scanSummary) @ '' critical, ''
                           @ showNat (high scanSummary) @ '' high, ''
                           @ showNat (medium scanSummary) @ '' medium, ''
                           @ showNat (low scanSummary) @ '' low'')) (\<lambda>_.
           andThen (saveScans e newImageId scanResults) (\<lambda>_.
           andThen (if vulnerabilityCriteria = MoreThanCurrent
                    then currentScan e currentImageId else yield None) (\<lambda>currentScanSummary.
           let (blocked, reason) =
                 e_shouldBlockUpdate e vulnerabilityCriteria scanSummary currentScanSummary in
           andThen (whenDo blocked
                      (blockUpdate e containerName tempTag newImageId vulnerabilityCriteria
                         reason scanResults scanSummary)) (\<lambda>_.
           andThen (log ''Scan passed vulnerability criteria'') (\<lambda>_.
           yield (Some scanResults, Some scanSummary)))))))
        else yield (Some scanResults, None)))
       (\<lambda>message.
          andThen (doAll
            [log (''Scan failed: '' @ message),
             log ''Removing temp image due to scan failure...'',
             removeTempImage e newImageId,
             updateScheduleExecution
               (completed failed (Some (''Vulnerability scan failed: '' @ message)) None)])
            (\<lambda>_. returnNow))"

text \<open>Step 2 with scanning enabled and a tag reference: steps 2a to 2g inside the
  \<^verbatim>\<open>try\<close> whose \<^verbatim>\<open>catch\<close> reports the failed safe pull.\<close>

definition safePull ::
  "Env \<Rightarrow> string \<Rightarrow> string \<Rightarrow> string \<Rightarrow> VulnerabilityCriteria
     \<Rightarrow> (ScanResult list option \<times> VulnerabilitySeverity option) Prog" where
  "safePull e containerName imageNameFromConfig currentImageId vulnerabilityCriteria =
     (let tempTag = e_getTempImageTag e imageNameFromConfig in
      andThen (log (''Using temp tag for safe pull: '' @ tempTag)) (\<lambda>_.
      tryCatch
        (andThen (log (''Pulling new image: '' @ imageNameFromConfig)) (\<lambda>_.
         andThen (pullImage e imageNameFromConfig) (\<lambda>_.
         andThen (getImageIdByTag e imageNameFromConfig) (\<lambda>pulled.
         case pulled of
           None \<Rightarrow> throw ''Failed to get new image ID after pull''
         | Some newImageId \<Rightarrow>
         andThen (log (''New image pulled: '' @ take 19 newImageId)) (\<lambda>_.
         andThen (log ''Restoring original tag to current safe image...'') (\<lambda>_.
         let (oldRepo, oldTag) = e_parseImageNameAndTag e imageNameFromConfig in
         andThen (tagImage e currentImageId oldRepo oldTag) (\<lambda>_.
         andThen (log (''Original tag '' @ imageNameFromConfig @ '' restored to safe image'')) (\<lambda>_.
         let (tempRepo, tempTagName) = e_parseImageNameAndTag e tempTag in
         andThen (tagImage e newImageId tempRepo tempTagName) (\<lambda>_.
         andThen (log (''New image tagged as: '' @ tempTag)) (\<lambda>_.
         andThen (log ''Scanning new image for vulnerabilities...'') (\<lambda>_.
         andThen (scanStep e containerName tempTag newImageId currentImageId
                    vulnerabilityCriteria) (\<lambda>scanned.
         andThen (log (''Re-tagging approved image to: '' @ imageNameFromConfig)) (\<lambda>_.
         andThen (tagImage e newImageId oldRepo oldTag) (\<lambda>_.
         andThen (log ''Image ready for update'') (\<lambda>_.
         andThen (tryCatch (removeTempImage e tempTag) (\<lambda>message. yield ())) (\<lambda>_.
         yield scanned))))))))))))))))
        (\<lambda>message.
           andThen (doAll
             [log (''Safe-pull failed: '' @ message),
              updateScheduleExecution
                (completed failed (Some (''Failed to pull image: '' @ message)) None)])
             (\<lambda>_. returnNow))))"

text \<open>Step 2 as a whole: the safe pull when a scanner is configured, the simple pull
  otherwise.\<close>

definition pullStep ::
  "Env \<Rightarrow> string \<Rightarrow> string \<Rightarrow> string \<Rightarrow> string \<Rightarrow> VulnerabilityCriteria
     \<Rightarrow> (ScanResult list option \<times> VulnerabilitySeverity option) Prog" where
  "pullStep e containerName imageNameFromConfig currentImageId scanner vulnerabilityCriteria =
     (if scanner \<noteq> ''none'' then
        andThen (log (''Safe-pull enabled (scanner: '' @ scanner @ '', criteria: ''
                        @ criteriaName vulnerabilityCriteria @ '')'')) (\<lambda>_.
        if e_isDigestBasedImage e imageNameFromConfig then
          andThen (log ''Digest-based image detected - temp tag protection not available'') (\<lambda>_.
          yield (None, None))
        else safePull e containerName imageNameFromConfig currentImageId vulnerabilityCriteria)
      else
        andThen (log ''Pulling update (no vulnerability scan)...'') (\<lambda>_.
        andThen (tryCatch
                   (andThen (pullImage e imageNameFromConfig) (\<lambda>_.
                    log ''Image pulled successfully''))
                   (\<lambda>message.
                      andThen (doAll
                        [log (''Pull failed: '' @ message),
                         updateScheduleExecution
                           (completed failed (Some (''Failed to pull image: '' @ message)) None)])
                        (\<lambda>_. returnNow))) (\<lambda>_.
        yield (None, None))))"

text \<open>The update of the container by its type, and the report of the result.\<close>

definition applyUpdate ::
  "Env \<Rightarrow> string \<Rightarrow> string option \<Rightarrow> string option \<Rightarrow> string option \<Rightarrow> VulnerabilityCriteria
     \<Rightarrow> ScanResult list option \<Rightarrow> VulnerabilitySeverity option \<Rightarrow> unit Prog" where
  "applyUpdate e containerName composeProject composeService newDigest vulnerabilityCriteria
     scanResults scanSummary =
     andThen
       (if truthy composeProject then
          andThen (log (''Updating via docker compose for stack: '' @ showOpt composeProject)) (\<lambda>_.
          andThen (updateStackContainer e (showOpt composeProject) composeService (Some TaskLog))
            (\<lambda>stackSuccess.
          if stackSuccess then yield True
          else
            andThen (doAll
              [log (''Fallback: Recreating container directly (stack '' @ [CHR 0x22]
                      @ showOpt composeProject @ [CHR 0x22] @ '' not managed by Dockhand)''),
               log ''WARNING: Some compose-specific settings may not be preserved'',
               log ''Consider importing this stack into Dockhand for full configuration preservation''])
              (\<lambda>_. recreateContainer e containerName (Some TaskLog))))
        else
          andThen (log ''Updating standalone container via recreation...'') (\<lambda>_.
          recreateContainer e containerName (Some TaskLog)))
       (\<lambda>success.
          if success then
            doAll
              [updateAutoUpdateLastUpdated e containerName,
               log (''Successfully updated container: '' @ containerName),
               updateScheduleExecution
                 (completed ExecStatus.success None
                    (Some (successDetails newDigest vulnerabilityCriteria scanResults
                             scanSummary))),
               sendEventNotification e ''auto_update_success'']
          else throw ''Failed to recreate container'')"

text \<open>The body of the outer \<^verbatim>\<open>try\<close>, from the found container on.\<close>

definition updateFound :: "Env \<Rightarrow> string \<Rightarrow> ContainerInfo \<Rightarrow> unit Prog" where
  "updateFound e containerName container =
     andThen (inspectContainer e (ci_id container)) (\<lambda>inspectData.
     if \<not> truthy (i_ConfigImage inspectData) then
       andThen (doAll
         [log ''Could not determine image name from container config'',
          updateScheduleExecution
            (completed failed (Some ''Could not determine image name'') None)])
         (\<lambda>_. returnNow)
     else
     let imageNameFromConfig = showOpt (i_ConfigImage inspectData) in
     case e_isSystemContainer e imageNameFromConfig of
       Some systemContainerType \<Rightarrow>
         (let reason = (if systemContainerType = dockhand
                        then ''Cannot auto-update Dockhand itself''
                        else ''Cannot auto-update Hawser agent'') in
          andThen (doAll
            [log (''Skipping '' @ systemName systemContainerType @ '' container - '' @ reason),
             updateScheduleExecution (completed skipped None (Some (reasonDetails reason)))])
            (\<lambda>_. returnNow))
     | None \<Rightarrow>
     if e_isDigestBasedImage e imageNameFromConfig then
       andThen (doAll
         [log (''Skipping '' @ containerName @ '' - image pinned to specific digest''),
          updateScheduleExecution
            (completed skipped None (Some (reasonDetails ''Image pinned to specific digest'')))])
         (\<lambda>_. returnNow)
     else
     let currentImageId = i_Image inspectData in
     andThen (log (''Container is using image: '' @ imageNameFromConfig)) (\<lambda>_.
     andThen (log (''Current image ID: '' @ take 19 currentImageId)) (\<lambda>_.
     let composeProject = map_of (i_Labels inspectData) ''com.docker.compose.project'';
         composeService = map_of (i_Labels inspectData) ''com.docker.compose.service'' in
     andThen (if truthy composeProject
              then log (''Container is part of compose stack: '' @ showOpt composeProject
                          @ '' (service: '' @ showOpt composeService @ '')'')
              else log ''Container is standalone (not part of a compose stack)'') (\<lambda>_.
     andThen (getSettings e) (\<lambda>(scanner, criteria).
     let vulnerabilityCriteria = (case criteria of None \<Rightarrow> Never | Some c \<Rightarrow> c) in
     andThen (log (''Checking registry for updates: '' @ imageNameFromConfig)) (\<lambda>_.
     andThen (checkImageUpdateAvailable e imageNameFromConfig currentImageId) (\<lambda>registryCheck.
     if rc_isLocalImage registryCheck then
       andThen (doAll
         [log ''Local image detected - skipping (auto-update requires registry)'',
          updateScheduleExecution
            (completed skipped None
               (Some (reasonDetails ''Local image - no registry available'')))])
         (\<lambda>_. returnNow)
     else if truthy (rc_error registryCheck) then
       andThen (doAll
         [log (''Registry check error: '' @ showOpt (rc_error registryCheck)),
          updateScheduleExecution
            (completed skipped None
               (Some (reasonDetails (''Registry check failed: ''
                                       @ showOpt (rc_error registryCheck)))))])
         (\<lambda>_. returnNow)
     else if \<not> rc_hasUpdate registryCheck then
       andThen (doAll
         [log (''Already up-to-date: '' @ containerName @ '' is running the latest version''),
          updateScheduleExecution
            (completed skipped None (Some (reasonDetails ''Already up-to-date'')))])
         (\<lambda>_. returnNow)
     else
     andThen (log (''Update available! Registry digest: ''
                     @ (if truthy (map_option (take 19) (rc_registryDigest registryCheck))
                        then take 19 (showOpt (rc_registryDigest registryCheck))
                        else ''unknown''))) (\<lambda>_.
     andThen (pullStep e containerName imageNameFromConfig currentImageId scanner
                vulnerabilityCriteria) (\<lambda>(scanResults, scanSummary).
     applyUpdate e containerName composeProject composeService
       (rc_registryDigest registryCheck) vulnerabilityCriteria scanResults scanSummary)))))))))"

text \<open>The body of the outer \<^verbatim>\<open>try\<close>.\<close>

definition updateBody :: "Env \<Rightarrow> string \<Rightarrow> unit Prog" where
  "updateBody e containerName =
     andThen (log (''Checking container: '' @ containerName)) (\<lambda>_.
     andThen (updateAutoUpdateLastChecked e containerName) (\<lambda>_.
     andThen (listContainers e) (\<lambda>containers.
     case findContainer containers containerName of
       None \<Rightarrow>
         andThen (doAll
           [log (''Container not found: '' @ containerName),
            updateScheduleExecution (completed failed (Some ''Container not found'') None)])
           (\<lambda>_. returnNow)
     | Some container \<Rightarrow> updateFound e containerName container)))"

text \<open>The \<^verbatim>\<open>catch\<close> block of the outer \<^verbatim>\<open>try\<close>.\<close>

definition onError :: "Env \<Rightarrow> string \<Rightarrow> unit Prog" where
  "onError e message =
     doAll
       [log (''Error: '' @ message),
        updateScheduleExecution (completed failed (Some message) None),
        sendEventNotification e ''auto_update_failed'']"

text \<open>
  \<^verbatim>\<open>runContainerUpdate(settingId, containerName, environmentId, triggeredBy)\<close>.  The setting
  and the environment select the answers of the collaborators, which are the parameter
  \<open>e\<close>.  The completion is that of the \<^verbatim>\<open>async\<close> function: \<open>Throw\<close> is a rejected promise,
  an error that no handler caught.
\<close>

definition runContainerUpdate :: "Env \<Rightarrow> string \<Rightarrow> unit Prog" where
  "runContainerUpdate e containerName =
     andThen createScheduleExecution (\<lambda>_.
     andThen (updateScheduleExecution
                \<lparr>u_status = None, u_startedAt = True, u_completedAt = False,
                 u_errorMessage = None, u_details = None\<rparr>) (\<lambda>_.
     tryCatch (updateBody e containerName) (onError e)))"

subsection \<open>Observations on a run\<close>

text \<open>A run starts on the engine's tags, images and containers, with nothing written,
  logged or called yet.\<close>

definition initialWorld ::
  "(string \<times> string \<rightharpoonup> string) \<Rightarrow> string set \<Rightarrow> Container list \<Rightarrow> World" where
  "initialWorld t i c = \<lparr>tags = t, images = i, conts = c, ledger = [], logs = [], calls = []\<rparr>"

text \<open>A terminal write records \<^verbatim>\<open>'success'\<close>, \<^verbatim>\<open>'failed'\<close> or \<^verbatim>\<open>'skipped'\<close>.\<close>

definition isTerminal :: "ExecUpdate \<Rightarrow> bool" where
  "isTerminal u \<longleftrightarrow> u_status u = Some success \<or> u_status u = Some failed \<or> u_status u = Some skipped"

definition terminalWrites :: "World \<Rightarrow> ExecUpdate list" where
  "terminalWrites w = filter isTerminal (ledger w)"

text \<open>The status of the execution record: that of the last write that sets one.\<close>

fun statusOf :: "ExecUpdate list \<Rightarrow> ExecStatus option" where
  "statusOf [] = None"
| "statusOf (u # us) = (case statusOf us of Some s \<Rightarrow> Some s | None \<Rightarrow> u_status u)"

definition finalStatus :: "World \<Rightarrow> ExecStatus option" where
  "finalStatus w = statusOf (ledger w)"

text \<open>The calls that change the engine: pulls, tag changes, image removals, and the
  operations on containers and stacks.\<close>

fun isPull :: "Call \<Rightarrow> bool" where
  "isPull (CPull n) = True"
| "isPull c = False"

fun isTagChange :: "Call \<Rightarrow> bool" where
  "isTagChange (CTag i r t) = True"
| "isTagChange (CRemoveTempImage x) = True"
| "isTagChange c = False"

fun isRecreation :: "Call \<Rightarrow> bool" where
  "isRecreation (CStop c) = True"
| "isRecreation (CRemoveContainer c) = True"
| "isRecreation CCreate = True"
| "isRecreation (CConnect n c) = True"
| "isRecreation (CStart c) = True"
| "isRecreation c = False"

fun isStackCall :: "Call \<Rightarrow> bool" where
  "isStackCall (CStartStack s) = True"
| "isStackCall c = False"

fun isScanCall :: "Call \<Rightarrow> bool" where
  "isScanCall (CCachedScan i) = True"
| "isScanCall (CScan r) = True"
| "isScanCall (CSaveScan i s) = True"
| "isScanCall c = False"

fun isRegistryCall :: "Call \<Rightarrow> bool" where
  "isRegistryCall (CRegistryCheck n i) = True"
| "isRegistryCall c = False"

subsection \<open>An example deployment\<close>

text \<open>
  Container \<^verbatim>\<open>web-1\<close> runs \<^verbatim>\<open>app:1.0\<close>, image \<^verbatim>\<open>sha256:aaa\<close>; the registry has \<^verbatim>\<open>sha256:bbb\<close>.
  Every call succeeds, no scanner is configured.  The other examples change single answers.
\<close>

definition exParse :: "string \<Rightarrow> string \<times> string" where
  "exParse name =
     (if name = ''app:1.0'' then (''app'', ''1.0'')
      else if name = ''app:1.0-dockhand-pending'' then (''app'', ''1.0-dockhand-pending'')
      else (name, ''latest''))"

definition exSummary :: VulnerabilitySeverity where
  "exSummary = \<lparr>critical = 1, high = 0, medium = 0, low = 0, negligible = 0, unknown = 0\<rparr>"

definition exScan :: ScanResult where
  "exScan = \<lparr>sr_imageName = ''app:1.0-dockhand-pending'', sr_scanner = ''grype'',
             sr_scannedAt = ''t'', sr_summary = exSummary, sr_error = None\<rparr>"

definition exInspect :: InspectData where
  "exInspect = \<lparr>i_ConfigImage = Some ''app:1.0'', i_Image = ''sha256:aaa'', i_Labels = [],
                i_Running = True, i_NetworkMode = Some ''bridge'',
                i_Networks = [(''bridge'', \<lparr>nc_Aliases = None, nc_DNSNames = None,
                   nc_IPv4Address = None, nc_IPv6Address = None, nc_GwPriority = None\<rparr>)]\<rparr>"

definition exOptions :: ContainerOptions where
  "exOptions = \<lparr>co_networkAliases = None, co_networkIpv4Address = None, co_macAddress = None,
                co_networkGwPriority = None, co_extraHosts = None, co_deviceRequests = None\<rparr>"

definition exEnv :: Env where
  "exEnv =
     \<lparr>e_updateAutoUpdateLastChecked = (\<lambda>_. None),
      e_listContainers = Inr [\<lparr>ci_id = ''c1'', ci_name = ''web-1''\<rparr>],
      e_inspectContainer = (\<lambda>_. Inr exInspect),
      e_isSystemContainer = (\<lambda>_. None),
      e_isDigestBasedImage = (\<lambda>_. False),
      e_settings = Inr (''none'', None),
      e_checkImageUpdateAvailable =
        (\<lambda>_ _. Inr \<lparr>rc_isLocalImage = False, rc_error = None, rc_hasUpdate = True,
                    rc_registryDigest = Some ''sha256:bbb''\<rparr>),
      e_getTempImageTag = (\<lambda>name. name @ ''-dockhand-pending''),
      e_parseImageNameAndTag = exParse,
      e_pullImage = (\<lambda>_. Inr ''sha256:bbb''),
      e_getImageIdByTag = (\<lambda>_. True),
      e_tagImage = (\<lambda>_ _ _. None),
      e_scanImage = (\<lambda>_. ([], Inr [exScan])),
      e_combineScanSummaries = (\<lambda>_. exSummary),
      e_saveVulnerabilityScan = (\<lambda>_ _. None),
      e_getCombinedScanForImage = (\<lambda>_. Inr None),
      e_shouldBlockUpdate = (\<lambda>_ _ _. (False, [])),
      e_removeTempImage = (\<lambda>_ _. None),
      e_sendEventNotification = (\<lambda>_. None),
      e_updateAutoUpdateLastUpdated = (\<lambda>_. None),
      e_getStackComposeFile = (\<lambda>_. Inr \<lparr>cf_success = False, cf_content = None\<rparr>),
      e_startStack = (\<lambda>_. Inr \<lparr>st_success = True, st_output = None, st_error = None\<rparr>),
      e_stopContainer = (\<lambda>_. None),
      e_removeContainer = (\<lambda>_. None),
      e_extractContainerOptions = (\<lambda>_. exOptions),
      e_createContainer = (\<lambda>_. Inr ''c2''),
      e_connectContainerToNetwork = (\<lambda>_ _. None),
      e_start = (\<lambda>_. None)\<rparr>"

definition exWorld :: World where
  "exWorld =
     initialWorld [(''app'', ''1.0'') \<mapsto> ''sha256:aaa''] {''sha256:aaa''}
       [\<lparr>k_id = ''c1'', k_options = None, k_running = True, k_connected = []\<rparr>]"

text \<open>The registry reports that \<^verbatim>\<open>web-1\<close> is up to date.\<close>

definition exEnvUpToDate :: Env where
  "exEnvUpToDate =
     exEnv\<lparr>e_checkImageUpdateAvailable :=
             (\<lambda>_ _. Inr \<lparr>rc_isLocalImage = False, rc_error = None, rc_hasUpdate = False,
                         rc_registryDigest = Some ''sha256:aaa''\<rparr>)\<rparr>"

text \<open>A test for system containers by the name of the image, and a test for digest
  references as the self-update check makes it.\<close>

definition exIsSystemContainer :: "string \<Rightarrow> SystemContainer option" where
  "exIsSystemContainer imageName =
     (if str_includes imageName ''dockhand'' then Some dockhand
      else if str_includes imageName ''hawser'' then Some hawser else None)"

definition exIsDigestBasedImage :: "string \<Rightarrow> bool" where
  "exIsDigestBasedImage imageName = str_includes imageName ''@sha256:''"

text \<open>\<^verbatim>\<open>web-1\<close> runs the digest-pinned \<^verbatim>\<open>app@sha256:ccc\<close>.\<close>

definition exEnvPinned :: Env where
  "exEnvPinned =
     exEnv\<lparr>e_inspectContainer := (\<lambda>_. Inr (exInspect\<lparr>i_ConfigImage := Some ''app@sha256:ccc''\<rparr>)),
           e_isSystemContainer := exIsSystemContainer,
           e_isDigestBasedImage := exIsDigestBasedImage\<rparr>"

text \<open>\<^verbatim>\<open>web-1\<close> runs a digest-pinned image of Dockhand itself.\<close>

definition exEnvPinnedSystem :: Env where
  "exEnvPinnedSystem =
     exEnv\<lparr>e_inspectContainer :=
             (\<lambda>_. Inr (exInspect\<lparr>i_ConfigImage := Some ''fnsys/dockhand@sha256:ccc''\<rparr>)),
           e_isSystemContainer := exIsSystemContainer,
           e_isDigestBasedImage := exIsDigestBasedImage\<rparr>"

text \<open>\<^verbatim>\<open>web-1\<close> is attached to two more networks; connecting to \<^verbatim>\<open>backend\<close> fails.\<close>

definition exNetConf :: NetConf where
  "exNetConf = \<lparr>nc_Aliases = Some [''web''], nc_DNSNames = None, nc_IPv4Address = None,
                nc_IPv6Address = None, nc_GwPriority = None\<rparr>"

definition exInspectNets :: InspectData where
  "exInspectNets =
     exInspect\<lparr>i_Networks := [(''bridge'', exNetConf), (''backend'', exNetConf),
                              (''frontend'', exNetConf)]\<rparr>"

definition exEnvNets :: Env where
  "exEnvNets =
     exEnv\<lparr>e_inspectContainer := (\<lambda>_. Inr exInspectNets),
           e_connectContainerToNetwork :=
             (\<lambda>networkName _. if networkName = ''backend'' then Some ''boom'' else None)\<rparr>"


text \<open>A scanner is configured and the gate blocks the new image.\<close>

definition exEnvBlocked :: Env where
  "exEnvBlocked =
     exEnv\<lparr>e_settings := Inr (''grype'', Some AnyKnown),
           e_shouldBlockUpdate := (\<lambda>_ _ _. (True, ''Found 1 vulnerabilities''))\<rparr>"

text \<open>As before, and the engine refuses to remove the blocked image: every time, or
  the first time only.\<close>

definition exEnvBlockedInUse :: Env where
  "exEnvBlockedInUse = exEnvBlocked\<lparr>e_removeTempImage := (\<lambda>_ _. Some ''image is in use'')\<rparr>"

definition exEnvBlockedRetry :: Env where
  "exEnvBlockedRetry =
     exEnvBlocked\<lparr>e_removeTempImage :=
       (\<lambda>_ attempt. if attempt = 0 then Some ''image is in use'' else None)\<rparr>"

text \<open>A scanner is configured, the gate lets the new image pass, and the engine refuses
  to move the production tag to it.\<close>

definition exEnvPromoteFails :: Env where
  "exEnvPromoteFails =
     exEnv\<lparr>e_settings := Inr (''grype'', Some AnyKnown),
           e_tagImage :=
             (\<lambda>imageId _ tag. if imageId = ''sha256:bbb'' \<and> tag = ''1.0''
                              then Some ''tag is locked'' else None)\<rparr>"

text \<open>A scanner is configured and the engine refuses to give the tag back to the
  current image.\<close>

definition exEnvRestoreFails :: Env where
  "exEnvRestoreFails =
     exEnvBlocked\<lparr>e_tagImage :=
       (\<lambda>imageId _ _. if imageId = ''sha256:aaa'' then Some ''no such image'' else None)\<rparr>"

text \<open>\<^verbatim>\<open>web-1\<close> is service \<^verbatim>\<open>web\<close> of the stack \<^verbatim>\<open>shop\<close>, whose compose file is known;
  bringing the stack up fails.\<close>

definition exEnvStack :: Env where
  "exEnvStack =
     exEnv\<lparr>e_inspectContainer :=
             (\<lambda>_. Inr (exInspect\<lparr>i_Labels := [(''com.docker.compose.project'', ''shop''),
                                              (''com.docker.compose.service'', ''web'')]\<rparr>)),
           e_getStackComposeFile :=
             (\<lambda>_. Inr \<lparr>cf_success = True, cf_content = Some ''services:''\<rparr>),
           e_startStack :=
             (\<lambda>_. Inr \<lparr>st_success = False, st_output = None,
                       st_error = Some ''port is already allocated''\<rparr>)\<rparr>"

text \<open>The notification of a successful update cannot be delivered.\<close>

definition exEnvNotifyFails :: Env where
  "exEnvNotifyFails =
     exEnv\<lparr>e_sendEventNotification :=
       (\<lambda>eventType. if eventType = ''auto_update_success'' then Some ''smtp down'' else None)\<rparr>"

subsection \<open>Reaching the checks\<close>

text \<open>
  The steps of a run before the digest test succeed: the time stamp is stored, the
  container is found in the list and inspected, and its configuration names an image.
\<close>

definition inspects :: "Env \<Rightarrow> string \<Rightarrow> ContainerInfo \<Rightarrow> InspectData \<Rightarrow> string \<Rightarrow> bool" where
  "inspects e containerName container inspectData imageName \<longleftrightarrow>
     e_updateAutoUpdateLastChecked e containerName = None \<and>
     (case e_listContainers e of
        Inl message \<Rightarrow> False
      | Inr containers \<Rightarrow> findContainer containers containerName = Some container) \<and>
     e_inspectContainer e (ci_id container) = Inr inspectData \<and>
     i_ConfigImage inspectData = Some imageName \<and> imageName \<noteq> []"

text \<open>
  The run reaches the registry check: moreover the image is no system container and not
  pinned to a digest, the settings are read, and the registry check answers.
\<close>

definition registryAnswers ::
  "Env \<Rightarrow> string \<Rightarrow> ContainerInfo \<Rightarrow> InspectData \<Rightarrow> string
     \<Rightarrow> string \<times> VulnerabilityCriteria option \<Rightarrow> RegistryCheck \<Rightarrow> bool" where
  "registryAnswers e containerName container inspectData imageName settings registryCheck \<longleftrightarrow>
     inspects e containerName container inspectData imageName \<and>
     e_isSystemContainer e imageName = None \<and> \<not> e_isDigestBasedImage e imageName \<and>
     e_settings e = Inr settings \<and>
     e_checkImageUpdateAvailable e imageName (i_Image inspectData) = Inr registryCheck"

text \<open>The details of the last write of the ledger.\<close>

definition lastDetails :: "World \<Rightarrow> Details option" where
  "lastDetails w = (case rev (ledger w) of [] \<Rightarrow> None | u # us \<Rightarrow> u_details u)"

text \<open>The summary of the current image that the task hands to the gate under
  \<^verbatim>\<open>'more_than_current'\<close>: the cached one; without a cached one, that of a scan of the
  current image, if the scan gives results; nothing when the lookup or the scan fails.\<close>

definition currentSummaryOf :: "Env \<Rightarrow> string \<Rightarrow> VulnerabilitySeverity option" where
  "currentSummaryOf e currentImageId =
     (case e_getCombinedScanForImage e currentImageId of
        Inl message \<Rightarrow> None
      | Inr (Some cached) \<Rightarrow> Some cached
      | Inr None \<Rightarrow>
          (case snd (e_scanImage e currentImageId) of
             Inl message \<Rightarrow> None
           | Inr results \<Rightarrow>
               if results \<noteq> [] then Some (e_combineScanSummaries e results) else None))"

subsection \<open>Writes of a block\<close>

text \<open>
  What a piece of the task does to the execution record: it leaves the record alone; or
  it writes at most once and, if it wrote, ends the task with \<^verbatim>\<open>return\<close>; or it writes at
  most once and, if it wrote, throws nothing.
\<close>

definition quiet :: "'a Prog \<Rightarrow> bool" where
  "quiet m \<longleftrightarrow> (\<forall>w. ledger (snd (m w)) = ledger w)"

definition ending :: "'a Prog \<Rightarrow> bool" where
  "ending m \<longleftrightarrow>
     (\<forall>w. case m w of (r, w') \<Rightarrow>
        ledger w' = ledger w \<or> (\<exists>u. ledger w' = ledger w @ [u] \<and> r = Return))"

definition closing :: "'a Prog \<Rightarrow> bool" where
  "closing m \<longleftrightarrow>
     (\<forall>w. case m w of (r, w') \<Rightarrow>
        ledger w' = ledger w \<or>
        (\<exists>u. ledger w' = ledger w @ [u] \<and> (\<forall>message. r \<noteq> Throw message)))"

section \<open>The self-update check (routes/api/self-update/check/+server.ts)\<close>

text \<open>The fields of the own container's inspection that the handler reads.\<close>

record SelfInspect =
  si_ConfigImage :: "string option"
  si_Labels :: "(string \<times> string) list"
  si_Image :: "string option"
  si_Name :: "string option"

text \<open>The JSON answer with its HTTP status; a field that is not sent is \<open>None\<close>.\<close>

record CheckResponse =
  r_status :: nat
  r_updateAvailable :: "bool option"
  r_error :: "string option"
  r_currentImage :: "string option"
  r_currentDigest :: "string option"
  r_newDigest :: "string option"
  r_containerName :: "string option"
  r_isComposeManaged :: "bool option"
  r_isLocalImage :: "bool option"

datatype CheckCall = GInspectContainer string | GInspectImage string | GRegistryDigest string

text \<open>
  The collaborators of the handler.  \<^verbatim>\<open>authorize\<close> gives \<^verbatim>\<open>authEnabled\<close> and \<^verbatim>\<open>isAdmin\<close>.  A
  fetch from the Docker socket rejects, or gives a response with its \<^verbatim>\<open>ok\<close> flag whose
  \<^verbatim>\<open>json()\<close> rejects or gives the data.  \<^verbatim>\<open>getRegistryManifestDigest\<close> rejects or gives the
  digest or \<^verbatim>\<open>null\<close>.  A rejection inside the \<^verbatim>\<open>try\<close> carries the thrown value as the handler
  prints it, \<^verbatim>\<open>String(err)\<close>: for an error its class, a colon and its message.
\<close>

record CheckEnv =
  g_authorize :: "string + bool \<times> bool"
  g_ownContainerId :: "string option"
  g_inspectContainer :: "string \<Rightarrow> string + bool \<times> (string + SelfInspect)"
  g_inspectImage :: "string \<Rightarrow> string + bool \<times> (string + string list option)"
  g_registryDigest :: "string \<Rightarrow> string + string option"

definition response :: CheckResponse where
  "response =
     \<lparr>r_status = 200, r_updateAvailable = None, r_error = None, r_currentImage = None,
      r_currentDigest = None, r_newDigest = None, r_containerName = None,
      r_isComposeManaged = None, r_isLocalImage = None\<rparr>"

text \<open>\<^verbatim>\<open>s.split(sep)\<close> for a separator of one character.\<close>

fun splitOn :: "char \<Rightarrow> string \<Rightarrow> string list" where
  "splitOn sep [] = [[]]"
| "splitOn sep (c # cs) =
     (if c = sep then [] # splitOn sep cs
      else (case splitOn sep cs of [] \<Rightarrow> [[c]] | l # ls \<Rightarrow> (c # l) # ls))"

text \<open>\<^verbatim>\<open>xs[1]\<close>.\<close>

definition second :: "string list \<Rightarrow> string option" where
  "second xs = (case xs of a # b # rest \<Rightarrow> Some b | _ \<Rightarrow> None)"

text \<open>\<^verbatim>\<open>const at = rd.lastIndexOf('@'); return at > -1 ? rd.substring(at + 1) : null\<close>.\<close>

definition afterLastAt :: "string \<Rightarrow> string option" where
  "afterLastAt rd =
     (if CHR ''@'' \<in> set rd then Some (rev (takeWhile (\<lambda>c. c \<noteq> CHR ''@'') (rev rd))) else None)"

text \<open>\<^verbatim>\<open>inspectData.Name?.replace(/^\//, '') || ''\<close>.\<close>

definition ownName :: "string option \<Rightarrow> string" where
  "ownName n = (case n of None \<Rightarrow> [] | Some s \<Rightarrow> (case s of c # cs \<Rightarrow> if c = CHR ''/'' then cs else s | [] \<Rightarrow> []))"

text \<open>The \<^verbatim>\<open>catch\<close> of the handler: \<^verbatim>\<open>'Check failed: ' + String(err)\<close>.\<close>

definition checkFailed :: "string \<Rightarrow> CheckResponse" where
  "checkFailed err =
     response\<lparr>r_updateAvailable := Some False, r_error := Some (''Check failed: '' @ err)\<rparr>"

text \<open>The part of the handler behind the test for a digest-based image: the image is
  inspected for its \<^verbatim>\<open>RepoDigests\<close>, then the registry is asked.\<close>

definition checkRegistry ::
  "CheckEnv \<Rightarrow> string \<Rightarrow> string \<Rightarrow> string \<Rightarrow> bool \<Rightarrow> CheckCall list
     \<Rightarrow> CheckResponse \<times> CheckCall list" where
  "checkRegistry g currentImage currentImageId containerName isComposeManaged cs =
     (let base = response\<lparr>r_updateAvailable := Some False, r_currentImage := Some currentImage,
                          r_containerName := Some containerName,
                          r_isComposeManaged := Some isComposeManaged\<rparr>;
          cs1 = cs @ [GInspectImage currentImageId] in
      case g_inspectImage g currentImageId of
        Inl err \<Rightarrow> (checkFailed err, cs1)
      | Inr (ok, body) \<Rightarrow>
          if \<not> ok then (base\<lparr>r_error := Some ''Could not inspect current image''\<rparr>, cs1)
          else (case body of
            Inl err \<Rightarrow> (checkFailed err, cs1)
          | Inr repoDigestsField \<Rightarrow>
              (let repoDigests = (case repoDigestsField of None \<Rightarrow> [] | Some ds \<Rightarrow> ds);
                   localDigests = filter (\<lambda>d. d \<noteq> [])
                                    (concat (map (\<lambda>rd. case afterLastAt rd of
                                                          None \<Rightarrow> [] | Some d \<Rightarrow> [d]) repoDigests))
               in if localDigests = [] then (base\<lparr>r_isLocalImage := Some True\<rparr>, cs1)
                  else
                    (let cs2 = cs1 @ [GRegistryDigest currentImage] in
                     case g_registryDigest g currentImage of
                       Inl err \<Rightarrow> (checkFailed err, cs2)
                     | Inr registryDigest \<Rightarrow>
                         if \<not> truthy registryDigest
                         then (base\<lparr>r_error := Some ''Could not query registry''\<rparr>, cs2)
                         else
                           (response
                              \<lparr>r_updateAvailable :=
                                 Some (showOpt registryDigest \<notin> set localDigests),
                               r_currentImage := Some currentImage,
                               r_currentDigest := Some (hd localDigests),
                               r_newDigest := registryDigest,
                               r_containerName := Some containerName,
                               r_isComposeManaged := Some isComposeManaged\<rparr>, cs2)))))"

text \<open>
  The handler \<^verbatim>\<open>GET\<close>.  \<open>Inl\<close> is a rejection that leaves the handler (of \<^verbatim>\<open>authorize\<close>,
  which is awaited outside the \<^verbatim>\<open>try\<close>).
\<close>

definition checkGET :: "CheckEnv \<Rightarrow> (string + CheckResponse) \<times> CheckCall list" where
  "checkGET g =
     (case g_authorize g of
        Inl message \<Rightarrow> (Inl message, [])
      | Inr (authEnabled, isAdmin) \<Rightarrow>
          if authEnabled \<and> \<not> isAdmin
          then (Inr (response\<lparr>r_status := 403, r_error := Some ''Admin access required''\<rparr>), [])
          else (case g_ownContainerId g of
            None \<Rightarrow> (Inr (response\<lparr>r_updateAvailable := Some False,
                                   r_error := Some ''Not running in Docker''\<rparr>), [])
          | Some containerId \<Rightarrow>
              if containerId = [] then
                (Inr (response\<lparr>r_updateAvailable := Some False,
                               r_error := Some ''Not running in Docker''\<rparr>), [])
              else
              (let cs = [GInspectContainer containerId] in
               case g_inspectContainer g containerId of
                 Inl err \<Rightarrow> (Inr (checkFailed err), cs)
               | Inr (ok, body) \<Rightarrow>
                   if \<not> ok then
                     (Inr (response\<lparr>r_updateAvailable := Some False,
                                    r_error := Some ''Failed to inspect own container''\<rparr>), cs)
                   else (case body of
                     Inl err \<Rightarrow> (Inr (checkFailed err), cs)
                   | Inr inspectData \<Rightarrow>
                       (let currentImage = orElse (si_ConfigImage inspectData) [];
                            currentImageId = orElse (si_Image inspectData) [];
                            containerName = ownName (si_Name inspectData)
                        in if currentImage = [] then
                             (Inr (response\<lparr>r_updateAvailable := Some False,
                                            r_error := Some ''Could not determine current image''\<rparr>),
                              cs)
                           else
                             (let isComposeManaged =
                                    truthy (map_of (si_Labels inspectData)
                                              ''com.docker.compose.project'')
                              in if str_includes currentImage ''@sha256:'' then
                                   (Inr (response
                                      \<lparr>r_updateAvailable := Some False,
                                       r_currentImage := Some currentImage,
                                       r_currentDigest := second (splitOn CHR ''@'' currentImage),
                                       r_containerName := Some containerName,
                                       r_isComposeManaged := Some isComposeManaged\<rparr>), cs)
                                 else
                                   (case checkRegistry g currentImage currentImageId
                                           containerName isComposeManaged cs of
                                      (r, cs') \<Rightarrow> (Inr r, cs'))))))))"

text \<open>The handler's own container runs the digest-pinned \<^verbatim>\<open>app@sha256:ccc\<close>.\<close>

definition exCheckEnv :: CheckEnv where
  "exCheckEnv =
     \<lparr>g_authorize = Inr (True, True),
      g_ownContainerId = Some ''self'',
      g_inspectContainer =
        (\<lambda>_. Inr (True, Inr \<lparr>si_ConfigImage = Some ''app@sha256:ccc'', si_Labels = [],
                             si_Image = Some ''sha256:ccc'', si_Name = Some ''/dockhand''\<rparr>)),
      g_inspectImage = (\<lambda>_. Inr (True, Inr (Some [''app@sha256:ccc'']))),
      g_registryDigest = (\<lambda>_. Inr (Some ''sha256:ddd''))\<rparr>"

section \<open>Unfolding the model\<close>

text \<open>The local function \<^verbatim>\<open>log\<close> applied to a line and a state.\<close>

lemma log_apply: "log message w = (Val (), w\<lparr>logs := logs w @ [message]\<rparr>)"
  by (simp add: log_def modify_def)

lemma optLog_Some: "optLog (Some TaskLog) message = log message"
  by (simp add: optLog_def)

lemma optLog_None: "optLog None message = yield ()"
  by (simp add: optLog_def)

lemmas prog_defs =
  andThen_def tryCatch_def yield_def throw_def returnNow_def whenDo_def record_call_def
  outcome_def answer_def modify_def log_apply optLog_Some optLog_None

lemmas call_defs =
  updateAutoUpdateLastChecked_def updateAutoUpdateLastUpdated_def listContainers_def
  inspectContainer_def getSettings_def checkImageUpdateAvailable_def
  createScheduleExecution_def updateScheduleExecution_def pullImage_def getImageIdByTag_def
  tagImage_def removeTempImage_def scanImage_def saveVulnerabilityScan_def
  getCombinedScanForImage_def sendEventNotification_def getStackComposeFile_def
  startStack_def stopContainer_def removeContainer_def createContainer_def
  connectContainerToNetwork_def startContainer_def

lemmas run_defs =
  runContainerUpdate_def updateBody_def updateFound_def pullStep_def safePull_def
  scanStep_def blockUpdate_def applyUpdate_def recreateContainer_def recreateFound_def
  updateStackContainer_def onError_def currentScan_def findContainer_def reconnectOne_def

lemmas value_defs =
  completed_def reasonDetails_def noDetails_def blockedDetails_def successDetails_def
  scannerRow_def firstScannedAt_def finalStatus_def terminalWrites_def isTerminal_def
  lastDetails_def initialWorld_def resolveTag_def setTag_def orElse_def
  orUndefined_def showOpt_def Let_def logPrimary_def isPrimary_def criteriaName_def
  systemName_def onProgressNew_def onProgressCurrent_def scannerTag_def primaryLines_def
  connectedLines_def connectWarning_def deviceRequestLine_def

lemmas ex_defs =
  exEnv_def exWorld_def exInspect_def exOptions_def exParse_def exScan_def exSummary_def

text \<open>The removal of an image, field by field.\<close>

lemma removeImage_fields [simp]:
  "conts (removeImage e x w) = conts w"
  "ledger (removeImage e x w) = ledger w"
  "logs (removeImage e x w) = logs w"
  "calls (removeImage e x w) = calls w"
  by (simp_all add: removeImage_def)

lemma removeImage_present:
  "x \<in> images w \<Longrightarrow> images (removeImage e x w) = images w - {x}"
  "x \<in> images w \<Longrightarrow> tags (removeImage e x w) r = (if tags w r = Some x then None else tags w r)"
  by (simp_all add: removeImage_def)

lemma removeImage_absent:
  "x \<notin> images w \<Longrightarrow> images (removeImage e x w) = images w"
  "x \<notin> images w \<Longrightarrow>
     tags (removeImage e x w) r = (if r = e_parseImageNameAndTag e x then None else tags w r)"
  by (simp_all add: removeImage_def)

section \<open>The answers of the example environments\<close>


lemma exEnvUpToDate_sel:
  "e_updateAutoUpdateLastChecked exEnvUpToDate = (\<lambda>_. None)"
  "e_listContainers exEnvUpToDate = (Inr [\<lparr>ci_id = ''c1'', ci_name = ''web-1''\<rparr>])"
  "e_inspectContainer exEnvUpToDate = (\<lambda>_. Inr exInspect)"
  "e_isSystemContainer exEnvUpToDate = (\<lambda>_. None)"
  "e_isDigestBasedImage exEnvUpToDate = (\<lambda>_. False)"
  "e_settings exEnvUpToDate = (Inr (''none'', None))"
  "e_checkImageUpdateAvailable exEnvUpToDate = (\<lambda>_ _. Inr \<lparr>rc_isLocalImage = False, rc_error = None, rc_hasUpdate = False, rc_registryDigest = Some ''sha256:aaa''\<rparr>)"
  "e_getTempImageTag exEnvUpToDate = (\<lambda>name. name @ ''-dockhand-pending'')"
  "e_parseImageNameAndTag exEnvUpToDate = exParse"
  "e_pullImage exEnvUpToDate = (\<lambda>_. Inr ''sha256:bbb'')"
  "e_getImageIdByTag exEnvUpToDate = (\<lambda>_. True)"
  "e_tagImage exEnvUpToDate = (\<lambda>_ _ _. None)"
  "e_scanImage exEnvUpToDate = (\<lambda>_. ([], Inr [exScan]))"
  "e_combineScanSummaries exEnvUpToDate = (\<lambda>_. exSummary)"
  "e_saveVulnerabilityScan exEnvUpToDate = (\<lambda>_ _. None)"
  "e_getCombinedScanForImage exEnvUpToDate = (\<lambda>_. Inr None)"
  "e_shouldBlockUpdate exEnvUpToDate = (\<lambda>_ _ _. (False, []))"
  "e_removeTempImage exEnvUpToDate = (\<lambda>_ _. None)"
  "e_sendEventNotification exEnvUpToDate = (\<lambda>_. None)"
  "e_updateAutoUpdateLastUpdated exEnvUpToDate = (\<lambda>_. None)"
  "e_getStackComposeFile exEnvUpToDate = (\<lambda>_. Inr \<lparr>cf_success = False, cf_content = None\<rparr>)"
  "e_startStack exEnvUpToDate = (\<lambda>_. Inr \<lparr>st_success = True, st_output = None, st_error = None\<rparr>)"
  "e_stopContainer exEnvUpToDate = (\<lambda>_. None)"
  "e_removeContainer exEnvUpToDate = (\<lambda>_. None)"
  "e_extractContainerOptions exEnvUpToDate = (\<lambda>_. exOptions)"
  "e_createContainer exEnvUpToDate = (\<lambda>_. Inr ''c2'')"
  "e_connectContainerToNetwork exEnvUpToDate = (\<lambda>_ _. None)"
  "e_start exEnvUpToDate = (\<lambda>_. None)"
  by (simp_all add: exEnvUpToDate_def exEnv_def)

lemma exEnvPinned_sel:
  "e_updateAutoUpdateLastChecked exEnvPinned = (\<lambda>_. None)"
  "e_listContainers exEnvPinned = (Inr [\<lparr>ci_id = ''c1'', ci_name = ''web-1''\<rparr>])"
  "e_inspectContainer exEnvPinned = (\<lambda>_. Inr (exInspect\<lparr>i_ConfigImage := Some ''app@sha256:ccc''\<rparr>))"
  "e_isSystemContainer exEnvPinned = exIsSystemContainer"
  "e_isDigestBasedImage exEnvPinned = exIsDigestBasedImage"
  "e_settings exEnvPinned = (Inr (''none'', None))"
  "e_checkImageUpdateAvailable exEnvPinned = (\<lambda>_ _. Inr \<lparr>rc_isLocalImage = False, rc_error = None, rc_hasUpdate = True, rc_registryDigest = Some ''sha256:bbb''\<rparr>)"
  "e_getTempImageTag exEnvPinned = (\<lambda>name. name @ ''-dockhand-pending'')"
  "e_parseImageNameAndTag exEnvPinned = exParse"
  "e_pullImage exEnvPinned = (\<lambda>_. Inr ''sha256:bbb'')"
  "e_getImageIdByTag exEnvPinned = (\<lambda>_. True)"
  "e_tagImage exEnvPinned = (\<lambda>_ _ _. None)"
  "e_scanImage exEnvPinned = (\<lambda>_. ([], Inr [exScan]))"
  "e_combineScanSummaries exEnvPinned = (\<lambda>_. exSummary)"
  "e_saveVulnerabilityScan exEnvPinned = (\<lambda>_ _. None)"
  "e_getCombinedScanForImage exEnvPinned = (\<lambda>_. Inr None)"
  "e_shouldBlockUpdate exEnvPinned = (\<lambda>_ _ _. (False, []))"
  "e_removeTempImage exEnvPinned = (\<lambda>_ _. None)"
  "e_sendEventNotification exEnvPinned = (\<lambda>_. None)"
  "e_updateAutoUpdateLastUpdated exEnvPinned = (\<lambda>_. None)"
  "e_getStackComposeFile exEnvPinned = (\<lambda>_. Inr \<lparr>cf_success = False, cf_content = None\<rparr>)"
  "e_startStack exEnvPinned = (\<lambda>_. Inr \<lparr>st_success = True, st_output = None, st_error = None\<rparr>)"
  "e_stopContainer exEnvPinned = (\<lambda>_. None)"
  "e_removeContainer exEnvPinned = (\<lambda>_. None)"
  "e_extractContainerOptions exEnvPinned = (\<lambda>_. exOptions)"
  "e_createContainer exEnvPinned = (\<lambda>_. Inr ''c2'')"
  "e_connectContainerToNetwork exEnvPinned = (\<lambda>_ _. None)"
  "e_start exEnvPinned = (\<lambda>_. None)"
  by (simp_all add: exEnvPinned_def exEnv_def)

lemma exEnvPinnedSystem_sel:
  "e_updateAutoUpdateLastChecked exEnvPinnedSystem = (\<lambda>_. None)"
  "e_listContainers exEnvPinnedSystem = (Inr [\<lparr>ci_id = ''c1'', ci_name = ''web-1''\<rparr>])"
  "e_inspectContainer exEnvPinnedSystem = (\<lambda>_. Inr (exInspect\<lparr>i_ConfigImage := Some ''fnsys/dockhand@sha256:ccc''\<rparr>))"
  "e_isSystemContainer exEnvPinnedSystem = exIsSystemContainer"
  "e_isDigestBasedImage exEnvPinnedSystem = exIsDigestBasedImage"
  "e_settings exEnvPinnedSystem = (Inr (''none'', None))"
  "e_checkImageUpdateAvailable exEnvPinnedSystem = (\<lambda>_ _. Inr \<lparr>rc_isLocalImage = False, rc_error = None, rc_hasUpdate = True, rc_registryDigest = Some ''sha256:bbb''\<rparr>)"
  "e_getTempImageTag exEnvPinnedSystem = (\<lambda>name. name @ ''-dockhand-pending'')"
  "e_parseImageNameAndTag exEnvPinnedSystem = exParse"
  "e_pullImage exEnvPinnedSystem = (\<lambda>_. Inr ''sha256:bbb'')"
  "e_getImageIdByTag exEnvPinnedSystem = (\<lambda>_. True)"
  "e_tagImage exEnvPinnedSystem = (\<lambda>_ _ _. None)"
  "e_scanImage exEnvPinnedSystem = (\<lambda>_. ([], Inr [exScan]))"
  "e_combineScanSummaries exEnvPinnedSystem = (\<lambda>_. exSummary)"
  "e_saveVulnerabilityScan exEnvPinnedSystem = (\<lambda>_ _. None)"
  "e_getCombinedScanForImage exEnvPinnedSystem = (\<lambda>_. Inr None)"
  "e_shouldBlockUpdate exEnvPinnedSystem = (\<lambda>_ _ _. (False, []))"
  "e_removeTempImage exEnvPinnedSystem = (\<lambda>_ _. None)"
  "e_sendEventNotification exEnvPinnedSystem = (\<lambda>_. None)"
  "e_updateAutoUpdateLastUpdated exEnvPinnedSystem = (\<lambda>_. None)"
  "e_getStackComposeFile exEnvPinnedSystem = (\<lambda>_. Inr \<lparr>cf_success = False, cf_content = None\<rparr>)"
  "e_startStack exEnvPinnedSystem = (\<lambda>_. Inr \<lparr>st_success = True, st_output = None, st_error = None\<rparr>)"
  "e_stopContainer exEnvPinnedSystem = (\<lambda>_. None)"
  "e_removeContainer exEnvPinnedSystem = (\<lambda>_. None)"
  "e_extractContainerOptions exEnvPinnedSystem = (\<lambda>_. exOptions)"
  "e_createContainer exEnvPinnedSystem = (\<lambda>_. Inr ''c2'')"
  "e_connectContainerToNetwork exEnvPinnedSystem = (\<lambda>_ _. None)"
  "e_start exEnvPinnedSystem = (\<lambda>_. None)"
  by (simp_all add: exEnvPinnedSystem_def exEnv_def)

lemma exEnvNets_sel:
  "e_updateAutoUpdateLastChecked exEnvNets = (\<lambda>_. None)"
  "e_listContainers exEnvNets = (Inr [\<lparr>ci_id = ''c1'', ci_name = ''web-1''\<rparr>])"
  "e_inspectContainer exEnvNets = (\<lambda>_. Inr exInspectNets)"
  "e_isSystemContainer exEnvNets = (\<lambda>_. None)"
  "e_isDigestBasedImage exEnvNets = (\<lambda>_. False)"
  "e_settings exEnvNets = (Inr (''none'', None))"
  "e_checkImageUpdateAvailable exEnvNets = (\<lambda>_ _. Inr \<lparr>rc_isLocalImage = False, rc_error = None, rc_hasUpdate = True, rc_registryDigest = Some ''sha256:bbb''\<rparr>)"
  "e_getTempImageTag exEnvNets = (\<lambda>name. name @ ''-dockhand-pending'')"
  "e_parseImageNameAndTag exEnvNets = exParse"
  "e_pullImage exEnvNets = (\<lambda>_. Inr ''sha256:bbb'')"
  "e_getImageIdByTag exEnvNets = (\<lambda>_. True)"
  "e_tagImage exEnvNets = (\<lambda>_ _ _. None)"
  "e_scanImage exEnvNets = (\<lambda>_. ([], Inr [exScan]))"
  "e_combineScanSummaries exEnvNets = (\<lambda>_. exSummary)"
  "e_saveVulnerabilityScan exEnvNets = (\<lambda>_ _. None)"
  "e_getCombinedScanForImage exEnvNets = (\<lambda>_. Inr None)"
  "e_shouldBlockUpdate exEnvNets = (\<lambda>_ _ _. (False, []))"
  "e_removeTempImage exEnvNets = (\<lambda>_ _. None)"
  "e_sendEventNotification exEnvNets = (\<lambda>_. None)"
  "e_updateAutoUpdateLastUpdated exEnvNets = (\<lambda>_. None)"
  "e_getStackComposeFile exEnvNets = (\<lambda>_. Inr \<lparr>cf_success = False, cf_content = None\<rparr>)"
  "e_startStack exEnvNets = (\<lambda>_. Inr \<lparr>st_success = True, st_output = None, st_error = None\<rparr>)"
  "e_stopContainer exEnvNets = (\<lambda>_. None)"
  "e_removeContainer exEnvNets = (\<lambda>_. None)"
  "e_extractContainerOptions exEnvNets = (\<lambda>_. exOptions)"
  "e_createContainer exEnvNets = (\<lambda>_. Inr ''c2'')"
  "e_connectContainerToNetwork exEnvNets = (\<lambda>networkName _. if networkName = ''backend'' then Some ''boom'' else None)"
  "e_start exEnvNets = (\<lambda>_. None)"
  by (simp_all add: exEnvNets_def exEnv_def)


lemma exEnvBlocked_sel:
  "e_updateAutoUpdateLastChecked exEnvBlocked = (\<lambda>_. None)"
  "e_listContainers exEnvBlocked = (Inr [\<lparr>ci_id = ''c1'', ci_name = ''web-1''\<rparr>])"
  "e_inspectContainer exEnvBlocked = (\<lambda>_. Inr exInspect)"
  "e_isSystemContainer exEnvBlocked = (\<lambda>_. None)"
  "e_isDigestBasedImage exEnvBlocked = (\<lambda>_. False)"
  "e_settings exEnvBlocked = (Inr (''grype'', Some AnyKnown))"
  "e_checkImageUpdateAvailable exEnvBlocked = (\<lambda>_ _. Inr \<lparr>rc_isLocalImage = False, rc_error = None, rc_hasUpdate = True, rc_registryDigest = Some ''sha256:bbb''\<rparr>)"
  "e_getTempImageTag exEnvBlocked = (\<lambda>name. name @ ''-dockhand-pending'')"
  "e_parseImageNameAndTag exEnvBlocked = exParse"
  "e_pullImage exEnvBlocked = (\<lambda>_. Inr ''sha256:bbb'')"
  "e_getImageIdByTag exEnvBlocked = (\<lambda>_. True)"
  "e_tagImage exEnvBlocked = (\<lambda>_ _ _. None)"
  "e_scanImage exEnvBlocked = (\<lambda>_. ([], Inr [exScan]))"
  "e_combineScanSummaries exEnvBlocked = (\<lambda>_. exSummary)"
  "e_saveVulnerabilityScan exEnvBlocked = (\<lambda>_ _. None)"
  "e_getCombinedScanForImage exEnvBlocked = (\<lambda>_. Inr None)"
  "e_shouldBlockUpdate exEnvBlocked = (\<lambda>_ _ _. (True, ''Found 1 vulnerabilities''))"
  "e_removeTempImage exEnvBlocked = (\<lambda>_ _. None)"
  "e_sendEventNotification exEnvBlocked = (\<lambda>_. None)"
  "e_updateAutoUpdateLastUpdated exEnvBlocked = (\<lambda>_. None)"
  "e_getStackComposeFile exEnvBlocked = (\<lambda>_. Inr \<lparr>cf_success = False, cf_content = None\<rparr>)"
  "e_startStack exEnvBlocked = (\<lambda>_. Inr \<lparr>st_success = True, st_output = None, st_error = None\<rparr>)"
  "e_stopContainer exEnvBlocked = (\<lambda>_. None)"
  "e_removeContainer exEnvBlocked = (\<lambda>_. None)"
  "e_extractContainerOptions exEnvBlocked = (\<lambda>_. exOptions)"
  "e_createContainer exEnvBlocked = (\<lambda>_. Inr ''c2'')"
  "e_connectContainerToNetwork exEnvBlocked = (\<lambda>_ _. None)"
  "e_start exEnvBlocked = (\<lambda>_. None)"
  by (simp_all add: exEnvBlocked_def exEnv_def)

lemma exEnvBlockedInUse_sel:
  "e_updateAutoUpdateLastChecked exEnvBlockedInUse = (\<lambda>_. None)"
  "e_listContainers exEnvBlockedInUse = (Inr [\<lparr>ci_id = ''c1'', ci_name = ''web-1''\<rparr>])"
  "e_inspectContainer exEnvBlockedInUse = (\<lambda>_. Inr exInspect)"
  "e_isSystemContainer exEnvBlockedInUse = (\<lambda>_. None)"
  "e_isDigestBasedImage exEnvBlockedInUse = (\<lambda>_. False)"
  "e_settings exEnvBlockedInUse = (Inr (''grype'', Some AnyKnown))"
  "e_checkImageUpdateAvailable exEnvBlockedInUse = (\<lambda>_ _. Inr \<lparr>rc_isLocalImage = False, rc_error = None, rc_hasUpdate = True, rc_registryDigest = Some ''sha256:bbb''\<rparr>)"
  "e_getTempImageTag exEnvBlockedInUse = (\<lambda>name. name @ ''-dockhand-pending'')"
  "e_parseImageNameAndTag exEnvBlockedInUse = exParse"
  "e_pullImage exEnvBlockedInUse = (\<lambda>_. Inr ''sha256:bbb'')"
  "e_getImageIdByTag exEnvBlockedInUse = (\<lambda>_. True)"
  "e_tagImage exEnvBlockedInUse = (\<lambda>_ _ _. None)"
  "e_scanImage exEnvBlockedInUse = (\<lambda>_. ([], Inr [exScan]))"
  "e_combineScanSummaries exEnvBlockedInUse = (\<lambda>_. exSummary)"
  "e_saveVulnerabilityScan exEnvBlockedInUse = (\<lambda>_ _. None)"
  "e_getCombinedScanForImage exEnvBlockedInUse = (\<lambda>_. Inr None)"
  "e_shouldBlockUpdate exEnvBlockedInUse = (\<lambda>_ _ _. (True, ''Found 1 vulnerabilities''))"
  "e_removeTempImage exEnvBlockedInUse = (\<lambda>_ _. Some ''image is in use'')"
  "e_sendEventNotification exEnvBlockedInUse = (\<lambda>_. None)"
  "e_updateAutoUpdateLastUpdated exEnvBlockedInUse = (\<lambda>_. None)"
  "e_getStackComposeFile exEnvBlockedInUse = (\<lambda>_. Inr \<lparr>cf_success = False, cf_content = None\<rparr>)"
  "e_startStack exEnvBlockedInUse = (\<lambda>_. Inr \<lparr>st_success = True, st_output = None, st_error = None\<rparr>)"
  "e_stopContainer exEnvBlockedInUse = (\<lambda>_. None)"
  "e_removeContainer exEnvBlockedInUse = (\<lambda>_. None)"
  "e_extractContainerOptions exEnvBlockedInUse = (\<lambda>_. exOptions)"
  "e_createContainer exEnvBlockedInUse = (\<lambda>_. Inr ''c2'')"
  "e_connectContainerToNetwork exEnvBlockedInUse = (\<lambda>_ _. None)"
  "e_start exEnvBlockedInUse = (\<lambda>_. None)"
  by (simp_all add: exEnvBlockedInUse_def exEnvBlocked_def exEnv_def)

lemma exEnvBlockedRetry_sel:
  "e_updateAutoUpdateLastChecked exEnvBlockedRetry = (\<lambda>_. None)"
  "e_listContainers exEnvBlockedRetry = (Inr [\<lparr>ci_id = ''c1'', ci_name = ''web-1''\<rparr>])"
  "e_inspectContainer exEnvBlockedRetry = (\<lambda>_. Inr exInspect)"
  "e_isSystemContainer exEnvBlockedRetry = (\<lambda>_. None)"
  "e_isDigestBasedImage exEnvBlockedRetry = (\<lambda>_. False)"
  "e_settings exEnvBlockedRetry = (Inr (''grype'', Some AnyKnown))"
  "e_checkImageUpdateAvailable exEnvBlockedRetry = (\<lambda>_ _. Inr \<lparr>rc_isLocalImage = False, rc_error = None, rc_hasUpdate = True, rc_registryDigest = Some ''sha256:bbb''\<rparr>)"
  "e_getTempImageTag exEnvBlockedRetry = (\<lambda>name. name @ ''-dockhand-pending'')"
  "e_parseImageNameAndTag exEnvBlockedRetry = exParse"
  "e_pullImage exEnvBlockedRetry = (\<lambda>_. Inr ''sha256:bbb'')"
  "e_getImageIdByTag exEnvBlockedRetry = (\<lambda>_. True)"
  "e_tagImage exEnvBlockedRetry = (\<lambda>_ _ _. None)"
  "e_scanImage exEnvBlockedRetry = (\<lambda>_. ([], Inr [exScan]))"
  "e_combineScanSummaries exEnvBlockedRetry = (\<lambda>_. exSummary)"
  "e_saveVulnerabilityScan exEnvBlockedRetry = (\<lambda>_ _. None)"
  "e_getCombinedScanForImage exEnvBlockedRetry = (\<lambda>_. Inr None)"
  "e_shouldBlockUpdate exEnvBlockedRetry = (\<lambda>_ _ _. (True, ''Found 1 vulnerabilities''))"
  "e_removeTempImage exEnvBlockedRetry = (\<lambda>_ attempt. if attempt = 0 then Some ''image is in use'' else None)"
  "e_sendEventNotification exEnvBlockedRetry = (\<lambda>_. None)"
  "e_updateAutoUpdateLastUpdated exEnvBlockedRetry = (\<lambda>_. None)"
  "e_getStackComposeFile exEnvBlockedRetry = (\<lambda>_. Inr \<lparr>cf_success = False, cf_content = None\<rparr>)"
  "e_startStack exEnvBlockedRetry = (\<lambda>_. Inr \<lparr>st_success = True, st_output = None, st_error = None\<rparr>)"
  "e_stopContainer exEnvBlockedRetry = (\<lambda>_. None)"
  "e_removeContainer exEnvBlockedRetry = (\<lambda>_. None)"
  "e_extractContainerOptions exEnvBlockedRetry = (\<lambda>_. exOptions)"
  "e_createContainer exEnvBlockedRetry = (\<lambda>_. Inr ''c2'')"
  "e_connectContainerToNetwork exEnvBlockedRetry = (\<lambda>_ _. None)"
  "e_start exEnvBlockedRetry = (\<lambda>_. None)"
  by (simp_all add: exEnvBlockedRetry_def exEnvBlocked_def exEnv_def)

lemma exEnvPromoteFails_sel:
  "e_updateAutoUpdateLastChecked exEnvPromoteFails = (\<lambda>_. None)"
  "e_listContainers exEnvPromoteFails = (Inr [\<lparr>ci_id = ''c1'', ci_name = ''web-1''\<rparr>])"
  "e_inspectContainer exEnvPromoteFails = (\<lambda>_. Inr exInspect)"
  "e_isSystemContainer exEnvPromoteFails = (\<lambda>_. None)"
  "e_isDigestBasedImage exEnvPromoteFails = (\<lambda>_. False)"
  "e_settings exEnvPromoteFails = (Inr (''grype'', Some AnyKnown))"
  "e_checkImageUpdateAvailable exEnvPromoteFails = (\<lambda>_ _. Inr \<lparr>rc_isLocalImage = False, rc_error = None, rc_hasUpdate = True, rc_registryDigest = Some ''sha256:bbb''\<rparr>)"
  "e_getTempImageTag exEnvPromoteFails = (\<lambda>name. name @ ''-dockhand-pending'')"
  "e_parseImageNameAndTag exEnvPromoteFails = exParse"
  "e_pullImage exEnvPromoteFails = (\<lambda>_. Inr ''sha256:bbb'')"
  "e_getImageIdByTag exEnvPromoteFails = (\<lambda>_. True)"
  "e_tagImage exEnvPromoteFails = (\<lambda>imageId _ tag. if imageId = ''sha256:bbb'' \<and> tag = ''1.0'' then Some ''tag is locked'' else None)"
  "e_scanImage exEnvPromoteFails = (\<lambda>_. ([], Inr [exScan]))"
  "e_combineScanSummaries exEnvPromoteFails = (\<lambda>_. exSummary)"
  "e_saveVulnerabilityScan exEnvPromoteFails = (\<lambda>_ _. None)"
  "e_getCombinedScanForImage exEnvPromoteFails = (\<lambda>_. Inr None)"
  "e_shouldBlockUpdate exEnvPromoteFails = (\<lambda>_ _ _. (False, []))"
  "e_removeTempImage exEnvPromoteFails = (\<lambda>_ _. None)"
  "e_sendEventNotification exEnvPromoteFails = (\<lambda>_. None)"
  "e_updateAutoUpdateLastUpdated exEnvPromoteFails = (\<lambda>_. None)"
  "e_getStackComposeFile exEnvPromoteFails = (\<lambda>_. Inr \<lparr>cf_success = False, cf_content = None\<rparr>)"
  "e_startStack exEnvPromoteFails = (\<lambda>_. Inr \<lparr>st_success = True, st_output = None, st_error = None\<rparr>)"
  "e_stopContainer exEnvPromoteFails = (\<lambda>_. None)"
  "e_removeContainer exEnvPromoteFails = (\<lambda>_. None)"
  "e_extractContainerOptions exEnvPromoteFails = (\<lambda>_. exOptions)"
  "e_createContainer exEnvPromoteFails = (\<lambda>_. Inr ''c2'')"
  "e_connectContainerToNetwork exEnvPromoteFails = (\<lambda>_ _. None)"
  "e_start exEnvPromoteFails = (\<lambda>_. None)"
  by (simp_all add: exEnvPromoteFails_def exEnv_def)

lemma exEnvRestoreFails_sel:
  "e_updateAutoUpdateLastChecked exEnvRestoreFails = (\<lambda>_. None)"
  "e_listContainers exEnvRestoreFails = (Inr [\<lparr>ci_id = ''c1'', ci_name = ''web-1''\<rparr>])"
  "e_inspectContainer exEnvRestoreFails = (\<lambda>_. Inr exInspect)"
  "e_isSystemContainer exEnvRestoreFails = (\<lambda>_. None)"
  "e_isDigestBasedImage exEnvRestoreFails = (\<lambda>_. False)"
  "e_settings exEnvRestoreFails = (Inr (''grype'', Some AnyKnown))"
  "e_checkImageUpdateAvailable exEnvRestoreFails = (\<lambda>_ _. Inr \<lparr>rc_isLocalImage = False, rc_error = None, rc_hasUpdate = True, rc_registryDigest = Some ''sha256:bbb''\<rparr>)"
  "e_getTempImageTag exEnvRestoreFails = (\<lambda>name. name @ ''-dockhand-pending'')"
  "e_parseImageNameAndTag exEnvRestoreFails = exParse"
  "e_pullImage exEnvRestoreFails = (\<lambda>_. Inr ''sha256:bbb'')"
  "e_getImageIdByTag exEnvRestoreFails = (\<lambda>_. True)"
  "e_tagImage exEnvRestoreFails = (\<lambda>imageId _ _. if imageId = ''sha256:aaa'' then Some ''no such image'' else None)"
  "e_scanImage exEnvRestoreFails = (\<lambda>_. ([], Inr [exScan]))"
  "e_combineScanSummaries exEnvRestoreFails = (\<lambda>_. exSummary)"
  "e_saveVulnerabilityScan exEnvRestoreFails = (\<lambda>_ _. None)"
  "e_getCombinedScanForImage exEnvRestoreFails = (\<lambda>_. Inr None)"
  "e_shouldBlockUpdate exEnvRestoreFails = (\<lambda>_ _ _. (True, ''Found 1 vulnerabilities''))"
  "e_removeTempImage exEnvRestoreFails = (\<lambda>_ _. None)"
  "e_sendEventNotification exEnvRestoreFails = (\<lambda>_. None)"
  "e_updateAutoUpdateLastUpdated exEnvRestoreFails = (\<lambda>_. None)"
  "e_getStackComposeFile exEnvRestoreFails = (\<lambda>_. Inr \<lparr>cf_success = False, cf_content = None\<rparr>)"
  "e_startStack exEnvRestoreFails = (\<lambda>_. Inr \<lparr>st_success = True, st_output = None, st_error = None\<rparr>)"
  "e_stopContainer exEnvRestoreFails = (\<lambda>_. None)"
  "e_removeContainer exEnvRestoreFails = (\<lambda>_. None)"
  "e_extractContainerOptions exEnvRestoreFails = (\<lambda>_. exOptions)"
  "e_createContainer exEnvRestoreFails = (\<lambda>_. Inr ''c2'')"
  "e_connectContainerToNetwork exEnvRestoreFails = (\<lambda>_ _. None)"
  "e_start exEnvRestoreFails = (\<lambda>_. None)"
  by (simp_all add: exEnvRestoreFails_def exEnvBlocked_def exEnv_def)

lemma exEnvStack_sel:
  "e_updateAutoUpdateLastChecked exEnvStack = (\<lambda>_. None)"
  "e_listContainers exEnvStack = (Inr [\<lparr>ci_id = ''c1'', ci_name = ''web-1''\<rparr>])"
  "e_inspectContainer exEnvStack = (\<lambda>_. Inr (exInspect\<lparr>i_Labels := [(''com.docker.compose.project'', ''shop''), (''com.docker.compose.service'', ''web'')]\<rparr>))"
  "e_isSystemContainer exEnvStack = (\<lambda>_. None)"
  "e_isDigestBasedImage exEnvStack = (\<lambda>_. False)"
  "e_settings exEnvStack = (Inr (''none'', None))"
  "e_checkImageUpdateAvailable exEnvStack = (\<lambda>_ _. Inr \<lparr>rc_isLocalImage = False, rc_error = None, rc_hasUpdate = True, rc_registryDigest = Some ''sha256:bbb''\<rparr>)"
  "e_getTempImageTag exEnvStack = (\<lambda>name. name @ ''-dockhand-pending'')"
  "e_parseImageNameAndTag exEnvStack = exParse"
  "e_pullImage exEnvStack = (\<lambda>_. Inr ''sha256:bbb'')"
  "e_getImageIdByTag exEnvStack = (\<lambda>_. True)"
  "e_tagImage exEnvStack = (\<lambda>_ _ _. None)"
  "e_scanImage exEnvStack = (\<lambda>_. ([], Inr [exScan]))"
  "e_combineScanSummaries exEnvStack = (\<lambda>_. exSummary)"
  "e_saveVulnerabilityScan exEnvStack = (\<lambda>_ _. None)"
  "e_getCombinedScanForImage exEnvStack = (\<lambda>_. Inr None)"
  "e_shouldBlockUpdate exEnvStack = (\<lambda>_ _ _. (False, []))"
  "e_removeTempImage exEnvStack = (\<lambda>_ _. None)"
  "e_sendEventNotification exEnvStack = (\<lambda>_. None)"
  "e_updateAutoUpdateLastUpdated exEnvStack = (\<lambda>_. None)"
  "e_getStackComposeFile exEnvStack = (\<lambda>_. Inr \<lparr>cf_success = True, cf_content = Some ''services:''\<rparr>)"
  "e_startStack exEnvStack = (\<lambda>_. Inr \<lparr>st_success = False, st_output = None, st_error = Some ''port is already allocated''\<rparr>)"
  "e_stopContainer exEnvStack = (\<lambda>_. None)"
  "e_removeContainer exEnvStack = (\<lambda>_. None)"
  "e_extractContainerOptions exEnvStack = (\<lambda>_. exOptions)"
  "e_createContainer exEnvStack = (\<lambda>_. Inr ''c2'')"
  "e_connectContainerToNetwork exEnvStack = (\<lambda>_ _. None)"
  "e_start exEnvStack = (\<lambda>_. None)"
  by (simp_all add: exEnvStack_def exEnv_def)

lemma exEnvNotifyFails_sel:
  "e_updateAutoUpdateLastChecked exEnvNotifyFails = (\<lambda>_. None)"
  "e_listContainers exEnvNotifyFails = (Inr [\<lparr>ci_id = ''c1'', ci_name = ''web-1''\<rparr>])"
  "e_inspectContainer exEnvNotifyFails = (\<lambda>_. Inr exInspect)"
  "e_isSystemContainer exEnvNotifyFails = (\<lambda>_. None)"
  "e_isDigestBasedImage exEnvNotifyFails = (\<lambda>_. False)"
  "e_settings exEnvNotifyFails = (Inr (''none'', None))"
  "e_checkImageUpdateAvailable exEnvNotifyFails = (\<lambda>_ _. Inr \<lparr>rc_isLocalImage = False, rc_error = None, rc_hasUpdate = True, rc_registryDigest = Some ''sha256:bbb''\<rparr>)"
  "e_getTempImageTag exEnvNotifyFails = (\<lambda>name. name @ ''-dockhand-pending'')"
  "e_parseImageNameAndTag exEnvNotifyFails = exParse"
  "e_pullImage exEnvNotifyFails = (\<lambda>_. Inr ''sha256:bbb'')"
  "e_getImageIdByTag exEnvNotifyFails = (\<lambda>_. True)"
  "e_tagImage exEnvNotifyFails = (\<lambda>_ _ _. None)"
  "e_scanImage exEnvNotifyFails = (\<lambda>_. ([], Inr [exScan]))"
  "e_combineScanSummaries exEnvNotifyFails = (\<lambda>_. exSummary)"
  "e_saveVulnerabilityScan exEnvNotifyFails = (\<lambda>_ _. None)"
  "e_getCombinedScanForImage exEnvNotifyFails = (\<lambda>_. Inr None)"
  "e_shouldBlockUpdate exEnvNotifyFails = (\<lambda>_ _ _. (False, []))"
  "e_removeTempImage exEnvNotifyFails = (\<lambda>_ _. None)"
  "e_sendEventNotification exEnvNotifyFails = (\<lambda>eventType. if eventType = ''auto_update_success'' then Some ''smtp down'' else None)"
  "e_updateAutoUpdateLastUpdated exEnvNotifyFails = (\<lambda>_. None)"
  "e_getStackComposeFile exEnvNotifyFails = (\<lambda>_. Inr \<lparr>cf_success = False, cf_content = None\<rparr>)"
  "e_startStack exEnvNotifyFails = (\<lambda>_. Inr \<lparr>st_success = True, st_output = None, st_error = None\<rparr>)"
  "e_stopContainer exEnvNotifyFails = (\<lambda>_. None)"
  "e_removeContainer exEnvNotifyFails = (\<lambda>_. None)"
  "e_extractContainerOptions exEnvNotifyFails = (\<lambda>_. exOptions)"
  "e_createContainer exEnvNotifyFails = (\<lambda>_. Inr ''c2'')"
  "e_connectContainerToNetwork exEnvNotifyFails = (\<lambda>_ _. None)"
  "e_start exEnvNotifyFails = (\<lambda>_. None)"
  by (simp_all add: exEnvNotifyFails_def exEnv_def)

section \<open>Closed forms of the loops\<close>

lemma logAll_Some [simp]:
  "logAll (Some TaskLog) messages w = (Val (), w\<lparr>logs := logs w @ messages\<rparr>)"
proof (induction messages arbitrary: w)
  case Nil
  show ?case by (simp add: logAll_def yield_def)
next
  case (Cons m ms)
  from Cons [of "w\<lparr>logs := logs w @ [m]\<rparr>"] show ?case
    by (simp add: logAll_def andThen_def optLog_Some log_apply)
qed

lemma logAll_None [simp]: "logAll None messages w = (Val (), w)"
  by (induction messages arbitrary: w) (simp_all add: logAll_def andThen_def optLog_None yield_def)

text \<open>The loop over the networks gives the secondary networks in their order and logs the
  lines of the primary network once for each entry that is primary.\<close>

lemma collectNetworks_Some [simp]:
  "collectNetworks (Some TaskLog) opts prim cid proj svc entries acc w =
     (Val (acc @ map (\<lambda>(n, c). networkInfo cid proj svc n c)
                   (filter (\<lambda>(n, c). \<not> isPrimary prim n) entries)),
      w\<lparr>logs := logs w @ concat (map (\<lambda>x. primaryLines opts)
                                   (filter (\<lambda>(n, c). isPrimary prim n) entries))\<rparr>)"
proof (induction entries arbitrary: acc w)
  case Nil
  show ?case by (simp add: yield_def)
next
  case (Cons entry entries)
  obtain n c where entry: "entry = (n, c)" by (cases entry)
  show ?case
    by (simp add: entry Cons andThen_def logPrimary_def)
qed

lemma collectNetworks_None [simp]:
  "collectNetworks None opts prim cid proj svc entries acc w =
     (Val (acc @ map (\<lambda>(n, c). networkInfo cid proj svc n c)
                   (filter (\<lambda>(n, c). \<not> isPrimary prim n) entries)), w)"
proof (induction entries arbitrary: acc w)
  case Nil
  show ?case by (simp add: yield_def)
next
  case (Cons entry entries)
  obtain n c where entry: "entry = (n, c)" by (cases entry)
  show ?case
    by (simp add: entry Cons andThen_def logPrimary_def)
qed

lemma connect_none [simp]:
  "map (\<lambda>c. if k_id c = newId then c\<lparr>k_connected := k_connected c @ filter P []\<rparr> else c) cs = cs"
  by (induction cs) auto

lemma connect_more:
  "map (\<lambda>c. if k_id c = newId then c\<lparr>k_connected := k_connected c @ ns\<rparr> else c)
     (map (\<lambda>c. if k_id c = newId then c\<lparr>k_connected := k_connected c @ [n]\<rparr> else c) cs) =
   map (\<lambda>c. if k_id c = newId then c\<lparr>k_connected := k_connected c @ n # ns\<rparr> else c) cs"
  by (induction cs) auto

text \<open>The reconnection loop never throws: it calls the engine once for every network, in
  order, connects those whose call succeeds, and logs a warning for each that fails.\<close>

lemma reconnectAll_Some [simp]:
  "reconnectAll e (Some TaskLog) newId nets w =
     (Val (),
      w\<lparr>calls := calls w @ map (\<lambda>n. CConnect (ni_name n) newId) nets,
        conts := map (\<lambda>c. if k_id c = newId
                          then c\<lparr>k_connected := k_connected c
                                  @ filter (\<lambda>n. e_connectContainerToNetwork e (ni_name n) newId
                                                  = None) nets\<rparr>
                          else c) (conts w),
        logs := logs w @ concat (map (\<lambda>n. case e_connectContainerToNetwork e (ni_name n) newId of
                                            None \<Rightarrow> connectedLines n
                                          | Some message \<Rightarrow> [connectWarning n message]) nets)\<rparr>)"
proof (induction nets arbitrary: w)
  case Nil
  show ?case by (simp add: yield_def)
next
  case (Cons n ns)
  show ?case
  proof (cases "e_connectContainerToNetwork e (ni_name n) newId")
    case None
    then show ?thesis
      by (simp add: Cons reconnectOne_def connectContainerToNetwork_def andThen_def
            tryCatch_def yield_def throw_def record_call_def outcome_def modify_def
            optLog_Some log_apply connect_more)
  next
    case (Some message)
    then show ?thesis
      by (simp add: Cons reconnectOne_def connectContainerToNetwork_def andThen_def
            tryCatch_def yield_def throw_def record_call_def outcome_def modify_def
            optLog_Some log_apply)
  qed
qed

lemma reconnectAll_None [simp]:
  "reconnectAll e None newId nets w =
     (Val (),
      w\<lparr>calls := calls w @ map (\<lambda>n. CConnect (ni_name n) newId) nets,
        conts := map (\<lambda>c. if k_id c = newId
                          then c\<lparr>k_connected := k_connected c
                                  @ filter (\<lambda>n. e_connectContainerToNetwork e (ni_name n) newId
                                                  = None) nets\<rparr>
                          else c) (conts w)\<rparr>)"
proof (induction nets arbitrary: w)
  case Nil
  show ?case by (simp add: yield_def)
next
  case (Cons n ns)
  show ?case
  proof (cases "e_connectContainerToNetwork e (ni_name n) newId")
    case None
    then show ?thesis
      by (simp add: Cons reconnectOne_def connectContainerToNetwork_def andThen_def
            tryCatch_def yield_def throw_def record_call_def outcome_def modify_def
            optLog_None connect_more)
  next
    case (Some message)
    then show ?thesis
      by (simp add: Cons reconnectOne_def connectContainerToNetwork_def andThen_def
            tryCatch_def yield_def throw_def record_call_def outcome_def modify_def
            optLog_None)
  qed
qed

text \<open>Saving the scan results never throws.\<close>

lemma saveScans_closed [simp]:
  "saveScans e imageId results w =
     (Val (),
      w\<lparr>calls := calls w @ map (\<lambda>r. CSaveScan imageId (sr_scanner r)) results,
        logs := logs w @ concat (map (\<lambda>r. case e_saveVulnerabilityScan e imageId r of
                                            None \<Rightarrow> []
                                          | Some message \<Rightarrow>
                                              [''Warning: Could not save scan results: ''
                                                 @ message]) results)\<rparr>)"
proof (induction results arbitrary: w)
  case Nil
  show ?case by (simp add: yield_def)
next
  case (Cons r rs)
  show ?case
    by (cases "e_saveVulnerabilityScan e imageId r")
       (simp_all add: Cons saveVulnerabilityScan_def prog_defs)
qed

lemma saveScansQuietly_closed [simp]:
  "saveScansQuietly e imageId results w =
     (Val (), w\<lparr>calls := calls w @ map (\<lambda>r. CSaveScan imageId (sr_scanner r)) results\<rparr>)"
proof (induction results arbitrary: w)
  case Nil
  show ?case by (simp add: yield_def)
next
  case (Cons r rs)
  show ?case
    by (cases "e_saveVulnerabilityScan e imageId r")
       (simp_all add: Cons saveVulnerabilityScan_def prog_defs)
qed

text \<open>The lookup of the current image's summary never throws and changes only the calls
  and the log; its calls are those of the scanner and its cache.\<close>

lemmas scan_defs =
  currentScan_def currentSummaryOf_def getCombinedScanForImage_def scanImage_def prog_defs
  Let_def

lemma currentScan_frame:
  "\<exists>cs ls. (\<forall>w. currentScan e cur w =
     (Val (currentSummaryOf e cur), w\<lparr>calls := calls w @ cs, logs := logs w @ ls\<rparr>)) \<and>
     (\<forall>c \<in> set cs. isScanCall c)"
proof (cases "e_getCombinedScanForImage e cur")
  case (Inl m)
  then show ?thesis
    by (intro exI conjI allI) (simp add: scan_defs, simp)
next
  case (Inr cached)
  show ?thesis
  proof (cases cached)
    case (Some s)
    with Inr show ?thesis
      by (intro exI conjI allI) (simp add: scan_defs, simp)
  next
    case None
    show ?thesis
    proof (cases "snd (e_scanImage e cur)")
      case (Inl m)
      with Inr None show ?thesis
        by (intro exI conjI allI) (simp add: scan_defs, simp)
    next
      case rs: (Inr results)
      show ?thesis
      proof (cases "results = []")
        case True
        with Inr None rs show ?thesis
          by (intro exI conjI allI) (simp add: scan_defs, simp)
      next
        case False
        with Inr None rs show ?thesis
          by (intro exI conjI allI) (simp add: scan_defs, rule World.equality, simp_all, auto)
      qed
    qed
  qed
qed

section \<open>Properties of the log de-multiplexing\<close>

lemma isFrame_bounds:
  "isFrame raw offset \<Longrightarrow>
     0 < frameSize raw offset \<and> offset + 8 + nat (frameSize raw offset) \<le> length raw"
  by (auto simp: isFrame_def)

lemma slice_frame: "slice raw (offset + 8) (offset + 8 + n) = take n (drop (offset + 8) raw)"
  by (simp add: slice_def)

lemma slice_rest: "slice raw offset (length raw) = drop offset raw"
  by (simp add: slice_def)

lemma readsAt_bound: "i \<in> set (readsAt raw offset) \<Longrightarrow> i < length raw"
  by (auto simp: readsAt_def split: if_splits)

text \<open>Every index the loop reads lies inside the array.\<close>

lemma stripLoop_reads:
  "i \<in> set (snd (stripLoop dec raw offset lines rd)) \<Longrightarrow> i \<in> set rd \<or> i < length raw"
proof (induction dec raw offset lines rd rule: stripLoop.induct)
  case (1 dec raw offset lines rd)
  show ?case
  proof (cases "offset < length raw")
    case False
    with "1.prems" show ?thesis by (simp add: stripLoop.simps [of dec raw offset])
  next
    case True
    show ?thesis
    proof (cases "isFrame raw offset")
      case fr: True
      from "1.prems" True fr
      have "i \<in> set (snd (stripLoop dec raw (offset + 8 + nat (frameSize raw offset))
             (pushLines lines
                (dec (slice raw (offset + 8) (offset + 8 + nat (frameSize raw offset)))))
             (rd @ readsAt raw offset)))"
        by (simp add: stripLoop.simps [of dec raw offset])
      from "1.IH" [OF True fr this] show ?thesis
        by (auto dest: readsAt_bound)
    next
      case False
      with "1.prems" True show ?thesis
        by (auto simp: stripLoop.simps [of dec raw offset] dest: readsAt_bound)
    qed
  qed
qed

text \<open>The lines the loop collects are the non-blank lines of the decoded chunks.\<close>

lemma stripLoop_lines:
  "fst (stripLoop dec raw offset lines rd) =
     lines @ filter nonBlank (concat (map (\<lambda>c. split_nl (dec c)) (chunks raw offset)))"
proof (induction dec raw offset lines rd rule: stripLoop.induct)
  case (1 dec raw offset lines rd)
  show ?case
  proof (cases "offset < length raw")
    case False
    then show ?thesis
      by (simp add: stripLoop.simps [of dec raw offset] chunks.simps [of raw offset])
  next
    case True
    show ?thesis
    proof (cases "isFrame raw offset")
      case fr: True
      from "1.IH" [OF True fr] True fr show ?thesis
        by (simp add: stripLoop.simps [of dec raw offset] chunks.simps [of raw offset]
              pushLines_def slice_frame)
    next
      case False
      with True show ?thesis
        by (simp add: stripLoop.simps [of dec raw offset] chunks.simps [of raw offset]
              pushLines_def slice_rest)
    qed
  qed
qed

text \<open>
  C10.  \<^verbatim>\<open>stripDockerLogHeaders\<close> is a total function (its loop is defined with a
  termination proof: the offset grows in every iteration that continues).  An iteration
  inside the array either finds a complete frame, of a size above 0 that fits into the
  array, and continues behind it with the frame's non-blank lines appended; or it appends
  the non-blank lines of all remaining bytes and stops.  At or behind the end the loop
  stops.  Every index it reads is inside the array, and the result joins the non-blank
  lines of the decoded chunks.
\<close>

theorem stripDockerLogHeaders_total:
  "(\<forall>offset lines rd. offset < length raw \<longrightarrow>
      (if isFrame raw offset
       then 0 < frameSize raw offset \<and>
            offset + 8 + nat (frameSize raw offset) \<le> length raw \<and>
            stripLoop dec raw offset lines rd =
              stripLoop dec raw (offset + 8 + nat (frameSize raw offset))
                (pushLines lines
                   (dec (take (nat (frameSize raw offset)) (drop (offset + 8) raw))))
                (rd @ readsAt raw offset)
       else stripLoop dec raw offset lines rd =
              (pushLines lines (dec (drop offset raw)), rd @ readsAt raw offset))) \<and>
   (\<forall>offset lines rd. length raw \<le> offset \<longrightarrow> stripLoop dec raw offset lines rd = (lines, rd)) \<and>
   (\<forall>i \<in> set (snd (stripLoop dec raw 0 [] [])). i < length raw) \<and>
   stripDockerLogHeaders dec raw =
     join_nl (filter nonBlank (concat (map (\<lambda>c. split_nl (dec c)) (chunks raw 0)))) \<and>
   (\<forall>l \<in> set (fst (stripLoop dec raw 0 [] [])). nonBlank l)"
proof (intro conjI allI impI ballI)
  fix offset lines rd
  assume "offset < length raw"
  then show "if isFrame raw offset
       then 0 < frameSize raw offset \<and>
            offset + 8 + nat (frameSize raw offset) \<le> length raw \<and>
            stripLoop dec raw offset lines rd =
              stripLoop dec raw (offset + 8 + nat (frameSize raw offset))
                (pushLines lines
                   (dec (take (nat (frameSize raw offset)) (drop (offset + 8) raw))))
                (rd @ readsAt raw offset)
       else stripLoop dec raw offset lines rd =
              (pushLines lines (dec (drop offset raw)), rd @ readsAt raw offset)"
    using isFrame_bounds [of raw offset]
    by (simp add: stripLoop.simps [of dec raw offset] slice_frame slice_rest)
next
  fix offset lines rd
  assume "length raw \<le> offset"
  then show "stripLoop dec raw offset lines rd = (lines, rd)"
    by (simp add: stripLoop.simps [of dec raw offset])
next
  fix i
  assume "i \<in> set (snd (stripLoop dec raw 0 [] []))"
  then show "i < length raw"
    using stripLoop_reads [of i dec raw 0 "[]" "[]"] by simp
next
  show "stripDockerLogHeaders dec raw =
     join_nl (filter nonBlank (concat (map (\<lambda>c. split_nl (dec c)) (chunks raw 0))))"
    by (simp add: stripDockerLogHeaders_def stripLoop_lines)
next
  fix l
  assume "l \<in> set (fst (stripLoop dec raw 0 [] []))"
  then show "nonBlank l"
    by (simp add: stripLoop_lines)
qed

text \<open>A stdout frame \<^verbatim>\<open>"h\ni"\<close>, a stderr frame of a blank line, and two bytes that are no
  frame: the lines are \<^verbatim>\<open>h\<close>, \<^verbatim>\<open>i\<close> and \<^verbatim>\<open>xy\<close>, and the indices read are those of the two headers.\<close>

theorem stripDockerLogHeaders_total_witness:
  "stripLoop ascii [1,0,0,0,0,0,0,3,104,10,105, 2,0,0,0,0,0,0,2,32,10, 120,121] 0 [] [] =
     ([[104], [105], [120, 121]], [0, 4, 5, 6, 7, 11, 15, 16, 17, 18]) \<and>
   stripDockerLogHeaders ascii [1,0,0,0,0,0,0,3,104,10,105, 2,0,0,0,0,0,0,2,32,10, 120,121] =
     [104, 10, 105, 10, 120, 121] \<and>
   chunks [1,0,0,0,0,0,0,3,104,10,105, 2,0,0,0,0,0,0,2,32,10, 120,121] 0 =
     [[104, 10, 105], [32, 10], [120, 121]]"
  using stripDockerLogHeaders_total
    [of "[1,0,0,0,0,0,0,3,104,10,105, 2,0,0,0,0,0,0,2,32,10, 120,121]" ascii]
  by (simp add: stripDockerLogHeaders_def stripLoop.simps chunks.simps isFrame_def
        frameSize_def js_index_def slice_def pushLines_def nonBlank_def isWhite_def ascii_def
        readsAt_def)

section \<open>Runs that end before a pull\<close>

lemma inspectsD:
  assumes "inspects e name k d img"
  obtains cs where "e_updateAutoUpdateLastChecked e name = None"
    and "e_listContainers e = Inr cs" and "findContainer cs name = Some k"
    and "e_inspectContainer e (ci_id k) = Inr d" and "i_ConfigImage d = Some img"
    and "img \<noteq> []"
  using assms by (auto simp: inspects_def split: sum.splits)

lemmas early_defs =
  runContainerUpdate_def updateBody_def updateFound_def prog_defs
  updateAutoUpdateLastChecked_def listContainers_def inspectContainer_def
  getSettings_def checkImageUpdateAvailable_def createScheduleExecution_def
  updateScheduleExecution_def value_defs

text \<open>
  C4, as amended.  When the configured image of the container is pinned to a digest, the
  run makes no registry call and no pull (its only calls are the time stamp, the list and
  the inspection), changes nothing on the engine, and ends with the one terminal write
  \<^verbatim>\<open>'skipped'\<close>.  The reason is \<^verbatim>\<open>'Image pinned to specific digest'\<close> unless the image is that
  of a system container, whose test comes first and gives its own reason.  The
  self-update check answers for a digest-based image of its own container that no update
  is available, without an error, after the inspection of the container as its only call.
\<close>

theorem digest_pinned_skipped:
  assumes "inspects e name k d img" and "e_isDigestBasedImage e img"
    and "g_authorize g = Inr (authEnabled, isAdmin)" and "authEnabled \<longrightarrow> isAdmin"
    and "g_ownContainerId g = Some cid" and "cid \<noteq> []"
    and "g_inspectContainer g cid = Inr (True, Inr sd)"
    and "si_ConfigImage sd = Some ownImage" and "str_includes ownImage ''@sha256:''"
  shows "fst (runContainerUpdate e name (initialWorld t i c)) = Return \<and>
         finalStatus (snd (runContainerUpdate e name (initialWorld t i c))) = Some skipped \<and>
         length (terminalWrites (snd (runContainerUpdate e name (initialWorld t i c)))) = 1 \<and>
         lastDetails (snd (runContainerUpdate e name (initialWorld t i c))) =
           Some (reasonDetails
                   (case e_isSystemContainer e img of
                      None \<Rightarrow> ''Image pinned to specific digest''
                    | Some dockhand \<Rightarrow> ''Cannot auto-update Dockhand itself''
                    | Some hawser \<Rightarrow> ''Cannot auto-update Hawser agent'')) \<and>
         calls (snd (runContainerUpdate e name (initialWorld t i c))) =
           [CLastChecked name, CListContainers, CInspect (ci_id k)] \<and>
         tags (snd (runContainerUpdate e name (initialWorld t i c))) = t \<and>
         images (snd (runContainerUpdate e name (initialWorld t i c))) = i \<and>
         conts (snd (runContainerUpdate e name (initialWorld t i c))) = c \<and>
         map_sum id r_updateAvailable (fst (checkGET g)) = Inr (Some False) \<and>
         map_sum id r_error (fst (checkGET g)) = Inr None \<and>
         snd (checkGET g) = [GInspectContainer cid]"
proof -
  from assms(1) obtain cs where
    a: "e_updateAutoUpdateLastChecked e name = None" "e_listContainers e = Inr cs"
       "findContainer cs name = Some k" "e_inspectContainer e (ci_id k) = Inr d"
       "i_ConfigImage d = Some img" "img \<noteq> []"
    by (rule inspectsD)
  have run: "fst (runContainerUpdate e name (initialWorld t i c)) = Return \<and>
         finalStatus (snd (runContainerUpdate e name (initialWorld t i c))) = Some skipped \<and>
         length (terminalWrites (snd (runContainerUpdate e name (initialWorld t i c)))) = 1 \<and>
         lastDetails (snd (runContainerUpdate e name (initialWorld t i c))) =
           Some (reasonDetails
                   (case e_isSystemContainer e img of
                      None \<Rightarrow> ''Image pinned to specific digest''
                    | Some dockhand \<Rightarrow> ''Cannot auto-update Dockhand itself''
                    | Some hawser \<Rightarrow> ''Cannot auto-update Hawser agent'')) \<and>
         calls (snd (runContainerUpdate e name (initialWorld t i c))) =
           [CLastChecked name, CListContainers, CInspect (ci_id k)] \<and>
         tags (snd (runContainerUpdate e name (initialWorld t i c))) = t \<and>
         images (snd (runContainerUpdate e name (initialWorld t i c))) = i \<and>
         conts (snd (runContainerUpdate e name (initialWorld t i c))) = c"
  proof (cases "e_isSystemContainer e img")
    case None
    with a assms(2) show ?thesis by (simp add: early_defs)
  next
    case (Some kind)
    with a assms(2) show ?thesis by (cases kind) (simp_all add: early_defs)
  qed
  have get: "map_sum id r_updateAvailable (fst (checkGET g)) = Inr (Some False) \<and>
         map_sum id r_error (fst (checkGET g)) = Inr None \<and>
         snd (checkGET g) = [GInspectContainer cid]"
  proof -
    from assms(8,9) have "ownImage \<noteq> []" by auto
    with assms(3-9) show ?thesis
      by (auto simp: checkGET_def response_def orElse_def Let_def)
  qed
  from run get show ?thesis by simp
qed

theorem digest_pinned_skipped_witness:
  "inspects exEnvPinned ''web-1'' \<lparr>ci_id = ''c1'', ci_name = ''web-1''\<rparr>
     (exInspect\<lparr>i_ConfigImage := Some ''app@sha256:ccc''\<rparr>) ''app@sha256:ccc'' \<and>
   e_isDigestBasedImage exEnvPinned ''app@sha256:ccc'' \<and>
   lastDetails (snd (runContainerUpdate exEnvPinned ''web-1'' exWorld)) =
     Some (reasonDetails ''Image pinned to specific digest'') \<and>
   calls (snd (runContainerUpdate exEnvPinned ''web-1'' exWorld)) =
     [CLastChecked ''web-1'', CListContainers, CInspect ''c1''] \<and>
   map_sum id r_updateAvailable (fst (checkGET exCheckEnv)) = Inr (Some False) \<and>
   snd (checkGET exCheckEnv) = [GInspectContainer ''self'']"
proof -
  have h1: "inspects exEnvPinned ''web-1'' \<lparr>ci_id = ''c1'', ci_name = ''web-1''\<rparr>
     (exInspect\<lparr>i_ConfigImage := Some ''app@sha256:ccc''\<rparr>) ''app@sha256:ccc''"
    by (simp add: inspects_def exEnvPinned_sel findContainer_def)
  have h2: "e_isDigestBasedImage exEnvPinned ''app@sha256:ccc''"
    by (simp add: exEnvPinned_sel exIsDigestBasedImage_def)
  have h3: "e_isSystemContainer exEnvPinned ''app@sha256:ccc'' = None"
    by (simp add: exEnvPinned_sel exIsSystemContainer_def)
  have g: "g_authorize exCheckEnv = Inr (True, True)" "True \<longrightarrow> True"
    "g_ownContainerId exCheckEnv = Some ''self''" "''self'' \<noteq> []"
    "g_inspectContainer exCheckEnv ''self'' =
       Inr (True, Inr \<lparr>si_ConfigImage = Some ''app@sha256:ccc'', si_Labels = [],
                       si_Image = Some ''sha256:ccc'', si_Name = Some ''/dockhand''\<rparr>)"
    "si_ConfigImage \<lparr>si_ConfigImage = Some ''app@sha256:ccc'', si_Labels = [],
                     si_Image = Some ''sha256:ccc'', si_Name = Some ''/dockhand''\<rparr>
       = Some ''app@sha256:ccc''"
    "str_includes ''app@sha256:ccc'' ''@sha256:''"
    by (simp_all add: exCheckEnv_def)
  show ?thesis
    using digest_pinned_skipped [OF h1 h2 g, of "[(''app'', ''1.0'') \<mapsto> ''sha256:aaa'']"
        "{''sha256:aaa''}"
        "[\<lparr>k_id = ''c1'', k_options = None, k_running = True, k_connected = []\<rparr>]"]
      h1 h2 h3
    by (simp add: exWorld_def)
qed

text \<open>The claim as stated fails for a digest-pinned image of Dockhand itself: the run is
  skipped with the reason of the system container, not with that of the pinned digest.\<close>

theorem digest_pinned_system_counterexample:
  "inspects exEnvPinnedSystem ''web-1'' \<lparr>ci_id = ''c1'', ci_name = ''web-1''\<rparr>
     (exInspect\<lparr>i_ConfigImage := Some ''fnsys/dockhand@sha256:ccc''\<rparr>)
     ''fnsys/dockhand@sha256:ccc'' \<and>
   e_isDigestBasedImage exEnvPinnedSystem ''fnsys/dockhand@sha256:ccc'' \<and>
   finalStatus (snd (runContainerUpdate exEnvPinnedSystem ''web-1'' exWorld)) = Some skipped \<and>
   lastDetails (snd (runContainerUpdate exEnvPinnedSystem ''web-1'' exWorld)) =
     Some (reasonDetails ''Cannot auto-update Dockhand itself'') \<and>
   lastDetails (snd (runContainerUpdate exEnvPinnedSystem ''web-1'' exWorld)) \<noteq>
     Some (reasonDetails ''Image pinned to specific digest'')"
  by (simp add: inspects_def exEnvPinnedSystem_sel exIsDigestBasedImage_def
        exIsSystemContainer_def exWorld_def exInspect_def findContainer_def early_defs)

text \<open>
  C5.  When the run reaches the registry check and the check reports a local image, an
  error, or no update, the function returns normally, the execution ends with the one
  terminal write \<^verbatim>\<open>'skipped'\<close> and the reason of the case, and nothing is pulled, tagged,
  removed or recreated: the registry check is the last call, and the engine's tags, images
  and containers are as before.
\<close>

theorem registry_skip:
  assumes reach: "registryAnswers e name k d img s rc"
    and no: "rc_isLocalImage rc \<or> truthy (rc_error rc) \<or> \<not> rc_hasUpdate rc"
  shows "fst (runContainerUpdate e name (initialWorld t i c)) = Return \<and>
         ledger (snd (runContainerUpdate e name (initialWorld t i c))) =
           ledger (snd (createScheduleExecution (initialWorld t i c)))
           @ [\<lparr>u_status = None, u_startedAt = True, u_completedAt = False,
               u_errorMessage = None, u_details = None\<rparr>,
              completed skipped None
                (Some (reasonDetails
                  (if rc_isLocalImage rc then ''Local image - no registry available''
                   else if truthy (rc_error rc)
                        then ''Registry check failed: '' @ showOpt (rc_error rc)
                        else ''Already up-to-date'')))] \<and>
         finalStatus (snd (runContainerUpdate e name (initialWorld t i c))) = Some skipped \<and>
         length (terminalWrites (snd (runContainerUpdate e name (initialWorld t i c)))) = 1 \<and>
         calls (snd (runContainerUpdate e name (initialWorld t i c))) =
           [CLastChecked name, CListContainers, CInspect (ci_id k), CSettings,
            CRegistryCheck img (i_Image d)] \<and>
         tags (snd (runContainerUpdate e name (initialWorld t i c))) = t \<and>
         images (snd (runContainerUpdate e name (initialWorld t i c))) = i \<and>
         conts (snd (runContainerUpdate e name (initialWorld t i c))) = c"
proof -
  from reach obtain cs where
    a: "e_updateAutoUpdateLastChecked e name = None" "e_listContainers e = Inr cs"
       "findContainer cs name = Some k" "e_inspectContainer e (ci_id k) = Inr d"
       "i_ConfigImage d = Some img" "img \<noteq> []" "e_isSystemContainer e img = None"
       "\<not> e_isDigestBasedImage e img" "e_settings e = Inr s"
       "e_checkImageUpdateAvailable e img (i_Image d) = Inr rc"
    by (auto simp: registryAnswers_def elim: inspectsD)
  obtain scanner crit where s: "s = (scanner, crit)" by (cases s)
  show ?thesis
  proof (cases "rc_isLocalImage rc")
    case True
    with a show ?thesis by (simp add: early_defs s)
  next
    case notLocal: False
    show ?thesis
    proof (cases "truthy (rc_error rc)")
      case True
      with a notLocal show ?thesis by (simp add: early_defs s)
    next
      case False
      with no notLocal have "\<not> rc_hasUpdate rc" by simp
      with a notLocal False show ?thesis by (simp add: early_defs s)
    qed
  qed
qed

theorem registry_skip_witness:
  "registryAnswers exEnvUpToDate ''web-1'' \<lparr>ci_id = ''c1'', ci_name = ''web-1''\<rparr> exInspect
     ''app:1.0'' (''none'', None)
     \<lparr>rc_isLocalImage = False, rc_error = None, rc_hasUpdate = False,
      rc_registryDigest = Some ''sha256:aaa''\<rparr> \<and>
   fst (runContainerUpdate exEnvUpToDate ''web-1'' exWorld) = Return \<and>
   finalStatus (snd (runContainerUpdate exEnvUpToDate ''web-1'' exWorld)) = Some skipped \<and>
   calls (snd (runContainerUpdate exEnvUpToDate ''web-1'' exWorld)) =
     [CLastChecked ''web-1'', CListContainers, CInspect ''c1'', CSettings,
      CRegistryCheck ''app:1.0'' ''sha256:aaa''] \<and>
   tags (snd (runContainerUpdate exEnvUpToDate ''web-1'' exWorld)) =
     [(''app'', ''1.0'') \<mapsto> ''sha256:aaa'']"
proof -
  have h: "registryAnswers exEnvUpToDate ''web-1'' \<lparr>ci_id = ''c1'', ci_name = ''web-1''\<rparr>
     exInspect ''app:1.0'' (''none'', None)
     \<lparr>rc_isLocalImage = False, rc_error = None, rc_hasUpdate = False,
      rc_registryDigest = Some ''sha256:aaa''\<rparr>"
    by (simp add: registryAnswers_def inspects_def exEnvUpToDate_sel exInspect_def
          findContainer_def)
  show ?thesis
    using registry_skip [OF h, of "[(''app'', ''1.0'') \<mapsto> ''sha256:aaa'']" "{''sha256:aaa''}"
        "[\<lparr>k_id = ''c1'', k_options = None, k_running = True, k_connected = []\<rparr>]"] h
    by (simp add: exWorld_def exInspect_def)
qed

section \<open>Properties of recreateContainer\<close>

lemmas recreate_defs =
  recreateContainer_def recreateFound_def listContainers_def inspectContainer_def
  stopContainer_def removeContainer_def createContainer_def startContainer_def prog_defs Let_def

text \<open>
  C8.  When the steps before the reconnection succeed (the container is found and
  inspected, stopped if it ran, removed, and the new one created) and the start succeeds
  if the container ran, \<^verbatim>\<open>recreateContainer\<close> returns \<^verbatim>\<open>true\<close> whatever the connections to the
  secondary networks do: it calls the engine for every secondary network in order, then
  starts the container if it ran, and for every network whose connection fails the
  warning with that network's name and the error message is in the log.
\<close>

theorem reconnect_failure_not_fatal:
  assumes found: "e_listContainers e = Inr cs" "findContainer cs name = Some k"
      "e_inspectContainer e (ci_id k) = Inr d"
    and stop: "i_Running d \<longrightarrow> e_stopContainer e (ci_id k) = None"
    and rm: "e_removeContainer e (ci_id k) = None"
    and create: "e_createContainer e (e_extractContainerOptions e d) = Inr newId"
    and start: "i_Running d \<longrightarrow> e_start e newId = None"
  shows "fst (recreateContainer e name (Some TaskLog) w) = Val True \<and>
    newCalls w (snd (recreateContainer e name (Some TaskLog) w)) =
      [CListContainers, CInspect (ci_id k)]
      @ (if i_Running d then [CStop (ci_id k)] else [])
      @ [CRemoveContainer (ci_id k), CCreate]
      @ map (\<lambda>n. CConnect (ni_name n) newId) (additionalNetworksOf (ci_id k) d)
      @ (if i_Running d then [CStart newId] else []) \<and>
    (\<forall>n \<in> set (additionalNetworksOf (ci_id k) d). \<forall>message.
       e_connectContainerToNetwork e (ni_name n) newId = Some message \<longrightarrow>
       connectWarning n message \<in> set (logs (snd (recreateContainer e name (Some TaskLog) w))))"
proof -
  define nets where "nets = additionalNetworksOf (ci_id k) d"
  have eq: "map (\<lambda>(n, c). networkInfo (ci_id k)
              (map_of (i_Labels d) ''com.docker.compose.project'')
              (map_of (i_Labels d) ''com.docker.compose.service'') n c)
       (filter (\<lambda>(n, c). \<not> isPrimary (orElse (i_NetworkMode d) ''bridge'') n) (i_Networks d))
     = nets"
    by (simp add: nets_def additionalNetworksOf_def)
  define warn where
    "warn = concat (map (\<lambda>n. case e_connectContainerToNetwork e (ni_name n) newId of
                               None \<Rightarrow> connectedLines n
                             | Some message \<Rightarrow> [connectWarning n message]) nets)"
  have r: "fst (recreateContainer e name (Some TaskLog) w) = Val True"
    using assms by (cases "i_Running d"; cases "nets = []") (simp_all add: recreate_defs eq)
  have c: "calls (snd (recreateContainer e name (Some TaskLog) w)) = calls w @
      [CListContainers, CInspect (ci_id k)]
      @ (if i_Running d then [CStop (ci_id k)] else [])
      @ [CRemoveContainer (ci_id k), CCreate]
      @ map (\<lambda>n. CConnect (ni_name n) newId) nets
      @ (if i_Running d then [CStart newId] else [])"
    using assms by (cases "i_Running d"; cases "nets = []") (simp_all add: recreate_defs eq)
  have l: "set warn \<subseteq> set (logs (snd (recreateContainer e name (Some TaskLog) w)))"
    using assms
    by (cases "i_Running d"; cases "nets = []")
       (auto simp add: recreate_defs eq warn_def [symmetric], simp_all add: warn_def)
  have w: "connectWarning n message \<in> set warn"
    if "n \<in> set nets" "e_connectContainerToNetwork e (ni_name n) newId = Some message"
    for n message
    using that unfolding warn_def by force
  from r c l w show ?thesis
    unfolding newCalls_def nets_def [symmetric] by auto
qed

text \<open>The connection to \<^verbatim>\<open>backend\<close> fails: \<^verbatim>\<open>frontend\<close> is still tried, the container is started,
  the function returns \<^verbatim>\<open>true\<close>, and the warning for \<^verbatim>\<open>backend\<close> is logged.\<close>

theorem reconnect_failure_not_fatal_witness:
  "fst (recreateContainer exEnvNets ''web-1'' (Some TaskLog) exWorld) = Val True \<and>
   newCalls exWorld (snd (recreateContainer exEnvNets ''web-1'' (Some TaskLog) exWorld)) =
     [CListContainers, CInspect ''c1'', CStop ''c1'', CRemoveContainer ''c1'', CCreate,
      CConnect ''backend'' ''c2'', CConnect ''frontend'' ''c2'', CStart ''c2''] \<and>
   e_connectContainerToNetwork exEnvNets ''backend'' ''c2'' = Some ''boom'' \<and>
   ''  Warning: Failed to connect to network '' @ [CHR 0x22] @ ''backend'' @ [CHR 0x22]
      @ '': boom''
     \<in> set (logs (snd (recreateContainer exEnvNets ''web-1'' (Some TaskLog) exWorld)))"
proof -
  have h: "e_listContainers exEnvNets = Inr [\<lparr>ci_id = ''c1'', ci_name = ''web-1''\<rparr>]"
    "findContainer [\<lparr>ci_id = ''c1'', ci_name = ''web-1''\<rparr>] ''web-1''
       = Some \<lparr>ci_id = ''c1'', ci_name = ''web-1''\<rparr>"
    "e_inspectContainer exEnvNets (ci_id \<lparr>ci_id = ''c1'', ci_name = ''web-1''\<rparr>)
       = Inr exInspectNets"
    "i_Running exInspectNets \<longrightarrow>
       e_stopContainer exEnvNets (ci_id \<lparr>ci_id = ''c1'', ci_name = ''web-1''\<rparr>) = None"
    "e_removeContainer exEnvNets (ci_id \<lparr>ci_id = ''c1'', ci_name = ''web-1''\<rparr>) = None"
    "e_createContainer exEnvNets (e_extractContainerOptions exEnvNets exInspectNets)
       = Inr ''c2''"
    "i_Running exInspectNets \<longrightarrow> e_start exEnvNets ''c2'' = None"
    by (simp_all add: exEnvNets_sel findContainer_def)
  have nets: "additionalNetworksOf ''c1'' exInspectNets =
      [networkInfo ''c1'' None None ''backend'' exNetConf,
       networkInfo ''c1'' None None ''frontend'' exNetConf]"
    by (simp add: additionalNetworksOf_def exInspectNets_def exInspect_def isPrimary_def
          orElse_def)
  have run: "i_Running exInspectNets"
    by (simp add: exInspectNets_def exInspect_def)
  show ?thesis
    using reconnect_failure_not_fatal [OF h, of exWorld]
    by (simp add: nets run networkInfo_def connectWarning_def exEnvNets_sel)
qed



section \<open>The safe pull\<close>

lemmas pull_defs =
  runContainerUpdate_def updateBody_def updateFound_def pullStep_def safePull_def
  scanStep_def blockUpdate_def onError_def
  updateAutoUpdateLastChecked_def listContainers_def inspectContainer_def
  getSettings_def checkImageUpdateAvailable_def createScheduleExecution_def
  updateScheduleExecution_def pullImage_def getImageIdByTag_def tagImage_def
  removeTempImage_def scanImage_def sendEventNotification_def
  prog_defs value_defs removeImage_present removeImage_absent

text \<open>The summary of the current image that reaches the gate, whatever the criterion:
  the lookup changes the log and makes scanner calls only.\<close>

lemma currentArg_frame:
  "\<exists>cs ls. (\<forall>w. (if criteria = MoreThanCurrent then currentScan e cur else yield None) w =
       (Val (if criteria = MoreThanCurrent then currentSummaryOf e cur else None),
        w\<lparr>calls := calls w @ cs, logs := logs w @ ls\<rparr>)) \<and>
     (\<forall>c \<in> set cs. isScanCall c)"
proof (cases "criteria = MoreThanCurrent")
  case True
  with currentScan_frame [of e cur] show ?thesis by simp
next
  case False
  then show ?thesis
    by (intro exI [of _ "[]"] conjI allI) (simp_all add: yield_def)
qed

text \<open>
  Where the safe pull keeps the production tag.  Let the run reach the registry check,
  which reports an update, with a scanner configured; let the pull succeed, the new
  image be found under the tag and differ from the image of the container, and the
  engine give the tag back to the image of the container.  Let the safe pull end before
  the new image is promoted: the temporary tag cannot be set, or the scan fails, or the
  gate blocks the scanned image, or the promotion itself fails.  Then, for every outcome
  of the other calls, the task returns with the execution \<^verbatim>\<open>'skipped'\<close> or \<^verbatim>\<open>'failed'\<close>,
  the production tag resolves to the image of the container, the containers are
  untouched and no stack or recreation call is made; and if the removal of the pulled
  image was called and the engine carried out the first attempt, the pulled image is
  gone and no tag resolves to it.  (An image id is no reference \<^verbatim>\<open>repo:tag\<close> of the
  production tag.)
\<close>

lemma safe_pull_tag_restored:
  assumes reach: "registryAnswers e name k d img (scanner, crit) rc"
    and upd: "\<not> rc_isLocalImage rc" "\<not> truthy (rc_error rc)" "rc_hasUpdate rc"
    and scan: "scanner \<noteq> ''none''"
    and crit: "criteria = (case crit of None \<Rightarrow> Never | Some c \<Rightarrow> c)"
    and parse: "e_parseImageNameAndTag e img = (repo, tag)"
    and temp: "e_parseImageNameAndTag e (e_getTempImageTag e img) = (tempRepo, tempTag)"
      "(tempRepo, tempTag) \<noteq> (repo, tag)"
    and pull: "e_pullImage e img = Inr n" "e_getImageIdByTag e img"
    and new: "n \<noteq> i_Image d"
    and idname: "e_parseImageNameAndTag e n \<noteq> (repo, tag)"
    and restore: "e_tagImage e (i_Image d) repo tag = None"
    and early: "e_tagImage e n tempRepo tempTag \<noteq> None \<or>
        (\<exists>message. snd (e_scanImage e (e_getTempImageTag e img)) = Inl message) \<or>
        (\<exists>rs. snd (e_scanImage e (e_getTempImageTag e img)) = Inr rs \<and> rs \<noteq> [] \<and>
           fst (e_shouldBlockUpdate e criteria (e_combineScanSummaries e rs)
                  (if criteria = MoreThanCurrent then currentSummaryOf e (i_Image d)
                   else None))) \<or>
        e_tagImage e n repo tag \<noteq> None"
  shows "case runContainerUpdate e name (initialWorld t i c) of (r, w) \<Rightarrow>
    r = Return \<and> (finalStatus w = Some skipped \<or> finalStatus w = Some failed) \<and>
    tags w (repo, tag) = Some (i_Image d) \<and> conts w = c \<and>
    filter (\<lambda>c. isRecreation c \<or> isStackCall c) (calls w) = [] \<and>
    (CRemoveTempImage n \<in> set (calls w) \<longrightarrow> e_removeTempImage e n 0 = None \<longrightarrow>
       n \<notin> images w \<and> (\<forall>r. tags w r \<noteq> Some n))"
proof -
  from reach obtain cs where a:
    "e_updateAutoUpdateLastChecked e name = None"
    "e_listContainers e = Inr cs" "findContainer cs name = Some k"
    "e_inspectContainer e (ci_id k) = Inr d"
    "i_ConfigImage d = Some img" "img \<noteq> []"
    "e_isSystemContainer e img = None" "\<not> e_isDigestBasedImage e img"
    "e_settings e = Inr (scanner, crit)"
    "e_checkImageUpdateAvailable e img (i_Image d) = Inr rc"
    by (auto simp: registryAnswers_def inspects_def split: sum.splits)
  from currentArg_frame [of criteria e "i_Image d"] obtain ccs cls where
    cur: "\<And>w. (if criteria = MoreThanCurrent then currentScan e (i_Image d) else yield None) w =
       (Val (if criteria = MoreThanCurrent then currentSummaryOf e (i_Image d) else None),
        w\<lparr>calls := calls w @ ccs, logs := logs w @ cls\<rparr>)"
      and scancalls: "\<forall>c \<in> set ccs. isScanCall c"
    by blast
  have notscan: "filter (\<lambda>c. isRecreation c \<or> isStackCall c) ccs = []"
  proof -
    have "\<not> (isRecreation c \<or> isStackCall c)" if "c \<in> set ccs" for c
      using scancalls that by (cases c) auto
    then show ?thesis by (simp add: filter_empty_conv)
  qed
  have notrm: "CRemoveTempImage n \<notin> set ccs"
    using scancalls by auto
  from temp(2) have temp': "(repo, tag) \<noteq> (tempRepo, tempTag)" by auto
  note facts = a upd scan parse temp temp' pull new idname restore notscan notrm
    crit [symmetric]
  let ?t = "e_getTempImageTag e img"
  show ?thesis
  proof (cases "e_tagImage e n tempRepo tempTag")
    case (Some m)
    with facts show ?thesis by (simp add: pull_defs image_iff)
  next
    case park: None
    show ?thesis
    proof (cases "snd (e_scanImage e ?t)")
      case (Inl m)
      with facts park show ?thesis
        by (cases "e_removeTempImage e n 0") (simp_all add: pull_defs image_iff)
    next
      case (Inr rs)
      show ?thesis
      proof (cases "rs = []")
        case True
        with early park Inr obtain m where "e_tagImage e n repo tag = Some m" by auto
        with facts park Inr True show ?thesis
          by (simp add: pull_defs image_iff)
      next
        case results: False
        obtain blocked reason where
          gate: "e_shouldBlockUpdate e criteria (e_combineScanSummaries e rs)
                   (if criteria = MoreThanCurrent then currentSummaryOf e (i_Image d) else None)
                 = (blocked, reason)"
          by (cases "e_shouldBlockUpdate e criteria (e_combineScanSummaries e rs)
                   (if criteria = MoreThanCurrent then currentSummaryOf e (i_Image d) else None)")
        show ?thesis
        proof (cases blocked)
          case False
          with early park Inr gate obtain m where "e_tagImage e n repo tag = Some m" by auto
          with facts park Inr results gate False show ?thesis
            by (simp add: pull_defs image_iff cur)
        next
          case True
          with facts park Inr results gate show ?thesis
            by (cases "e_removeTempImage e n 0"; cases "e_removeTempImage e n (Suc 0)";
                cases "e_sendEventNotification e ''auto_update_blocked''")
               (simp_all add: pull_defs image_iff cur)
        qed
      qed
    qed
  qed
qed

text \<open>
  C1.  Two runs of the safe pull of \<^verbatim>\<open>web-1\<close> that end failed before the new image
  \<^verbatim>\<open>sha256:bbb\<close> is promoted, on a tag that resolved to \<^verbatim>\<open>sha256:aaa\<close> before the run.  In
  the first the scan passes and the engine refuses the promotion: the \<^verbatim>\<open>catch\<close> of the
  safe pull records the failure and removes nothing, so the pulled image stays under its
  temporary tag.  In the second the engine refuses to give the tag back to the current
  image: the same \<^verbatim>\<open>catch\<close> records the failure, and the production tag is left on the
  pulled image.
\<close>

theorem safe_pull_catch_leaves_image:
  "tags exWorld (''app'', ''1.0'') = Some ''sha256:aaa'' \<and>
   (case runContainerUpdate exEnvPromoteFails ''web-1'' exWorld of
      (r, w) \<Rightarrow> r = Return \<and> finalStatus w = Some failed \<and>
        map u_errorMessage (terminalWrites w) = [Some ''Failed to pull image: tag is locked''] \<and>
        tags w (''app'', ''1.0'') = Some ''sha256:aaa'' \<and>
        tags w (''app'', ''1.0-dockhand-pending'') = Some ''sha256:bbb'' \<and>
        ''sha256:bbb'' \<in> images w \<and>
        filter isTagChange (calls w) =
          [CTag ''sha256:aaa'' ''app'' ''1.0'',
           CTag ''sha256:bbb'' ''app'' ''1.0-dockhand-pending'',
           CTag ''sha256:bbb'' ''app'' ''1.0'']) \<and>
   (case runContainerUpdate exEnvRestoreFails ''web-1'' exWorld of
      (r, w) \<Rightarrow> r = Return \<and> finalStatus w = Some failed \<and>
        map u_errorMessage (terminalWrites w) = [Some ''Failed to pull image: no such image''] \<and>
        tags w (''app'', ''1.0'') = Some ''sha256:bbb'' \<and> ''sha256:bbb'' \<in> images w \<and>
        filter isTagChange (calls w) = [CTag ''sha256:aaa'' ''app'' ''1.0''])"
proof -
  have promote: "case runContainerUpdate exEnvPromoteFails ''web-1'' exWorld of
      (r, w) \<Rightarrow> r = Return \<and> finalStatus w = Some failed \<and>
        map u_errorMessage (terminalWrites w) = [Some ''Failed to pull image: tag is locked''] \<and>
        tags w (''app'', ''1.0'') = Some ''sha256:aaa'' \<and>
        tags w (''app'', ''1.0-dockhand-pending'') = Some ''sha256:bbb'' \<and>
        ''sha256:bbb'' \<in> images w \<and>
        filter isTagChange (calls w) =
          [CTag ''sha256:aaa'' ''app'' ''1.0'',
           CTag ''sha256:bbb'' ''app'' ''1.0-dockhand-pending'',
           CTag ''sha256:bbb'' ''app'' ''1.0'']"
    by (simp add: pull_defs saveVulnerabilityScan_def exEnvPromoteFails_sel exParse_def
          exWorld_def exInspect_def findContainer_def)
  have restore: "case runContainerUpdate exEnvRestoreFails ''web-1'' exWorld of
      (r, w) \<Rightarrow> r = Return \<and> finalStatus w = Some failed \<and>
        map u_errorMessage (terminalWrites w) = [Some ''Failed to pull image: no such image''] \<and>
        tags w (''app'', ''1.0'') = Some ''sha256:bbb'' \<and> ''sha256:bbb'' \<in> images w \<and>
        filter isTagChange (calls w) = [CTag ''sha256:aaa'' ''app'' ''1.0'']"
    by (simp add: pull_defs saveVulnerabilityScan_def exEnvRestoreFails_sel exParse_def
          exWorld_def exInspect_def findContainer_def)
  have before: "tags exWorld (''app'', ''1.0'') = Some ''sha256:aaa''"
    by (simp add: exWorld_def initialWorld_def)
  from before promote restore show ?thesis by simp
qed

text \<open>
  Where a blocked update ends.  Let the run reach the registry check, which reports an
  update, with a scanner configured; let the pull, the two tag changes and the scan
  succeed, the new image differ from the image of the container, the gate block the new
  image, and the notification of the block be delivered.  Then the task returns with one
  terminal write, the containers are untouched, no stack or recreation call is made, and
  the production tag resolves to the image of the container.  If the engine removes the
  blocked image at the first attempt, the execution ends \<^verbatim>\<open>'skipped'\<close> with the details of
  the block, which carry the gate's reason, and the image is gone with every tag on it.
  If the first attempt fails, the execution ends \<^verbatim>\<open>'failed'\<close> without details: as a failed
  scan with the image gone if the second attempt, that of the \<^verbatim>\<open>catch\<close> of the scan,
  succeeds, as a failed pull with the image still under its temporary tag if not.
\<close>

lemma gate_block_paths:
  assumes reach: "registryAnswers e name k d img (scanner, crit) rc"
    and upd: "\<not> rc_isLocalImage rc" "\<not> truthy (rc_error rc)" "rc_hasUpdate rc"
    and scan: "scanner \<noteq> ''none''"
    and crit: "criteria = (case crit of None \<Rightarrow> Never | Some c \<Rightarrow> c)"
    and parse: "e_parseImageNameAndTag e img = (repo, tag)"
    and temp: "e_parseImageNameAndTag e (e_getTempImageTag e img) = (tempRepo, tempTag)"
      "(tempRepo, tempTag) \<noteq> (repo, tag)"
    and pull: "e_pullImage e img = Inr n" "e_getImageIdByTag e img"
    and new: "n \<noteq> i_Image d"
    and restore: "e_tagImage e (i_Image d) repo tag = None"
    and park: "e_tagImage e n tempRepo tempTag = None"
    and scanned: "snd (e_scanImage e (e_getTempImageTag e img)) = Inr rs" "rs \<noteq> []"
    and gate: "e_shouldBlockUpdate e criteria (e_combineScanSummaries e rs)
                 (if criteria = MoreThanCurrent then currentSummaryOf e (i_Image d) else None)
               = (True, reason)"
    and notify: "e_sendEventNotification e ''auto_update_blocked'' = None"
  shows "case runContainerUpdate e name (initialWorld t i c) of (r, w) \<Rightarrow>
    r = Return \<and> conts w = c \<and> tags w (repo, tag) = Some (i_Image d) \<and>
    filter (\<lambda>c. isRecreation c \<or> isStackCall c) (calls w) = [] \<and>
    length (terminalWrites w) = 1 \<and>
    (case e_removeTempImage e n 0 of
       None \<Rightarrow> finalStatus w = Some skipped \<and>
         lastDetails w = Some (blockedDetails reason criteria rs (e_combineScanSummaries e rs)) \<and>
         d_blockReason (blockedDetails reason criteria rs (e_combineScanSummaries e rs))
           = Some reason \<and>
         n \<notin> images w \<and> (\<forall>r. tags w r \<noteq> Some n)
     | Some message \<Rightarrow> finalStatus w = Some failed \<and> lastDetails w = None \<and>
         (case e_removeTempImage e n (Suc 0) of
            None \<Rightarrow> map u_errorMessage (terminalWrites w)
                      = [Some (''Vulnerability scan failed: '' @ message)] \<and>
               n \<notin> images w
          | Some message' \<Rightarrow> map u_errorMessage (terminalWrites w)
                      = [Some (''Failed to pull image: '' @ message')] \<and>
               n \<in> images w \<and> tags w (tempRepo, tempTag) = Some n))"
proof -
  from reach obtain cs where a:
    "e_updateAutoUpdateLastChecked e name = None"
    "e_listContainers e = Inr cs" "findContainer cs name = Some k"
    "e_inspectContainer e (ci_id k) = Inr d"
    "i_ConfigImage d = Some img" "img \<noteq> []"
    "e_isSystemContainer e img = None" "\<not> e_isDigestBasedImage e img"
    "e_settings e = Inr (scanner, crit)"
    "e_checkImageUpdateAvailable e img (i_Image d) = Inr rc"
    by (auto simp: registryAnswers_def inspects_def split: sum.splits)
  from currentArg_frame [of criteria e "i_Image d"] obtain ccs cls where
    cur: "\<And>w. (if criteria = MoreThanCurrent then currentScan e (i_Image d) else yield None) w =
       (Val (if criteria = MoreThanCurrent then currentSummaryOf e (i_Image d) else None),
        w\<lparr>calls := calls w @ ccs, logs := logs w @ cls\<rparr>)"
      and scancalls: "\<forall>c \<in> set ccs. isScanCall c"
    by blast
  have notscan: "filter (\<lambda>c. isRecreation c \<or> isStackCall c) ccs = []"
  proof -
    have "\<not> (isRecreation c \<or> isStackCall c)" if "c \<in> set ccs" for c
      using scancalls that by (cases c) auto
    then show ?thesis by (simp add: filter_empty_conv)
  qed
  have notrm: "CRemoveTempImage n \<notin> set ccs"
    using scancalls by auto
  from temp(2) have temp': "(repo, tag) \<noteq> (tempRepo, tempTag)" by auto
  note facts = a upd scan parse temp temp' pull new restore park scanned notify gate
    notscan notrm crit [symmetric]
  show ?thesis
  proof (cases "e_removeTempImage e n 0")
    case None
    with facts show ?thesis by (simp add: pull_defs image_iff cur)
  next
    case first: (Some message)
    show ?thesis
    proof (cases "e_removeTempImage e n (Suc 0)")
      case None
      with facts first show ?thesis by (simp add: pull_defs image_iff cur)
    next
      case (Some message')
      with facts first show ?thesis by (simp add: pull_defs image_iff cur)
    qed
  qed
qed

text \<open>
  C2.  The gate blocks the new image \<^verbatim>\<open>sha256:bbb\<close> of \<^verbatim>\<open>web-1\<close>, and the engine refuses
  to remove it (it is in use, say).  The removal is inside the \<^verbatim>\<open>try\<close> of the scan and
  before the write of the block: the \<^verbatim>\<open>catch\<close> of the scan takes the refusal for a failed
  scan and tries the removal again.  If the engine refuses again, the \<^verbatim>\<open>catch\<close> of the
  safe pull ends the execution as a failed pull, with the image still under its
  temporary tag; if the second attempt succeeds, the execution ends as a failed scan.
  Either way the execution is \<^verbatim>\<open>'failed'\<close>, not \<^verbatim>\<open>'skipped'\<close>, and carries no block reason.
\<close>

theorem blocked_removal_failure_ends_failed:
  "e_shouldBlockUpdate exEnvBlockedInUse AnyKnown exSummary None
     = (True, ''Found 1 vulnerabilities'') \<and>
   (case runContainerUpdate exEnvBlockedInUse ''web-1'' exWorld of
      (r, w) \<Rightarrow> r = Return \<and> finalStatus w = Some failed \<and> lastDetails w = None \<and>
        map u_errorMessage (terminalWrites w) = [Some ''Failed to pull image: image is in use''] \<and>
        ''sha256:bbb'' \<in> images w \<and>
        tags w (''app'', ''1.0-dockhand-pending'') = Some ''sha256:bbb'' \<and>
        filter isTagChange (calls w) =
          [CTag ''sha256:aaa'' ''app'' ''1.0'', CTag ''sha256:bbb'' ''app'' ''1.0-dockhand-pending'',
           CRemoveTempImage ''sha256:bbb'', CRemoveTempImage ''sha256:bbb'']) \<and>
   e_shouldBlockUpdate exEnvBlockedRetry AnyKnown exSummary None
     = (True, ''Found 1 vulnerabilities'') \<and>
   (case runContainerUpdate exEnvBlockedRetry ''web-1'' exWorld of
      (r, w) \<Rightarrow> r = Return \<and> finalStatus w = Some failed \<and> lastDetails w = None \<and>
        map u_errorMessage (terminalWrites w)
          = [Some ''Vulnerability scan failed: image is in use''] \<and>
        ''sha256:bbb'' \<notin> images w \<and>
        filter isTagChange (calls w) =
          [CTag ''sha256:aaa'' ''app'' ''1.0'', CTag ''sha256:bbb'' ''app'' ''1.0-dockhand-pending'',
           CRemoveTempImage ''sha256:bbb'', CRemoveTempImage ''sha256:bbb''])"
proof -
  have inUse: "case runContainerUpdate exEnvBlockedInUse ''web-1'' exWorld of
      (r, w) \<Rightarrow> r = Return \<and> finalStatus w = Some failed \<and> lastDetails w = None \<and>
        map u_errorMessage (terminalWrites w) = [Some ''Failed to pull image: image is in use''] \<and>
        ''sha256:bbb'' \<in> images w \<and>
        tags w (''app'', ''1.0-dockhand-pending'') = Some ''sha256:bbb'' \<and>
        filter isTagChange (calls w) =
          [CTag ''sha256:aaa'' ''app'' ''1.0'', CTag ''sha256:bbb'' ''app'' ''1.0-dockhand-pending'',
           CRemoveTempImage ''sha256:bbb'', CRemoveTempImage ''sha256:bbb'']"
    by (simp add: pull_defs saveVulnerabilityScan_def exEnvBlockedInUse_sel exParse_def
          exWorld_def exInspect_def findContainer_def)
  have retry: "case runContainerUpdate exEnvBlockedRetry ''web-1'' exWorld of
      (r, w) \<Rightarrow> r = Return \<and> finalStatus w = Some failed \<and> lastDetails w = None \<and>
        map u_errorMessage (terminalWrites w)
          = [Some ''Vulnerability scan failed: image is in use''] \<and>
        ''sha256:bbb'' \<notin> images w \<and>
        filter isTagChange (calls w) =
          [CTag ''sha256:aaa'' ''app'' ''1.0'', CTag ''sha256:bbb'' ''app'' ''1.0-dockhand-pending'',
           CRemoveTempImage ''sha256:bbb'', CRemoveTempImage ''sha256:bbb'']"
    by (simp add: pull_defs saveVulnerabilityScan_def exEnvBlockedRetry_sel exParse_def
          exWorld_def exInspect_def findContainer_def)
  from inUse retry show ?thesis
    by (simp add: exEnvBlockedInUse_sel exEnvBlockedRetry_sel)
qed

section \<open>The update of the container and its report\<close>

lemmas apply_defs =
  run_defs call_defs prog_defs value_defs settingsLines_def additionalNetworksOf_def
  removeImage_present removeImage_absent

text \<open>The answer of \<^verbatim>\<open>updateStackContainer\<close>: \<^verbatim>\<open>true\<close> when the compose file is known and
  \<^verbatim>\<open>docker compose up\<close> succeeds, \<^verbatim>\<open>false\<close> in every other case, and never an error.\<close>

lemma updateStackContainer_result:
  "fst (updateStackContainer e stackName serviceName lg w) =
     Val (case e_getStackComposeFile e stackName of
            Inl message \<Rightarrow> False
          | Inr composeResult \<Rightarrow>
              cf_success composeResult \<and> truthy (cf_content composeResult) \<and>
              (case e_startStack e stackName of
                 Inl message \<Rightarrow> False
               | Inr result \<Rightarrow> st_success result))"
proof (cases lg)
  case None
  then show ?thesis
    by (auto simp: updateStackContainer_def getStackComposeFile_def startStack_def prog_defs
          split: sum.splits)
next
  case (Some l)
  then have "lg = Some TaskLog" by (cases l) simp
  then show ?thesis
    by (auto simp: updateStackContainer_def getStackComposeFile_def startStack_def prog_defs
          split: sum.splits)
qed

text \<open>
  C3.  \<^verbatim>\<open>web-1\<close> is service \<^verbatim>\<open>web\<close> of the stack \<^verbatim>\<open>shop\<close>, and the compose file of the
  stack is known.  \<^verbatim>\<open>docker compose up\<close> fails; \<^verbatim>\<open>updateStackContainer\<close> answers
  \<^verbatim>\<open>false\<close>, which its description reserves for a stack that is not found, and the task
  takes the answer for that: it logs that the stack is not managed, and stops, removes
  and recreates the container by itself.
\<close>

theorem known_stack_failure_recreates:
  "map_of (i_Labels (exInspect\<lparr>i_Labels := [(''com.docker.compose.project'', ''shop''),
       (''com.docker.compose.service'', ''web'')]\<rparr>)) ''com.docker.compose.project''
     = Some ''shop'' \<and>
   e_getStackComposeFile exEnvStack ''shop''
     = Inr \<lparr>cf_success = True, cf_content = Some ''services:''\<rparr> \<and>
   (case runContainerUpdate exEnvStack ''web-1'' exWorld of
      (r, w) \<Rightarrow>
        filter (\<lambda>c. isStackCall c \<or> isRecreation c) (calls w) =
          [CStartStack ''shop'', CStop ''c1'', CRemoveContainer ''c1'', CCreate,
           CStart ''c2''] \<and>
        ''Found compose file for stack: shop'' \<in> set (logs w) \<and>
        ''Fallback: Recreating container directly (stack '' @ [CHR 0x22] @ ''shop''
           @ [CHR 0x22] @ '' not managed by Dockhand)'' \<in> set (logs w) \<and>
        map k_id (conts w) = [''c2''] \<and>
        finalStatus w = Some success)"
  by (simp add: apply_defs exEnvStack_sel exParse_def exWorld_def exInspect_def exOptions_def)

section \<open>Writes to the execution record\<close>

text \<open>Which pieces of the task write to the execution record, and how often.\<close>

named_theorems quiet_intros

lemma quiet_basic [quiet_intros]:
  "quiet (yield x)" "quiet (throw message)" "quiet returnNow" "quiet (log line)"
  "quiet (optLog lg line)" "quiet (record_call c)" "quiet (outcome r)" "quiet (answer a)"
  by (simp_all add: quiet_def prog_defs optLog_def split: option.splits sum.splits Logger.splits)

lemma quiet_andThen [quiet_intros]:
  assumes "quiet m" and "\<And>x. quiet (f x)"
  shows "quiet (andThen m f)"
  unfolding quiet_def
proof
  fix w
  from assms(1) have m: "ledger (snd (m w)) = ledger w" by (simp add: quiet_def)
  show "ledger (snd (andThen m f w)) = ledger w"
  proof (cases "m w")
    case (Pair r w')
    with m have l: "ledger w' = ledger w" by simp
    show ?thesis
    proof (cases r)
      case (Val x)
      from assms(2) [of x] have "ledger (snd (f x w')) = ledger w'" by (simp add: quiet_def)
      with Pair Val l show ?thesis by (simp add: andThen_def)
    qed (use Pair l in \<open>simp_all add: andThen_def\<close>)
  qed
qed

lemma quiet_tryCatch [quiet_intros]:
  assumes "quiet m" and "\<And>message. quiet (h message)"
  shows "quiet (tryCatch m h)"
  unfolding quiet_def
proof
  fix w
  from assms(1) have m: "ledger (snd (m w)) = ledger w" by (simp add: quiet_def)
  show "ledger (snd (tryCatch m h w)) = ledger w"
  proof (cases "m w")
    case (Pair r w')
    with m have l: "ledger w' = ledger w" by simp
    show ?thesis
    proof (cases r)
      case (Throw message)
      from assms(2) [of message] have "ledger (snd (h message w')) = ledger w'"
        by (simp add: quiet_def)
      with Pair Throw l show ?thesis by (simp add: tryCatch_def)
    qed (use Pair l in \<open>simp_all add: tryCatch_def\<close>)
  qed
qed

lemma quiet_if [quiet_intros]:
  "(b \<Longrightarrow> quiet m) \<Longrightarrow> (\<not> b \<Longrightarrow> quiet m') \<Longrightarrow> quiet (if b then m else m')"
  by simp

lemma quiet_whenDo [quiet_intros]: "quiet m \<Longrightarrow> quiet (whenDo b m)"
  by (simp add: whenDo_def quiet_basic)

lemma quiet_option [quiet_intros]:
  "quiet m \<Longrightarrow> (\<And>y. quiet (f y)) \<Longrightarrow> quiet (case x of None \<Rightarrow> m | Some y \<Rightarrow> f y)"
  by (cases x) simp_all

lemma quiet_prod [quiet_intros]:
  "(\<And>a b. quiet (f a b)) \<Longrightarrow> quiet (case p of (a, b) \<Rightarrow> f a b)"
  by (cases p) simp

lemma quiet_doAll [quiet_intros]:
  "quiet (doAll [])"
  "quiet m \<Longrightarrow> quiet (doAll ms) \<Longrightarrow> quiet (doAll (m # ms))"
  by (simp_all add: quiet_basic quiet_andThen)

lemma quiet_modify:
  "(\<And>w. ledger (f w) = ledger w) \<Longrightarrow> quiet (modify f)"
  by (simp add: quiet_def modify_def)

lemma Logger_cases: "(lg = None \<Longrightarrow> P) \<Longrightarrow> (lg = Some TaskLog \<Longrightarrow> P) \<Longrightarrow> P"
  by (cases lg) (auto intro: Logger.exhaust)

lemma quiet_calls [quiet_intros]:
  "quiet (updateAutoUpdateLastChecked e name)" "quiet (updateAutoUpdateLastUpdated e name)"
  "quiet (listContainers e)" "quiet (inspectContainer e cid)" "quiet (getSettings e)"
  "quiet (checkImageUpdateAvailable e img cur)" "quiet (pullImage e img)"
  "quiet (getImageIdByTag e img)" "quiet (tagImage e imageId repo tag)"
  "quiet (removeTempImage e x)" "quiet (saveVulnerabilityScan e imageId r)"
  "quiet (getCombinedScanForImage e imageId)" "quiet (sendEventNotification e eventType)"
  "quiet (getStackComposeFile e stackName)" "quiet (startStack e stackName)"
  "quiet (stopContainer e cid)" "quiet (removeContainer e cid)"
  "quiet (createContainer e opts)" "quiet (connectContainerToNetwork e networkName cid netInfo)"
  "quiet (startContainer e cid)"
  by (simp_all add: quiet_def call_defs prog_defs setTag_def split: option.splits sum.splits)

lemma quiet_logAll [quiet_intros]: "quiet (logAll lg messages)"
  by (rule Logger_cases [of lg]) (simp_all add: quiet_def)

lemma quiet_scanImage [quiet_intros]: "quiet (scanImage e ref onProgress)"
  unfolding scanImage_def by (intro quiet_intros)

lemma quiet_saveScans [quiet_intros]:
  "quiet (saveScans e imageId rs)" "quiet (saveScansQuietly e imageId rs)"
  by (simp_all add: quiet_def)

lemma quiet_currentScan [quiet_intros]: "quiet (currentScan e cur)"
  unfolding currentScan_def Let_def by (intro quiet_intros)

lemma quiet_collectNetworks [quiet_intros]:
  "quiet (collectNetworks lg opts primary cid project service entries acc)"
  by (rule Logger_cases [of lg]) (simp_all add: quiet_def)

lemma quiet_reconnectAll [quiet_intros]: "quiet (reconnectAll e lg newId nets)"
  by (rule Logger_cases [of lg]) (simp_all add: quiet_def)

lemma quiet_recreateContainer [quiet_intros]: "quiet (recreateContainer e name lg)"
  unfolding recreateContainer_def recreateFound_def Let_def by (intro quiet_intros)

lemma quiet_updateStackContainer [quiet_intros]:
  "quiet (updateStackContainer e stackName serviceName lg)"
  unfolding updateStackContainer_def Let_def by (intro quiet_intros)


lemma ending_quiet: "quiet m \<Longrightarrow> ending m"
  by (simp add: quiet_def ending_def split_beta)

lemma closing_ending: "ending m \<Longrightarrow> closing m"
  by (auto simp: closing_def ending_def split_beta)

lemma ending_andThen:
  assumes "ending m" and "\<And>x. ending (f x)"
  shows "ending (andThen m f)"
  unfolding ending_def
proof
  fix w
  obtain r w' where mw: "m w = (r, w')" by (cases "m w")
  with assms(1) have m: "ledger w' = ledger w \<or> (\<exists>u. ledger w' = ledger w @ [u] \<and> r = Return)"
    by (auto simp: ending_def split_beta dest: spec [of _ w])
  show "case andThen m f w of (r, w') \<Rightarrow>
          ledger w' = ledger w \<or> (\<exists>u. ledger w' = ledger w @ [u] \<and> r = Return)"
  proof (cases r)
    case (Val x)
    with m have l: "ledger w' = ledger w" by auto
    from assms(2) [of x] have "case f x w' of (r, w'') \<Rightarrow>
          ledger w'' = ledger w' \<or> (\<exists>u. ledger w'' = ledger w' @ [u] \<and> r = Return)"
      by (simp add: ending_def)
    with mw Val l show ?thesis by (simp add: andThen_def)
  qed (use mw m in \<open>auto simp: andThen_def\<close>)
qed

lemma ending_tryCatch:
  assumes "ending m" and "\<And>message. ending (h message)"
  shows "ending (tryCatch m h)"
  unfolding ending_def
proof
  fix w
  obtain r w' where mw: "m w = (r, w')" by (cases "m w")
  with assms(1) have m: "ledger w' = ledger w \<or> (\<exists>u. ledger w' = ledger w @ [u] \<and> r = Return)"
    by (auto simp: ending_def split_beta dest: spec [of _ w])
  show "case tryCatch m h w of (r, w') \<Rightarrow>
          ledger w' = ledger w \<or> (\<exists>u. ledger w' = ledger w @ [u] \<and> r = Return)"
  proof (cases r)
    case (Throw message)
    with m have l: "ledger w' = ledger w" by auto
    from assms(2) [of message] have "case h message w' of (r, w'') \<Rightarrow>
          ledger w'' = ledger w' \<or> (\<exists>u. ledger w'' = ledger w' @ [u] \<and> r = Return)"
      by (simp add: ending_def)
    with mw Throw l show ?thesis by (simp add: tryCatch_def)
  qed (use mw m in \<open>auto simp: tryCatch_def\<close>)
qed

lemma closing_andThen:
  assumes "ending m" and "\<And>x. closing (f x)"
  shows "closing (andThen m f)"
  unfolding closing_def
proof
  fix w
  obtain r w' where mw: "m w = (r, w')" by (cases "m w")
  with assms(1) have m: "ledger w' = ledger w \<or> (\<exists>u. ledger w' = ledger w @ [u] \<and> r = Return)"
    by (auto simp: ending_def split_beta dest: spec [of _ w])
  show "case andThen m f w of (r, w') \<Rightarrow>
          ledger w' = ledger w \<or>
          (\<exists>u. ledger w' = ledger w @ [u] \<and> (\<forall>message. r \<noteq> Throw message))"
  proof (cases r)
    case (Val x)
    with m have l: "ledger w' = ledger w" by auto
    from assms(2) [of x] have "case f x w' of (r, w'') \<Rightarrow>
          ledger w'' = ledger w' \<or>
          (\<exists>u. ledger w'' = ledger w' @ [u] \<and> (\<forall>message. r \<noteq> Throw message))"
      by (simp add: closing_def)
    with mw Val l show ?thesis by (simp add: andThen_def)
  qed (use mw m in \<open>auto simp: andThen_def\<close>)
qed

lemma closing_tryCatch:
  assumes "closing m" and "\<And>message. closing (h message)"
  shows "closing (tryCatch m h)"
  unfolding closing_def
proof
  fix w
  obtain r w' where mw: "m w = (r, w')" by (cases "m w")
  with assms(1) have m: "ledger w' = ledger w \<or>
      (\<exists>u. ledger w' = ledger w @ [u] \<and> (\<forall>message. r \<noteq> Throw message))"
    by (auto simp: closing_def split_beta dest: spec [of _ w])
  show "case tryCatch m h w of (r, w') \<Rightarrow>
          ledger w' = ledger w \<or>
          (\<exists>u. ledger w' = ledger w @ [u] \<and> (\<forall>message. r \<noteq> Throw message))"
  proof (cases r)
    case (Throw message)
    with m have l: "ledger w' = ledger w" by auto
    from assms(2) [of message] have "case h message w' of (r, w'') \<Rightarrow>
          ledger w'' = ledger w' \<or>
          (\<exists>u. ledger w'' = ledger w' @ [u] \<and> (\<forall>message. r \<noteq> Throw message))"
      by (simp add: closing_def)
    with mw Throw l show ?thesis by (simp add: tryCatch_def)
  qed (use mw m in \<open>auto simp: tryCatch_def\<close>)
qed

lemma ending_cases:
  "(b \<Longrightarrow> ending m) \<Longrightarrow> (\<not> b \<Longrightarrow> ending m') \<Longrightarrow> ending (if b then m else m')"
  "ending n \<Longrightarrow> (\<And>y. ending (g y)) \<Longrightarrow> ending (case x of None \<Rightarrow> n | Some y \<Rightarrow> g y)"
  "(\<And>a b. ending (f a b)) \<Longrightarrow> ending (case p of (a, b) \<Rightarrow> f a b)"
  "ending u \<Longrightarrow> ending (whenDo c u)"
  by (simp_all add: whenDo_def ending_quiet quiet_basic split: option.splits prod.splits)

lemma closing_cases:
  "(b \<Longrightarrow> closing m) \<Longrightarrow> (\<not> b \<Longrightarrow> closing m') \<Longrightarrow> closing (if b then m else m')"
  "closing n \<Longrightarrow> (\<And>y. closing (g y)) \<Longrightarrow> closing (case x of None \<Rightarrow> n | Some y \<Rightarrow> g y)"
  "(\<And>a b. closing (f a b)) \<Longrightarrow> closing (case p of (a, b) \<Rightarrow> f a b)"
  by (simp_all split: option.splits prod.splits)

lemmas ending_atoms =
  quiet_basic [THEN ending_quiet] quiet_calls [THEN ending_quiet]
  quiet_logAll [THEN ending_quiet] quiet_scanImage [THEN ending_quiet]
  quiet_saveScans [THEN ending_quiet] quiet_currentScan [THEN ending_quiet]

text \<open>The blocks that write: a write and \<^verbatim>\<open>return\<close>; the \<^verbatim>\<open>catch\<close> of the scan; the blocked
  update, the report of the success and the outer \<^verbatim>\<open>catch\<close>, when their notification is
  delivered.\<close>

lemma ending_write:
  "ending (andThen (doAll [log line, updateScheduleExecution u]) (\<lambda>_. returnNow))"
  by (simp add: ending_def prog_defs updateScheduleExecution_def)

lemma ending_scan_failed:
  "ending (andThen (doAll [log line, log line', removeTempImage e x,
                           updateScheduleExecution u]) (\<lambda>_. returnNow))"
  by (simp add: ending_def prog_defs updateScheduleExecution_def removeTempImage_def
        split: option.splits)

lemma ending_blockUpdate:
  "e_sendEventNotification e ''auto_update_blocked'' = None \<Longrightarrow>
   ending (blockUpdate e name tempTag n criteria reason rs summary)"
  by (simp add: ending_def blockUpdate_def prog_defs updateScheduleExecution_def
        removeTempImage_def sendEventNotification_def split: option.splits)

lemma closing_success:
  "e_sendEventNotification e ''auto_update_success'' = None \<Longrightarrow>
   closing (doAll [updateAutoUpdateLastUpdated e name, log line, updateScheduleExecution u,
                   sendEventNotification e ''auto_update_success''])"
  by (simp add: closing_def prog_defs updateScheduleExecution_def
        updateAutoUpdateLastUpdated_def sendEventNotification_def split: option.splits)

lemma closing_onError:
  "e_sendEventNotification e ''auto_update_failed'' = None \<Longrightarrow> closing (onError e message)"
  by (simp add: closing_def onError_def prog_defs updateScheduleExecution_def
        sendEventNotification_def)

lemmas ending_rules =
  ending_write ending_scan_failed ending_atoms ending_cases ending_andThen ending_tryCatch

lemma ending_scanStep:
  "e_sendEventNotification e ''auto_update_blocked'' = None \<Longrightarrow>
   ending (scanStep e name tempTag n cur criteria)"
  unfolding scanStep_def Let_def by (intro ending_rules ending_blockUpdate)

lemma ending_safePull:
  "e_sendEventNotification e ''auto_update_blocked'' = None \<Longrightarrow>
   ending (safePull e name img cur criteria)"
  unfolding safePull_def Let_def by (intro ending_rules ending_scanStep)

lemma ending_pullStep:
  "e_sendEventNotification e ''auto_update_blocked'' = None \<Longrightarrow>
   ending (pullStep e name img cur scanner criteria)"
  unfolding pullStep_def Let_def by (intro ending_rules ending_safePull)

lemma closing_applyUpdate:
  "e_sendEventNotification e ''auto_update_success'' = None \<Longrightarrow>
   closing (applyUpdate e name project service digest criteria rs summary)"
  unfolding applyUpdate_def Let_def
  by (intro closing_andThen closing_cases closing_success closing_ending [OF ending_quiet]
        ending_quiet quiet_intros)

lemmas closing_rules =
  ending_write [THEN closing_ending] closing_cases closing_andThen

lemma closing_updateBody:
  "e_sendEventNotification e ''auto_update_blocked'' = None \<Longrightarrow>
   e_sendEventNotification e ''auto_update_success'' = None \<Longrightarrow>
   closing (updateBody e name)"
  unfolding updateBody_def updateFound_def Let_def
  by (intro closing_rules closing_applyUpdate ending_pullStep ending_rules)

text \<open>
  When the notifications are delivered, a run adds at most one terminal write to the
  execution record, on every path.
\<close>

lemma terminal_write_once:
  assumes "\<And>eventType. e_sendEventNotification e eventType = None"
  shows "length (terminalWrites (snd (runContainerUpdate e name w)))
           \<le> length (terminalWrites w) + 1"
proof -
  let ?created = "\<lparr>u_status = Some running, u_startedAt = False, u_completedAt = False,
                   u_errorMessage = None, u_details = None\<rparr>"
  let ?started = "\<lparr>u_status = None, u_startedAt = True, u_completedAt = False,
                   u_errorMessage = None, u_details = None\<rparr>"
  let ?w = "w\<lparr>ledger := ledger w @ [?created, ?started]\<rparr>"
  have run: "runContainerUpdate e name w = tryCatch (updateBody e name) (onError e) ?w"
    by (simp add: runContainerUpdate_def createScheduleExecution_def
          updateScheduleExecution_def andThen_def modify_def)
  have "closing (tryCatch (updateBody e name) (onError e))"
    by (intro closing_tryCatch closing_updateBody closing_onError assms)
  then have "case tryCatch (updateBody e name) (onError e) ?w of (r, w') \<Rightarrow>
      ledger w' = ledger ?w \<or> (\<exists>u. ledger w' = ledger ?w @ [u] \<and> (\<forall>message. r \<noteq> Throw message))"
    unfolding closing_def by (rule spec)
  with run have "ledger (snd (runContainerUpdate e name w)) = ledger ?w \<or>
      (\<exists>u. ledger (snd (runContainerUpdate e name w)) = ledger ?w @ [u])"
    by (auto simp: split_beta)
  then show ?thesis
    by (auto simp: terminalWrites_def isTerminal_def)
qed

text \<open>
  C6.  The update of \<^verbatim>\<open>web-1\<close> succeeds and the execution is written as \<^verbatim>\<open>'success'\<close>;
  the notification of the success, which follows the write inside the outer \<^verbatim>\<open>try\<close>,
  cannot be delivered, and the \<^verbatim>\<open>catch\<close> writes \<^verbatim>\<open>'failed'\<close> over it: two terminal writes,
  where a run whose notifications are delivered makes at most one.
\<close>

theorem notification_failure_overwrites_success:
  "case runContainerUpdate exEnvNotifyFails ''web-1'' exWorld of
     (r, w) \<Rightarrow>
       r = Val () \<and>
       map u_status (terminalWrites w) = [Some success, Some failed] \<and>
       map u_errorMessage (terminalWrites w) = [None, Some ''smtp down''] \<and>
       finalStatus w = Some failed \<and>
       map k_id (conts w) = [''c2''] \<and>
       filter (\<lambda>c. case c of CNotify eventType \<Rightarrow> True | _ \<Rightarrow> False) (calls w) =
         [CNotify ''auto_update_success'', CNotify ''auto_update_failed'']"
  by (simp add: apply_defs exEnvNotifyFails_sel exParse_def exWorld_def exInspect_def
        exOptions_def)

end
